theory Spec2Isabelle
  imports Complex_Main "HOL-Library.Char_ord" "HOL-Library.List_Lexorder"
begin

section \<open>Decimal arithmetic\<close>

text \<open>
  Prices, quantities and returns are Python \<^verbatim>\<open>decimal.Decimal\<close> values, computed under
  the default context: 28 significant digits, rounding half to even. A finite decimal is
  a coefficient and an exponent, \<open>Dec c e\<close> standing for \<open>c * 10 ^ e\<close>. The sign is
  folded into the coefficient, so a negative zero is not told apart from zero. The special
  values (NaN, Infinity) and the exponent limits of the context (beyond \<open>10 ^ 999999\<close>)
  are outside this model.
\<close>

datatype decimal = Dec (coefficient: int) (exponent: int)

datatype error =
  DivisionByZero | InvalidOperation | ProviderError | DatabaseError | IntegrityError

definition prec :: nat where
  "prec = 28"

text \<open>\<open>ndigits n\<close> is \<^verbatim>\<open>len(str(n))\<close> for \<open>n \<ge> 0\<close>.\<close>

function ndigits :: "int \<Rightarrow> nat" where
  "ndigits n = (if n < 10 then 1 else Suc (ndigits (n div 10)))"
  by pat_completeness auto
termination
  by (relation "measure nat") auto

declare ndigits.simps [simp del]

text \<open>
  \<^verbatim>\<open>Decimal._fix\<close>: a coefficient of more than 28 digits is cut to 28, rounding half to
  even on the digits dropped; when rounding up carries into a 29th digit, the last digit
  (a zero) is dropped too.
\<close>

definition dec_fix :: "decimal \<Rightarrow> decimal" where
  "dec_fix d =
     (let a = \<bar>coefficient d\<bar>; nd = ndigits a in
      if nd \<le> prec then d
      else
        let k = nd - prec;
            q = a div 10 ^ k;
            r = a mod 10 ^ k;
            half = 5 * 10 ^ (k - 1);
            q1 = (if half < r \<or> (r = half \<and> odd q) then q + 1 else q)
        in if prec < ndigits q1
           then Dec (sgn (coefficient d) * (q1 div 10)) (exponent d + int k + 1)
           else Dec (sgn (coefficient d) * q1) (exponent d + int k))"

definition decimal_mul :: "decimal \<Rightarrow> decimal \<Rightarrow> decimal" where
  "decimal_mul a b = dec_fix (Dec (coefficient a * coefficient b) (exponent a + exponent b))"

definition decimal_add :: "decimal \<Rightarrow> decimal \<Rightarrow> decimal" where
  "decimal_add a b =
     (let e = min (exponent a) (exponent b) in
      dec_fix (Dec (coefficient a * 10 ^ nat (exponent a - e)
                    + coefficient b * 10 ^ nat (exponent b - e)) e))"

definition decimal_neg :: "decimal \<Rightarrow> decimal" where
  "decimal_neg a = Dec (- coefficient a) (exponent a)"

definition decimal_sub :: "decimal \<Rightarrow> decimal \<Rightarrow> decimal" where
  "decimal_sub a b = decimal_add a (decimal_neg b)"

text \<open>
  The loop of \<^verbatim>\<open>Decimal.__truediv__\<close> that brings an exact quotient as close to the
  ideal exponent as its trailing zeros allow.
\<close>

function strip_zeros :: "int \<Rightarrow> int \<Rightarrow> int \<Rightarrow> int \<times> int" where
  "strip_zeros coeff ex ideal =
     (if ex < ideal \<and> coeff mod 10 = 0
      then strip_zeros (coeff div 10) (ex + 1) ideal
      else (coeff, ex))"
  by pat_completeness auto
termination
  by (relation "measure (\<lambda>(coeff, ex, ideal). nat (ideal - ex))") auto

declare strip_zeros.simps [simp del]

text \<open>
  \<^verbatim>\<open>Decimal.__truediv__\<close> for a divisor that is not zero, before the final rounding:
  the quotient is computed to one digit more than the precision, with a sticky last
  digit when the division leaves a remainder.
\<close>

definition dec_quotient :: "decimal \<Rightarrow> decimal \<Rightarrow> decimal" where
  "dec_quotient a b =
     (if coefficient a = 0 then Dec 0 (exponent a - exponent b)
      else
        let x = \<bar>coefficient a\<bar>; y = \<bar>coefficient b\<bar>;
            s = sgn (coefficient a) * sgn (coefficient b);
            shift = int (ndigits y) - int (ndigits x) + int prec + 1;
            ex = exponent a - exponent b - shift;
            n = (if 0 \<le> shift then x * 10 ^ nat shift else x);
            m = (if 0 \<le> shift then y else y * 10 ^ nat (- shift));
            coeff = n div m;
            rem = n mod m
        in if rem \<noteq> 0
           then Dec (s * (if coeff mod 5 = 0 then coeff + 1 else coeff)) ex
           else (case strip_zeros coeff ex (exponent a - exponent b) of
                   (c, e) \<Rightarrow> Dec (s * c) e))"

text \<open>
  \<^verbatim>\<open>Decimal.__truediv__\<close>. A zero divisor raises (both signals are trapped by the
  default context): that is the \<open>Inl\<close> result.
\<close>

definition decimal_truediv :: "decimal \<Rightarrow> decimal \<Rightarrow> error + decimal" where
  "decimal_truediv a b =
     (if coefficient b = 0 then
        (if coefficient a = 0 then Inl InvalidOperation else Inl DivisionByZero)
      else Inr (dec_fix (dec_quotient a b)))"

text \<open>Comparison is by numeric value: both coefficients are brought to the smaller exponent.\<close>

definition decimal_cmp :: "decimal \<Rightarrow> decimal \<Rightarrow> int" where
  "decimal_cmp a b =
     (let e = min (exponent a) (exponent b);
          x = coefficient a * 10 ^ nat (exponent a - e);
          y = coefficient b * 10 ^ nat (exponent b - e)
      in if x < y then - 1 else if x = y then 0 else 1)"

definition decimal_gt :: "decimal \<Rightarrow> decimal \<Rightarrow> bool" where
  "decimal_gt a b = (0 < decimal_cmp a b)"

definition decimal_lt :: "decimal \<Rightarrow> decimal \<Rightarrow> bool" where
  "decimal_lt a b = (decimal_cmp a b < 0)"

text \<open>The rational number a decimal stands for; used in statements only.\<close>

definition dec_val :: "decimal \<Rightarrow> rat" where
  "dec_val d = of_int (coefficient d) * power_int 10 (exponent d)"

section \<open>Data model (app/models.py)\<close>

text \<open>
  A \<^verbatim>\<open>datetime\<close> is a count of microseconds, its resolution in Python. A symbol is a
  string. \<^verbatim>\<open>str.upper\<close> is modelled on ASCII letters, the alphabet of ticker symbols.
\<close>

type_synonym symbol = string
type_synonym datetime = int

definition upper_char :: "char \<Rightarrow> char" where
  "upper_char c =
     (case map_of (zip ''abcdefghijklmnopqrstuvwxyz'' ''ABCDEFGHIJKLMNOPQRSTUVWXYZ'') c of
        Some u \<Rightarrow> u
      | None \<Rightarrow> c)"

definition upper :: "string \<Rightarrow> string" where
  "upper s = map upper_char s"

datatype AssetType = STOCK | CRYPTOCURRENCY

record Portfolio =
  id' :: "int option"
  name :: string
  description :: string
  created_at :: datetime
  updated_at :: datetime

record Holding =
  id' :: "int option"
  portfolio_id :: int
  symbol :: symbol
  asset_type :: AssetType
  quantity :: decimal
  purchase_price :: decimal
  purchase_date :: datetime
  notes' :: string
  created_at :: datetime
  updated_at :: datetime

record PriceHistory =
  id' :: "int option"
  symbol :: symbol
  price :: decimal
  timestamp :: datetime
  source :: string

record HoldingCreate =
  portfolio_id :: int
  symbol :: symbol
  asset_type :: AssetType
  quantity :: decimal
  purchase_price :: decimal
  purchase_date :: "datetime option"
  notes' :: string

record HoldingUpdate =
  symbol :: "symbol option"
  asset_type :: "AssetType option"
  quantity :: "decimal option"
  purchase_price :: "decimal option"
  purchase_date :: "datetime option"
  notes' :: "string option"

record HoldingWithMetrics =
  id' :: int
  portfolio_id :: int
  symbol :: symbol
  asset_type :: AssetType
  quantity :: decimal
  purchase_price :: decimal
  purchase_date :: datetime
  notes' :: string
  created_at :: datetime
  updated_at :: datetime
  current_price :: "decimal option"
  current_value :: "decimal option"
  total_cost :: "decimal option"
  absolute_return :: "decimal option"
  percentage_return :: "decimal option"
  last_updated :: "datetime option"

record PortfolioSummary =
  portfolio_id :: int
  portfolio_name :: string
  total_holdings :: nat
  total_cost :: decimal
  total_current_value :: decimal
  total_absolute_return :: decimal
  total_percentage_return :: decimal
  best_performer :: "symbol option"
  worst_performer :: "symbol option"
  last_updated :: datetime

text \<open>
  The relational store behind \<^verbatim>\<open>get_session()\<close>: one list of rows per table, in
  insertion order.
\<close>

record database =
  portfolios :: "Portfolio list"
  holdings :: "Holding list"
  price_history :: "PriceHistory list"

section \<open>The price service (app/price_service.py)\<close>

subsection \<open>The throttler\<close>

record SimpleThrottler =
  rate_limit :: nat
  period :: nat

text \<open>
  \<^verbatim>\<open>__aenter__\<close> returns the throttler itself and awaits nothing: the caller goes on at
  the instant it entered, and nothing is counted. \<^verbatim>\<open>__aexit__\<close> does nothing.
\<close>

definition aenter :: "SimpleThrottler \<Rightarrow> datetime \<Rightarrow> SimpleThrottler \<times> datetime" where
  "aenter self entered = (self, entered)"

definition aexit :: "SimpleThrottler \<Rightarrow> SimpleThrottler" where
  "aexit self = self"

subsection \<open>The quote provider and the other collaborators\<close>

text \<open>
  A value found in the provider's \<^verbatim>\<open>info\<close> dictionary or in the \<^verbatim>\<open>Close\<close> column:
  \<^verbatim>\<open>None\<close>, a value \<open>v\<close> for which \<^verbatim>\<open>Decimal(str(v))\<close> is the decimal \<open>d\<close>, or a value
  whose text is no decimal literal, for which \<^verbatim>\<open>Decimal(str(v))\<close> raises. (A float
  that is NaN or infinite converts to a special decimal: outside the model, as those are.)
\<close>

datatype py_value = PyNone | PyNumber decimal | PyOther

definition to_decimal :: "py_value \<Rightarrow> error + decimal" where
  "to_decimal v = (case v of PyNumber d \<Rightarrow> Inr d | PyNone \<Rightarrow> Inl InvalidOperation
                   | PyOther \<Rightarrow> Inl InvalidOperation)"

text \<open>
  A \<^verbatim>\<open>yf.Ticker\<close> object: reading \<^verbatim>\<open>ticker.info\<close> raises or gives a dictionary;
  \<^verbatim>\<open>ticker.history(period="1d")\<close> raises or gives a frame, of which the model keeps the
  \<^verbatim>\<open>Close\<close> column, oldest row first (the empty list is the empty frame).
\<close>

record Ticker =
  info :: "error + (string \<rightharpoonup> py_value)"
  history :: "error + py_value list"

text \<open>
  What the world outside the service does during one call of \<^verbatim>\<open>get_current_price\<close>:
  the provider's answer to \<^verbatim>\<open>yf.Ticker(symbol)\<close>, the three readings of
  \<^verbatim>\<open>datetime.now()\<close> (at the cache lookup, at the cache store, at the history row), and
  whether the database session works (a session that fails raises inside the
  \<^verbatim>\<open>try\<close> blocks of the two database helpers).
\<close>

record env =
  yf_Ticker :: "symbol \<Rightarrow> error + Ticker"
  now_lookup :: datetime
  now_cached :: datetime
  now_stored :: datetime
  db_ok :: bool

text \<open>The calls a resolution makes to its collaborators, in the order it makes them.\<close>

datatype event =
    Acquire
  | Release
  | TickerCall symbol
  | InfoRead symbol
  | HistoryCall symbol
  | StoreHistory symbol decimal
  | QueryHistory symbol

subsection \<open>The service\<close>

record PriceService =
  throttler :: SimpleThrottler
  price_cache :: "symbol \<rightharpoonup> decimal \<times> datetime"
  cache_duration :: int

definition PriceService_init :: PriceService where
  "PriceService_init =
     \<lparr>throttler = \<lparr>rate_limit = 10, period = 60\<rparr>, price_cache = Map.empty, cache_duration = 300\<rparr>"

text \<open>
  \<^verbatim>\<open>timedelta.total_seconds()\<close>. Python returns the float nearest to this quotient; a
  multiple of a microsecond below 300 is never rounded up to 300, so the comparison with
  the cache duration is the comparison of the exact quotient.
\<close>

definition total_seconds :: "int \<Rightarrow> rat" where
  "total_seconds delta = of_int delta / 1000000"

text \<open>The cache check at the head of \<^verbatim>\<open>get_current_price\<close> (lines 34 to 37).\<close>

definition cache_lookup :: "PriceService \<Rightarrow> datetime \<Rightarrow> symbol \<Rightarrow> decimal option" where
  "cache_lookup self now symb =
     (case price_cache self symb of
        None \<Rightarrow> None
      | Some (cached_price, cached_time) \<Rightarrow>
          if total_seconds (now - cached_time) < of_int (cache_duration self)
          then Some cached_price else None)"

definition price_fields :: "string list" where
  "price_fields = [''currentPrice'', ''regularMarketPrice'', ''price'', ''lastPrice'']"

text \<open>
  The loop over the price fields (lines 48 to 52): the first field that is in the
  dictionary and is not \<^verbatim>\<open>None\<close> is converted, and the loop ends there.
\<close>

fun probe_fields :: "string list \<Rightarrow> (string \<rightharpoonup> py_value) \<Rightarrow> error + decimal option" where
  "probe_fields [] dict = Inr None"
| "probe_fields (f # fs) dict =
     (case dict f of
        None \<Rightarrow> probe_fields fs dict
      | Some v \<Rightarrow>
          if v \<noteq> PyNone
          then (case to_decimal v of Inl e \<Rightarrow> Inl e | Inr d \<Rightarrow> Inr (Some d))
          else probe_fields fs dict)"

text \<open>
  The body of the \<^verbatim>\<open>try\<close> up to the point where the price is known (lines 43 to 58):
  the price found, no price, or the exception raised, with the provider calls made.
\<close>

definition fetch_price :: "env \<Rightarrow> symbol \<Rightarrow> (error + decimal option) \<times> event list" where
  "fetch_price w symb =
     (case yf_Ticker w symb of
        Inl e \<Rightarrow> (Inl e, [TickerCall symb])
      | Inr ticker \<Rightarrow>
         (case info ticker of
            Inl e \<Rightarrow> (Inl e, [TickerCall symb, InfoRead symb])
          | Inr dict \<Rightarrow>
             (case probe_fields price_fields dict of
                Inl e \<Rightarrow> (Inl e, [TickerCall symb, InfoRead symb])
              | Inr (Some p) \<Rightarrow> (Inr (Some p), [TickerCall symb, InfoRead symb])
              | Inr None \<Rightarrow>
                 (case history ticker of
                    Inl e \<Rightarrow> (Inl e, [TickerCall symb, InfoRead symb, HistoryCall symb])
                  | Inr closes \<Rightarrow>
                     if closes = []
                     then (Inr None, [TickerCall symb, InfoRead symb, HistoryCall symb])
                     else (case to_decimal (last closes) of
                             Inl e \<Rightarrow> (Inl e, [TickerCall symb, InfoRead symb, HistoryCall symb])
                           | Inr p \<Rightarrow>
                               (Inr (Some p), [TickerCall symb, InfoRead symb, HistoryCall symb]))))))"

text \<open>
  The same choice in the words of the specification: a field is present when the
  dictionary has it with a value other than \<^verbatim>\<open>None\<close>, and the preferred field is the
  first present one in the order current price, regular-market price, generic price,
  last price. \<open>probe_fields_preferred\<close> below relates the loop to it.
\<close>

definition present :: "(string \<rightharpoonup> py_value) \<Rightarrow> string \<Rightarrow> bool" where
  "present dict f = (case dict f of None \<Rightarrow> False | Some v \<Rightarrow> v \<noteq> PyNone)"

definition preferred_field :: "(string \<rightharpoonup> py_value) \<Rightarrow> py_value option" where
  "preferred_field dict =
     (if present dict ''currentPrice'' then dict ''currentPrice''
      else if present dict ''regularMarketPrice'' then dict ''regularMarketPrice''
      else if present dict ''price'' then dict ''price''
      else if present dict ''lastPrice'' then dict ''lastPrice''
      else None)"

text \<open>
  \<^verbatim>\<open>_store_price_history\<close>: one row is appended; an exception of the session is caught
  and printed, and the table stays as it was.
\<close>

definition store_price_history :: "database \<Rightarrow> env \<Rightarrow> symbol \<Rightarrow> decimal \<Rightarrow> database" where
  "store_price_history db w symb p =
     (if db_ok w
      then db\<lparr>price_history := price_history db @
             [\<lparr>PriceHistory.id' = Some (int (length (price_history db)) + 1),
               PriceHistory.symbol = symb, price = p,
               timestamp = now_stored w, source = ''yfinance''\<rparr>]\<rparr>
      else db)"

text \<open>
  The row that \<^verbatim>\<open>order_by(desc(timestamp)).limit(1)\<close> selects: one with the greatest
  timestamp. Among rows of equal timestamp the database is free to choose; the model takes
  the one inserted first.
\<close>

fun latest :: "PriceHistory list \<Rightarrow> PriceHistory option" where
  "latest [] = None"
| "latest (r # rs) =
     (case latest rs of
        None \<Rightarrow> Some r
      | Some r' \<Rightarrow> if timestamp r < timestamp r' then Some r' else Some r)"

text \<open>
  \<^verbatim>\<open>_get_last_known_price\<close>: the price of the latest row of the symbol, \<^verbatim>\<open>None\<close> when
  there is none or when the session raises.
\<close>

definition get_last_known_price :: "database \<Rightarrow> env \<Rightarrow> symbol \<Rightarrow> decimal option" where
  "get_last_known_price db w symb =
     (if db_ok w
      then (case latest (filter (\<lambda>r. PriceHistory.symbol r = symb) (price_history db)) of
              None \<Rightarrow> None
            | Some r \<Rightarrow> Some (price r))
      else None)"

text \<open>
  \<^verbatim>\<open>get_current_price\<close>: the result, the service and the database after the call, and
  the calls made. Every exception of the \<^verbatim>\<open>try\<close> body is caught, so the call itself
  never raises. The throttler is entered before the \<^verbatim>\<open>try\<close> and left after it; it has
  no state that either could change.
\<close>

definition get_current_price ::
  "PriceService \<Rightarrow> database \<Rightarrow> env \<Rightarrow> symbol
     \<Rightarrow> decimal option \<times> PriceService \<times> database \<times> event list" where
  "get_current_price self db w symb =
     (case cache_lookup self (now_lookup w) symb of
        Some cached_price \<Rightarrow> (Some cached_price, self, db, [])
      | None \<Rightarrow>
         (case aenter (throttler self) (now_lookup w) of
            (th, entered) \<Rightarrow>
              (case fetch_price w symb of
                 (Inr (Some p), calls) \<Rightarrow>
                   (Some p,
                    self\<lparr>price_cache := (price_cache self)(symb \<mapsto> (p, now_cached w))\<rparr>,
                    store_price_history db w symb p,
                    Acquire # calls @ [StoreHistory symb p, Release])
               | (Inr None, calls) \<Rightarrow> (None, self, db, Acquire # calls @ [Release])
               | (Inl e, calls) \<Rightarrow>
                   (get_last_known_price db w symb, self, db,
                    Acquire # calls @ [QueryHistory symb, Release]))))"

text \<open>
  \<^verbatim>\<open>asyncio.gather(*tasks, return_exceptions=True)\<close> gives one result for each task, in
  the order of the tasks: what the task returned, or the exception it raised. How the
  tasks interleave is the scheduler's business; \<open>run i symb\<close> is the result of the task at
  position \<open>i\<close>, which resolves \<open>symb\<close>.
\<close>

definition gather ::
  "(nat \<Rightarrow> symbol \<Rightarrow> error + decimal option) \<Rightarrow> symbol list \<Rightarrow> (error + decimal option) list" where
  "gather run symbols = map (\<lambda>(i, symb). run i symb) (enumerate 0 symbols)"

text \<open>The loop of \<^verbatim>\<open>get_multiple_prices\<close> over \<^verbatim>\<open>zip(symbols, results)\<close>.\<close>

fun price_dict_loop ::
  "(symbol \<times> (error + decimal option)) list \<Rightarrow> (symbol \<rightharpoonup> decimal option)
     \<Rightarrow> (symbol \<rightharpoonup> decimal option)" where
  "price_dict_loop [] price_dict = price_dict"
| "price_dict_loop ((symb, result) # rest) price_dict =
     price_dict_loop rest
       (price_dict(symb \<mapsto> (case result of Inl e \<Rightarrow> None | Inr p \<Rightarrow> p)))"

text \<open>What the loop stores for a result: \<^verbatim>\<open>None\<close> for an exception.\<close>

definition as_price :: "error + decimal option \<Rightarrow> decimal option" where
  "as_price result = (case result of Inl e \<Rightarrow> None | Inr p \<Rightarrow> p)"

definition get_multiple_prices ::
  "(nat \<Rightarrow> symbol \<Rightarrow> error + decimal option) \<Rightarrow> symbol list \<Rightarrow> (symbol \<rightharpoonup> decimal option)" where
  "get_multiple_prices run symbols =
     price_dict_loop (zip symbols (gather run symbols)) Map.empty"

definition clear_cache :: "PriceService \<Rightarrow> PriceService" where
  "clear_cache self = self\<lparr>price_cache := Map.empty\<rparr>"

text \<open>
  A caller that awaits one resolution after the other, each in its own surroundings; the
  calls made are collected in order.
\<close>

fun resolve_each ::
  "PriceService \<Rightarrow> database \<Rightarrow> (env \<times> symbol) list \<Rightarrow> PriceService \<times> database \<times> event list" where
  "resolve_each self db [] = (self, db, [])"
| "resolve_each self db ((w, symb) # rest) =
     (case get_current_price self db w symb of
        (result, self', db', calls) \<Rightarrow>
          (case resolve_each self' db' rest of
             (self'', db'', calls') \<Rightarrow> (self'', db'', calls @ calls')))"

section \<open>The portfolio service (app/portfolio_service.py)\<close>

text \<open>
  These methods have no handler: an exception of the session reaches their caller and
  nothing is stored. The one the model keeps is the foreign key of a holding: the commit
  of a holding whose \<^verbatim>\<open>portfolio_id\<close> is the key of no portfolio raises an integrity
  error. Apart from that the session is taken to work. The key of a new row is the next
  one after the greatest key of its table. The readings of \<^verbatim>\<open>datetime.utcnow()\<close>
  within one call are one instant, \<open>now\<close>.
\<close>

definition get_portfolio :: "database \<Rightarrow> int \<Rightarrow> Portfolio option" where
  "get_portfolio db pid = find (\<lambda>p. Portfolio.id' p = Some pid) (portfolios db)"

definition next_id :: "int option list \<Rightarrow> int" where
  "next_id keys = fold (\<lambda>k m. case k of None \<Rightarrow> m | Some i \<Rightarrow> max i m) keys 0 + 1"

definition add_holding ::
  "database \<Rightarrow> HoldingCreate \<Rightarrow> datetime \<Rightarrow> error + Holding \<times> database" where
  "add_holding db holding_data now =
     (let holding =
        \<lparr>Holding.id' = Some (next_id (map Holding.id' (holdings db))),
         Holding.portfolio_id = HoldingCreate.portfolio_id holding_data,
         Holding.symbol = upper (HoldingCreate.symbol holding_data),
         Holding.asset_type = HoldingCreate.asset_type holding_data,
         Holding.quantity = HoldingCreate.quantity holding_data,
         Holding.purchase_price = HoldingCreate.purchase_price holding_data,
         Holding.purchase_date =
           (case HoldingCreate.purchase_date holding_data of Some d \<Rightarrow> d | None \<Rightarrow> now),
         Holding.notes' = HoldingCreate.notes' holding_data,
         Holding.created_at = now,
         Holding.updated_at = now\<rparr>
      in case get_portfolio db (HoldingCreate.portfolio_id holding_data) of
           None \<Rightarrow> Inl IntegrityError
         | Some portfolio \<Rightarrow> Inr (holding, db\<lparr>holdings := holdings db @ [holding]\<rparr>))"

definition get_holding :: "database \<Rightarrow> int \<Rightarrow> Holding option" where
  "get_holding db holding_id = find (\<lambda>h. Holding.id' h = Some holding_id) (holdings db)"

text \<open>\<^verbatim>\<open>order_by(Holding.symbol)\<close>: rows of equal symbol stay in insertion order.\<close>

definition get_portfolio_holdings :: "database \<Rightarrow> int \<Rightarrow> Holding list" where
  "get_portfolio_holdings db pid =
     sort_key Holding.symbol (filter (\<lambda>h. Holding.portfolio_id h = pid) (holdings db))"

definition update_holding ::
  "database \<Rightarrow> int \<Rightarrow> HoldingUpdate \<Rightarrow> datetime \<Rightarrow> Holding option \<times> database" where
  "update_holding db holding_id holding_data now =
     (case get_holding db holding_id of
        None \<Rightarrow> (None, db)
      | Some holding \<Rightarrow>
          let h1 = (case HoldingUpdate.symbol holding_data of
                      None \<Rightarrow> holding | Some s \<Rightarrow> holding\<lparr>Holding.symbol := upper s\<rparr>);
              h2 = (case HoldingUpdate.asset_type holding_data of
                      None \<Rightarrow> h1 | Some a \<Rightarrow> h1\<lparr>Holding.asset_type := a\<rparr>);
              h3 = (case HoldingUpdate.quantity holding_data of
                      None \<Rightarrow> h2 | Some q \<Rightarrow> h2\<lparr>Holding.quantity := q\<rparr>);
              h4 = (case HoldingUpdate.purchase_price holding_data of
                      None \<Rightarrow> h3 | Some p \<Rightarrow> h3\<lparr>Holding.purchase_price := p\<rparr>);
              h5 = (case HoldingUpdate.purchase_date holding_data of
                      None \<Rightarrow> h4 | Some d \<Rightarrow> h4\<lparr>Holding.purchase_date := d\<rparr>);
              h6 = (case HoldingUpdate.notes' holding_data of
                      None \<Rightarrow> h5 | Some n \<Rightarrow> h5\<lparr>Holding.notes' := n\<rparr>);
              h7 = h6\<lparr>Holding.updated_at := now\<rparr>
          in (Some h7,
              db\<lparr>holdings :=
                   map (\<lambda>h. if Holding.id' h = Some holding_id then h7 else h) (holdings db)\<rparr>))"

text \<open>
  The body of the loop of \<^verbatim>\<open>get_holdings_with_metrics\<close> (lines 157 to 188) for a
  holding whose key is \<open>hid\<close>. The division can raise, were it reached with a zero total
  cost: the model keeps that branch.
\<close>

definition holding_metrics ::
  "Holding \<Rightarrow> int \<Rightarrow> decimal option \<Rightarrow> datetime \<Rightarrow> error + HoldingWithMetrics" where
  "holding_metrics holding hid cur now =
     (let tc = decimal_mul (Holding.quantity holding) (Holding.purchase_price holding);
          build = (\<lambda>cv ar pr.
            \<lparr>HoldingWithMetrics.id' = hid,
             HoldingWithMetrics.portfolio_id = Holding.portfolio_id holding,
             HoldingWithMetrics.symbol = Holding.symbol holding,
             HoldingWithMetrics.asset_type = Holding.asset_type holding,
             HoldingWithMetrics.quantity = Holding.quantity holding,
             HoldingWithMetrics.purchase_price = Holding.purchase_price holding,
             HoldingWithMetrics.purchase_date = Holding.purchase_date holding,
             HoldingWithMetrics.notes' = Holding.notes' holding,
             HoldingWithMetrics.created_at = Holding.created_at holding,
             HoldingWithMetrics.updated_at = Holding.updated_at holding,
             current_price = cur,
             current_value = cv,
             HoldingWithMetrics.total_cost = Some tc,
             absolute_return = ar,
             percentage_return = pr,
             HoldingWithMetrics.last_updated = Some now\<rparr>)
      in case cur of
           None \<Rightarrow> Inr (build None None None)
         | Some cp \<Rightarrow>
             let cv = decimal_mul (Holding.quantity holding) cp;
                 ar = decimal_sub cv tc
             in if decimal_gt tc (Dec 0 0)
                then (case decimal_truediv ar tc of
                        Inl e \<Rightarrow> Inl e
                      | Inr quot \<Rightarrow> Inr (build (Some cv) (Some ar) (Some (decimal_mul quot (Dec 100 0)))))
                else Inr (build (Some cv) (Some ar) None))"

text \<open>\<^verbatim>\<open>prices.get(symbol)\<close>: \<^verbatim>\<open>None\<close> for a missing key as for a key that holds \<^verbatim>\<open>None\<close>.\<close>

definition dict_get :: "(symbol \<rightharpoonup> decimal option) \<Rightarrow> symbol \<Rightarrow> decimal option" where
  "dict_get prices symb = (case prices symb of None \<Rightarrow> None | Some v \<Rightarrow> v)"

fun metrics_loop ::
  "Holding list \<Rightarrow> (symbol \<rightharpoonup> decimal option) \<Rightarrow> datetime \<Rightarrow> HoldingWithMetrics list
     \<Rightarrow> error + HoldingWithMetrics list" where
  "metrics_loop [] prices now acc = Inr acc"
| "metrics_loop (holding # rest) prices now acc =
     (case Holding.id' holding of
        None \<Rightarrow> metrics_loop rest prices now acc
      | Some hid \<Rightarrow>
          (case holding_metrics holding hid (dict_get prices (Holding.symbol holding)) now of
             Inl e \<Rightarrow> Inl e
           | Inr m \<Rightarrow> metrics_loop rest prices now (acc @ [m])))"

definition get_holdings_with_metrics ::
  "(nat \<Rightarrow> symbol \<Rightarrow> error + decimal option) \<Rightarrow> database \<Rightarrow> int \<Rightarrow> datetime
     \<Rightarrow> error + HoldingWithMetrics list" where
  "get_holdings_with_metrics run db pid now =
     (let hs = get_portfolio_holdings db pid in
      if hs = [] then Inr []
      else
        let symbols = map Holding.symbol hs;
            prices = get_multiple_prices run symbols
        in metrics_loop hs prices now [])"

text \<open>The first loop of \<^verbatim>\<open>get_portfolio_summary\<close> (lines 217 to 221).\<close>

fun totals_loop :: "HoldingWithMetrics list \<Rightarrow> decimal \<times> decimal \<Rightarrow> decimal \<times> decimal" where
  "totals_loop [] acc = acc"
| "totals_loop (h # rest) (tc, tcv) =
     totals_loop rest
       ((case HoldingWithMetrics.total_cost h of None \<Rightarrow> tc | Some c \<Rightarrow> decimal_add tc c),
        (case current_value h of None \<Rightarrow> tcv | Some v \<Rightarrow> decimal_add tcv v))"

text \<open>
  The second loop (lines 234 to 241); the state is \<open>(best_performer, best_return)\<close> and
  \<open>(worst_performer, worst_return)\<close>.
\<close>

fun performers_loop ::
  "HoldingWithMetrics list
     \<Rightarrow> (symbol option \<times> decimal option) \<times> (symbol option \<times> decimal option)
     \<Rightarrow> (symbol option \<times> decimal option) \<times> (symbol option \<times> decimal option)" where
  "performers_loop [] acc = acc"
| "performers_loop (h # rest) ((bp, br), (wp, wr)) =
     (case percentage_return h of
        None \<Rightarrow> performers_loop rest ((bp, br), (wp, wr))
      | Some pr \<Rightarrow>
          performers_loop rest
            ((case br of
                None \<Rightarrow> (Some (HoldingWithMetrics.symbol h), Some pr)
              | Some b \<Rightarrow>
                  if decimal_gt pr b then (Some (HoldingWithMetrics.symbol h), Some pr)
                  else (bp, br)),
             (case wr of
                None \<Rightarrow> (Some (HoldingWithMetrics.symbol h), Some pr)
              | Some b \<Rightarrow>
                  if decimal_lt pr b then (Some (HoldingWithMetrics.symbol h), Some pr)
                  else (wp, wr))))"

definition get_portfolio_summary ::
  "(nat \<Rightarrow> symbol \<Rightarrow> error + decimal option) \<Rightarrow> database \<Rightarrow> int \<Rightarrow> datetime
     \<Rightarrow> error + PortfolioSummary option" where
  "get_portfolio_summary run db pid now =
     (case get_portfolio db pid of
        None \<Rightarrow> Inr None
      | Some portfolio \<Rightarrow>
         (case get_holdings_with_metrics run db pid now of
            Inl e \<Rightarrow> Inl e
          | Inr hwm \<Rightarrow>
              if hwm = [] then
                Inr (Some \<lparr>PortfolioSummary.portfolio_id = pid, portfolio_name = name portfolio,
                           total_holdings = 0,
                           PortfolioSummary.total_cost = Dec 0 0,
                           total_current_value = Dec 0 0,
                           total_absolute_return = Dec 0 0,
                           total_percentage_return = Dec 0 0,
                           best_performer = None, worst_performer = None,
                           PortfolioSummary.last_updated = now\<rparr>)
              else
                (case totals_loop hwm (Dec 0 0, Dec 0 0) of
                   (tc, tcv) \<Rightarrow>
                     let tar = decimal_sub tcv tc;
                         perf = performers_loop hwm ((None, None), (None, None));
                         build = (\<lambda>tpr.
                           \<lparr>PortfolioSummary.portfolio_id = pid, portfolio_name = name portfolio,
                            total_holdings = length hwm,
                            PortfolioSummary.total_cost = tc,
                            total_current_value = tcv,
                            total_absolute_return = tar,
                            total_percentage_return = tpr,
                            best_performer = fst (fst perf), worst_performer = fst (snd perf),
                            PortfolioSummary.last_updated = now\<rparr>)
                     in if decimal_gt tc (Dec 0 0)
                        then (case decimal_truediv tar tc of
                                Inl e \<Rightarrow> Inl e
                              | Inr quot \<Rightarrow> Inr (Some (build (decimal_mul quot (Dec 100 0)))))
                        else Inr (Some (build (Dec 0 0))))))"

section \<open>The claims' notions\<close>

text \<open>
  The definitions of this section are written from the words of the specification, to be
  compared with what the code computes.
\<close>

text \<open>
  The metrics of a valued holding \<open>m\<close> are those the specification gives for the holding
  \<open>h\<close> and the resolved price \<open>cur\<close>: the total cost always; value and returns from the
  price when there is one, with no percentage when the total cost is zero; nothing but the
  total cost when there is no price.
\<close>

definition metrics_as_specified :: "Holding \<Rightarrow> decimal option \<Rightarrow> HoldingWithMetrics \<Rightarrow> bool" where
  "metrics_as_specified h cur m =
     (let tc = decimal_mul (Holding.quantity h) (Holding.purchase_price h) in
      HoldingWithMetrics.total_cost m = Some tc \<and> current_price m = cur \<and>
      (case cur of
         None \<Rightarrow> current_value m = None \<and> absolute_return m = None \<and> percentage_return m = None
       | Some cp \<Rightarrow>
           (let cv = decimal_mul (Holding.quantity h) cp; ar = decimal_sub cv tc in
            current_value m = Some cv \<and> absolute_return m = Some ar \<and>
            (if dec_val tc = 0 then percentage_return m = None
             else (\<exists>quot. decimal_truediv ar tc = Inr quot
                     \<and> percentage_return m = Some (decimal_mul quot (Dec 100 0)))))))"

text \<open>The sum of a list of decimals, added up from zero in the order of the list.\<close>

definition dec_sum :: "decimal list \<Rightarrow> decimal" where
  "dec_sum xs = foldl decimal_add (Dec 0 0) xs"

text \<open>
  The relative error of one rounding to 28 digits, half a unit of the last digit kept,
  and the bound it gives on a sum of \<open>n\<close> terms added one after the other.
\<close>

definition rounding_unit :: rat where
  "rounding_unit = 5 / 10 ^ 28"

definition rounding_bound :: "nat \<Rightarrow> rat" where
  "rounding_bound n = (1 + rounding_unit) ^ n - 1"

text \<open>
  The holdings that have a percentage return, and the first holding of a list that
  reaches the greatest (or the least) return of the list: every holding before it has a
  strictly smaller (greater) return, none after it has a greater (smaller) one.
\<close>

definition return_of :: "HoldingWithMetrics \<Rightarrow> rat" where
  "return_of m = (case percentage_return m of None \<Rightarrow> 0 | Some r \<Rightarrow> dec_val r)"

definition with_return :: "HoldingWithMetrics list \<Rightarrow> HoldingWithMetrics list" where
  "with_return ms = filter (\<lambda>m. percentage_return m \<noteq> None) ms"

definition first_max :: "HoldingWithMetrics list \<Rightarrow> HoldingWithMetrics \<Rightarrow> bool" where
  "first_max rs b =
     (\<exists>pre post. rs = pre @ b # post
        \<and> (\<forall>x \<in> set pre. return_of x < return_of b)
        \<and> (\<forall>x \<in> set post. return_of x \<le> return_of b))"

definition first_min :: "HoldingWithMetrics list \<Rightarrow> HoldingWithMetrics \<Rightarrow> bool" where
  "first_min rs w =
     (\<exists>pre post. rs = pre @ w # post
        \<and> (\<forall>x \<in> set pre. return_of w < return_of x)
        \<and> (\<forall>x \<in> set post. return_of w \<le> return_of x))"

text \<open>What the scan for the performers holds after a prefix of the list.\<close>

definition scanned ::
  "HoldingWithMetrics list
     \<Rightarrow> (symbol option \<times> decimal option) \<times> (symbol option \<times> decimal option) \<Rightarrow> bool" where
  "scanned rs acc =
     (if rs = [] then acc = ((None, None), (None, None))
      else (\<exists>b w. first_max rs b \<and> first_min rs w
              \<and> acc = ((Some (HoldingWithMetrics.symbol b), percentage_return b),
                       (Some (HoldingWithMetrics.symbol w), percentage_return w))))"

text \<open>Every stored holding has its symbol in upper case.\<close>

definition canonical :: "database \<Rightarrow> bool" where
  "canonical db = list_all (\<lambda>h. upper (Holding.symbol h) = Holding.symbol h) (holdings db)"

section \<open>Example inputs\<close>

text \<open>
  Concrete providers, surroundings, databases and services, at which the theorems below
  are evaluated.
\<close>

definition silent_ticker :: Ticker where
  "silent_ticker = \<lparr>info = Inr Map.empty, history = Inr []\<rparr>"

definition provider_silent :: "symbol \<Rightarrow> error + Ticker" where
  "provider_silent symb = Inr silent_ticker"

definition provider_down :: "symbol \<Rightarrow> error + Ticker" where
  "provider_down symb = Inl ProviderError"

definition provider_quotes :: "decimal \<Rightarrow> symbol \<Rightarrow> error + Ticker" where
  "provider_quotes p symb = Inr \<lparr>info = Inr [''currentPrice'' \<mapsto> PyNumber p], history = Inr []\<rparr>"

definition env_at :: "(symbol \<Rightarrow> error + Ticker) \<Rightarrow> datetime \<Rightarrow> env" where
  "env_at provider t =
     \<lparr>yf_Ticker = provider, now_lookup = t, now_cached = t, now_stored = t, db_ok = True\<rparr>"

definition empty_db :: database where
  "empty_db = \<lparr>portfolios = [], holdings = [], price_history = []\<rparr>"

definition aapl_history :: database where
  "aapl_history = \<lparr>portfolios = [], holdings = [],
     price_history = [\<lparr>PriceHistory.id' = Some 1, PriceHistory.symbol = ''AAPL'',
                       price = Dec 150 0, timestamp = 0, source = ''yfinance''\<rparr>]\<rparr>"

definition cached_service :: PriceService where
  "cached_service = PriceService_init\<lparr>price_cache := [''TEST'' \<mapsto> (Dec 10000 (- 2), 0)]\<rparr>"

definition flaky_run :: "nat \<Rightarrow> symbol \<Rightarrow> error + decimal option" where
  "flaky_run i symb = (if symb = ''INVALID'' then Inl ProviderError else Inr (Some (Dec 1000 (- 1))))"

definition eleven_symbols :: "symbol list" where
  "eleven_symbols = [''S01'', ''S02'', ''S03'', ''S04'', ''S05'', ''S06'', ''S07'', ''S08'',
                     ''S09'', ''S10'', ''S11'']"

fun is_ticker_call :: "event \<Rightarrow> bool" where
  "is_ticker_call (TickerCall symb) = True"
| "is_ticker_call other = False"

definition sample_holding :: "int \<Rightarrow> symbol \<Rightarrow> decimal \<Rightarrow> decimal \<Rightarrow> Holding" where
  "sample_holding hid symb q p =
     \<lparr>Holding.id' = Some hid, Holding.portfolio_id = 1, Holding.symbol = symb,
      Holding.asset_type = STOCK, Holding.quantity = q, Holding.purchase_price = p,
      Holding.purchase_date = 0, Holding.notes' = [], Holding.created_at = 0,
      Holding.updated_at = 0\<rparr>"

definition sample_portfolio :: Portfolio where
  "sample_portfolio = \<lparr>Portfolio.id' = Some 1, name = ''Test Portfolio'', description = [],
                         Portfolio.created_at = 0, Portfolio.updated_at = 0\<rparr>"

definition aapl_db :: database where
  "aapl_db = \<lparr>portfolios = [sample_portfolio],
               holdings = [sample_holding 1 ''AAPL'' (Dec 10 0) (Dec 150 0)],
               price_history = []\<rparr>"

definition bare_db :: database where
  "bare_db = \<lparr>portfolios = [sample_portfolio], holdings = [], price_history = []\<rparr>"

definition quotes_160 :: "nat \<Rightarrow> symbol \<Rightarrow> error + decimal option" where
  "quotes_160 i symb = Inr (Some (Dec 160 0))"

definition no_quotes :: "nat \<Rightarrow> symbol \<Rightarrow> error + decimal option" where
  "no_quotes i symb = Inr None"

definition tie_db :: database where
  "tie_db = \<lparr>portfolios = [sample_portfolio],
              holdings = [sample_holding 1 ''AAA'' (Dec 10 0) (Dec 100 0),
                          sample_holding 2 ''BBB'' (Dec 20 0) (Dec 50 0),
                          sample_holding 3 ''CCC'' (Dec 10 0) (Dec 100 0)],
              price_history = []\<rparr>"

definition tie_quotes :: "nat \<Rightarrow> symbol \<Rightarrow> error + decimal option" where
  "tie_quotes i symb =
     Inr (Some (if symb = ''AAA'' then Dec 110 0 else if symb = ''BBB'' then Dec 55 0 else Dec 90 0))"

definition tie_metrics :: "HoldingWithMetrics list" where
  "tie_metrics =
     [\<lparr>HoldingWithMetrics.id' = 1, HoldingWithMetrics.portfolio_id = 1,
       HoldingWithMetrics.symbol = ''AAA'', HoldingWithMetrics.asset_type = STOCK,
       HoldingWithMetrics.quantity = Dec 10 0, HoldingWithMetrics.purchase_price = Dec 100 0,
       HoldingWithMetrics.purchase_date = 0, HoldingWithMetrics.notes' = [],
       HoldingWithMetrics.created_at = 0, HoldingWithMetrics.updated_at = 0,
       current_price = Some (Dec 110 0), current_value = Some (Dec 1100 0),
       HoldingWithMetrics.total_cost = Some (Dec 1000 0), absolute_return = Some (Dec 100 0),
       percentage_return = Some (Dec 100 (- 1)), HoldingWithMetrics.last_updated = Some 5\<rparr>,
      \<lparr>HoldingWithMetrics.id' = 2, HoldingWithMetrics.portfolio_id = 1,
       HoldingWithMetrics.symbol = ''BBB'', HoldingWithMetrics.asset_type = STOCK,
       HoldingWithMetrics.quantity = Dec 20 0, HoldingWithMetrics.purchase_price = Dec 50 0,
       HoldingWithMetrics.purchase_date = 0, HoldingWithMetrics.notes' = [],
       HoldingWithMetrics.created_at = 0, HoldingWithMetrics.updated_at = 0,
       current_price = Some (Dec 55 0), current_value = Some (Dec 1100 0),
       HoldingWithMetrics.total_cost = Some (Dec 1000 0), absolute_return = Some (Dec 100 0),
       percentage_return = Some (Dec 100 (- 1)), HoldingWithMetrics.last_updated = Some 5\<rparr>,
      \<lparr>HoldingWithMetrics.id' = 3, HoldingWithMetrics.portfolio_id = 1,
       HoldingWithMetrics.symbol = ''CCC'', HoldingWithMetrics.asset_type = STOCK,
       HoldingWithMetrics.quantity = Dec 10 0, HoldingWithMetrics.purchase_price = Dec 100 0,
       HoldingWithMetrics.purchase_date = 0, HoldingWithMetrics.notes' = [],
       HoldingWithMetrics.created_at = 0, HoldingWithMetrics.updated_at = 0,
       current_price = Some (Dec 90 0), current_value = Some (Dec 900 0),
       HoldingWithMetrics.total_cost = Some (Dec 1000 0), absolute_return = Some (Dec (- 100) 0),
       percentage_return = Some (Dec (- 100) (- 1)), HoldingWithMetrics.last_updated = Some 5\<rparr>]"

definition mixed_quotes :: "nat \<Rightarrow> symbol \<Rightarrow> error + decimal option" where
  "mixed_quotes i symb =
     Inr (if symb = ''AAA'' then Some (Dec 110 0) else if symb = ''BBB'' then None
          else Some (Dec 90 0))"

definition mixed_metrics :: "HoldingWithMetrics list" where
  "mixed_metrics =
     [\<lparr>HoldingWithMetrics.id' = 1, HoldingWithMetrics.portfolio_id = 1,
       HoldingWithMetrics.symbol = ''AAA'', HoldingWithMetrics.asset_type = STOCK,
       HoldingWithMetrics.quantity = Dec 10 0, HoldingWithMetrics.purchase_price = Dec 100 0,
       HoldingWithMetrics.purchase_date = 0, HoldingWithMetrics.notes' = [],
       HoldingWithMetrics.created_at = 0, HoldingWithMetrics.updated_at = 0,
       current_price = Some (Dec 110 0), current_value = Some (Dec 1100 0),
       HoldingWithMetrics.total_cost = Some (Dec 1000 0), absolute_return = Some (Dec 100 0),
       percentage_return = Some (Dec 100 (- 1)), HoldingWithMetrics.last_updated = Some 5\<rparr>,
      \<lparr>HoldingWithMetrics.id' = 2, HoldingWithMetrics.portfolio_id = 1,
       HoldingWithMetrics.symbol = ''BBB'', HoldingWithMetrics.asset_type = STOCK,
       HoldingWithMetrics.quantity = Dec 20 0, HoldingWithMetrics.purchase_price = Dec 50 0,
       HoldingWithMetrics.purchase_date = 0, HoldingWithMetrics.notes' = [],
       HoldingWithMetrics.created_at = 0, HoldingWithMetrics.updated_at = 0,
       current_price = None, current_value = None,
       HoldingWithMetrics.total_cost = Some (Dec 1000 0), absolute_return = None,
       percentage_return = None, HoldingWithMetrics.last_updated = Some 5\<rparr>,
      \<lparr>HoldingWithMetrics.id' = 3, HoldingWithMetrics.portfolio_id = 1,
       HoldingWithMetrics.symbol = ''CCC'', HoldingWithMetrics.asset_type = STOCK,
       HoldingWithMetrics.quantity = Dec 10 0, HoldingWithMetrics.purchase_price = Dec 100 0,
       HoldingWithMetrics.purchase_date = 0, HoldingWithMetrics.notes' = [],
       HoldingWithMetrics.created_at = 0, HoldingWithMetrics.updated_at = 0,
       current_price = Some (Dec 90 0), current_value = Some (Dec 900 0),
       HoldingWithMetrics.total_cost = Some (Dec 1000 0), absolute_return = Some (Dec (- 100) 0),
       percentage_return = Some (Dec (- 100) (- 1)), HoldingWithMetrics.last_updated = Some 5\<rparr>]"

definition lower_create :: HoldingCreate where
  "lower_create =
     \<lparr>HoldingCreate.portfolio_id = 1, HoldingCreate.symbol = ''aapl'',
      HoldingCreate.asset_type = STOCK, HoldingCreate.quantity = Dec 10 0,
      HoldingCreate.purchase_price = Dec 150 0, HoldingCreate.purchase_date = None,
      HoldingCreate.notes' = []\<rparr>"

definition rename_update :: HoldingUpdate where
  "rename_update =
     \<lparr>HoldingUpdate.symbol = Some ''btc-usd'', HoldingUpdate.asset_type = Some CRYPTOCURRENCY,
      HoldingUpdate.quantity = None, HoldingUpdate.purchase_price = None,
      HoldingUpdate.purchase_date = None, HoldingUpdate.notes' = None\<rparr>"


section \<open>Facts about decimals\<close>

lemma ndigits_ge_one: "1 \<le> ndigits a"
  by (subst ndigits.simps) simp

lemma ndigits_lower: "10 \<le> a \<Longrightarrow> 10 ^ (ndigits a - 1) \<le> a"
proof (induction a rule: ndigits.induct)
  case (1 n)
  show ?case
  proof (cases "n div 10 < 10")
    case True
    then have "ndigits (n div 10) = 1" by (subst ndigits.simps) simp
    with 1(2) have "ndigits n = 2" by (subst ndigits.simps) simp
    with 1(2) show ?thesis by simp
  next
    case False
    with 1 have ih: "10 ^ (ndigits (n div 10) - 1) \<le> n div 10" by simp
    from 1(2) have nd: "ndigits n = Suc (ndigits (n div 10))" by (subst ndigits.simps) simp
    have "1 \<le> ndigits (n div 10)" by (rule ndigits_ge_one)
    then have "(10::int) ^ (ndigits n - 1) = 10 * 10 ^ (ndigits (n div 10) - 1)"
      using nd by (cases "ndigits (n div 10)") simp_all
    also have "\<dots> \<le> 10 * (n div 10)" using ih by simp
    also have "\<dots> \<le> n" by presburger
    finally show ?thesis .
  qed
qed

lemma ndigits_small: "a < 10 \<Longrightarrow> ndigits a = 1"
  by (subst ndigits.simps) simp

lemma dec_fix_sgn: "sgn (coefficient (dec_fix d)) = sgn (coefficient d)"
proof (cases "ndigits \<bar>coefficient d\<bar> \<le> prec")
  case True
  then show ?thesis by (simp add: dec_fix_def Let_def)
next
  case False
  define a where "a = \<bar>coefficient d\<bar>"
  define k where "k = ndigits a - prec"
  define q where "q = a div 10 ^ k"
  define q1 where "q1 = (if 5 * 10 ^ (k - 1) < a mod 10 ^ k \<or> (a mod 10 ^ k = 5 * 10 ^ (k - 1) \<and> odd q) then q + 1 else q)"
  from False have big: "prec < ndigits a" by (simp add: a_def)
  have "10 \<le> a"
  proof (rule ccontr)
    assume "\<not> 10 \<le> a"
    then have "ndigits a = 1" by (intro ndigits_small) simp
    with big show False by (simp add: prec_def)
  qed
  then have lower: "10 ^ (ndigits a - 1) \<le> a" by (rule ndigits_lower)
  have "k \<le> ndigits a - 1" using big by (simp add: k_def prec_def)
  then have "(10::int) ^ k \<le> 10 ^ (ndigits a - 1)" by (intro power_increasing) simp_all
  from this lower have "10 ^ k \<le> a" by (rule order_trans)
  then have "0 < q" unfolding q_def by (simp add: pos_imp_zdiv_pos_iff)
  then have q1: "0 < q1" by (simp add: q1_def)
  have cnz: "coefficient d \<noteq> 0" using \<open>10 \<le> a\<close> by (auto simp: a_def)
  have unfolded: "dec_fix d = (if prec < ndigits q1
           then Dec (sgn (coefficient d) * (q1 div 10)) (exponent d + int k + 1)
           else Dec (sgn (coefficient d) * q1) (exponent d + int k))"
    unfolding dec_fix_def Let_def q1_def q_def k_def a_def using False by (simp only: if_False)
  show ?thesis
  proof (cases "prec < ndigits q1")
    case True
    have "10 \<le> q1"
    proof (rule ccontr)
      assume "\<not> 10 \<le> q1"
      then have "ndigits q1 = 1" by (intro ndigits_small) simp
      with True show False by (simp add: prec_def)
    qed
    then have "0 < q1 div 10" by (simp add: pos_imp_zdiv_pos_iff)
    then show ?thesis using cnz True by (simp only: unfolded if_True decimal.sel sgn_mult) simp
  next
    case F2: False
    show ?thesis using q1 cnz F2 by (simp only: unfolded if_False decimal.sel sgn_mult) simp
  qed
qed

lemma decimal_truediv_defined:
  "coefficient b \<noteq> 0 \<Longrightarrow> decimal_truediv a b = Inr (dec_fix (dec_quotient a b))"
  by (simp add: decimal_truediv_def)

lemma aligned_val:
  assumes "e \<le> exponent d"
  shows "(of_int (coefficient d * 10 ^ nat (exponent d - e)) :: rat) = dec_val d * power_int 10 (- e)"
proof -
  have "(10::rat) ^ nat (exponent d - e) = power_int 10 (exponent d - e)"
    using assms by (simp add: power_int_def)
  also have "\<dots> = power_int 10 (exponent d) * power_int 10 (- e)"
    using power_int_add [of "10::rat" "exponent d" "- e"] by simp
  finally show ?thesis by (simp add: dec_val_def)
qed

lemma decimal_cmp_val:
  "decimal_cmp a b = (if dec_val a < dec_val b then - 1 else if dec_val a = dec_val b then 0 else 1)"
proof -
  define e where "e = min (exponent a) (exponent b)"
  define x where "x = coefficient a * 10 ^ nat (exponent a - e)"
  define y where "y = coefficient b * 10 ^ nat (exponent b - e)"
  define f :: rat where "f = power_int 10 (- e)"
  have pos: "0 < f" by (simp add: f_def)
  have xa: "(of_int x :: rat) = dec_val a * f"
    unfolding x_def f_def by (rule aligned_val) (simp add: e_def)
  have yb: "(of_int y :: rat) = dec_val b * f"
    unfolding y_def f_def by (rule aligned_val) (simp add: e_def)
  have lt: "(x < y) = (dec_val a < dec_val b)"
  proof -
    have "(x < y) = ((of_int x :: rat) < of_int y)" by simp
    also have "\<dots> = (dec_val a < dec_val b)"
      unfolding xa yb using pos by (rule mult_less_cancel_right_pos)
    finally show ?thesis .
  qed
  have eq: "(x = y) = (dec_val a = dec_val b)"
  proof -
    have "(x = y) = ((of_int x :: rat) = of_int y)" by simp
    also have "\<dots> = (dec_val a = dec_val b)" unfolding xa yb using pos by simp
    finally show ?thesis .
  qed
  have "decimal_cmp a b = (if x < y then - 1 else if x = y then 0 else 1)"
    unfolding decimal_cmp_def Let_def x_def y_def e_def ..
  then show ?thesis by (simp only: lt eq)
qed

lemma decimal_gt_val: "decimal_gt a b = (dec_val b < dec_val a)"
  unfolding decimal_gt_def decimal_cmp_val by (simp split: if_splits)

lemma decimal_lt_val: "decimal_lt a b = (dec_val a < dec_val b)"
  unfolding decimal_lt_def decimal_cmp_val by (simp split: if_splits)

lemma dec_val_sign:
  "(0 < dec_val x) = (0 < coefficient x)"
  "(dec_val x < 0) = (coefficient x < 0)"
  "(dec_val x = 0) = (coefficient x = 0)"
proof -
  define f :: rat where "f = power_int 10 (exponent x)"
  have p: "0 < f" by (simp add: f_def)
  have v: "dec_val x = of_int (coefficient x) * f" by (simp add: dec_val_def f_def)
  show "(0 < dec_val x) = (0 < coefficient x)"
    using mult_less_cancel_right_pos [OF p, of 0 "of_int (coefficient x)"] by (simp add: v)
  show "(dec_val x < 0) = (coefficient x < 0)"
    using mult_less_cancel_right_pos [OF p, of "of_int (coefficient x)" 0] by (simp add: v)
  show "(dec_val x = 0) = (coefficient x = 0)"
    using p by (simp add: v)
qed

lemma dec_val_zero: "dec_val (Dec 0 e) = 0"
  by (simp add: dec_val_def)

lemma decimal_gt_zero: "decimal_gt x (Dec 0 0) = (0 < coefficient x)"
  by (simp add: decimal_gt_val dec_val_zero dec_val_sign)

subsection \<open>The error of one rounding, and of a sum\<close>

lemma ndigits_upper: "a < 10 ^ ndigits a"
proof (induction a rule: ndigits.induct)
  case (1 n)
  show ?case
  proof (cases "n < 10")
    case True
    then show ?thesis by (simp add: ndigits_small)
  next
    case False
    then have nd: "ndigits n = Suc (ndigits (n div 10))" by (subst ndigits.simps) simp
    from 1 False have "n div 10 < 10 ^ ndigits (n div 10)" by simp
    then have "n < 10 * 10 ^ ndigits (n div 10)" by presburger
    then show ?thesis by (simp add: nd)
  qed
qed

lemma rounding_unit_nonneg: "0 \<le> rounding_unit"
  by (simp add: rounding_unit_def)

lemma dec_val_Dec: "dec_val (Dec c e) = of_int c * power_int 10 e"
  by (simp add: dec_val_def)

lemma dec_val_shift: "dec_val (Dec c (e + int k)) = of_int (c * 10 ^ k) * power_int 10 e"
proof -
  have "power_int (10::rat) (e + int k) = power_int 10 e * 10 ^ k"
    using power_int_add [of "10::rat" e "int k"] by simp
  then show ?thesis by (simp add: dec_val_def)
qed

lemma dec_fix_error: "\<bar>dec_val (dec_fix d) - dec_val d\<bar> \<le> rounding_unit * \<bar>dec_val d\<bar>"
proof (cases "ndigits \<bar>coefficient d\<bar> \<le> prec")
  case True
  then have "dec_fix d = d" by (simp add: dec_fix_def Let_def)
  then show ?thesis using rounding_unit_nonneg by simp
next
  case False
  define c where "c = coefficient d"
  define e where "e = exponent d"
  define a where "a = \<bar>c\<bar>"
  define k where "k = ndigits a - prec"
  define q where "q = a div 10 ^ k"
  define r where "r = a mod 10 ^ k"
  define half :: int where "half = 5 * 10 ^ (k - 1)"
  define q1 where "q1 = (if half < r \<or> (r = half \<and> odd q) then q + 1 else q)"
  have d: "d = Dec c e" by (simp add: c_def e_def)
  from False have big: "prec < ndigits a" by (simp add: a_def c_def)
  then have k1: "1 \<le> k" and nd: "ndigits a = k + 28" by (simp_all add: k_def prec_def)
  have "10 \<le> a"
  proof (rule ccontr)
    assume "\<not> 10 \<le> a"
    then have "ndigits a = 1" by (intro ndigits_small) simp
    with big show False by (simp add: prec_def)
  qed
  then have "10 ^ (ndigits a - 1) \<le> a" by (rule ndigits_lower)
  then have lower: "10 ^ (k + 27) \<le> a" by (simp add: nd add.commute)
  have upper: "a < 10 ^ (k + 28)" using ndigits_upper [of a] by (simp add: nd)
  have split: "a = q * 10 ^ k + r" unfolding q_def r_def by (rule div_mult_mod_eq [symmetric])
  have r0: "0 \<le> r" and rk: "r < 10 ^ k" by (simp_all add: r_def)
  have two: "(10::int) ^ k = 2 * half"
    using k1 by (cases k) (simp_all add: half_def)
  have near: "\<bar>q1 * 10 ^ k - a\<bar> \<le> half"
  proof (cases "half < r \<or> (r = half \<and> odd q)")
    case True
    then have "q1 = q + 1" by (simp add: q1_def)
    then have "q1 * 10 ^ k - a = 10 ^ k - r" using split by (simp add: algebra_simps)
    moreover from True have "half \<le> r" by auto
    ultimately show ?thesis using rk two by linarith
  next
    case F: False
    then have "q1 = q" by (simp add: q1_def)
    then have "q1 * 10 ^ k - a = - r" using split by simp
    moreover from F have "r \<le> half" by auto
    ultimately show ?thesis using r0 by linarith
  qed
  have q28: "q < 10 ^ 28"
  proof -
    have "q * 10 ^ k \<le> a" using split r0 by linarith
    also have "a < 10 ^ 28 * 10 ^ k" using upper by (simp add: power_add mult.commute)
    finally show ?thesis by simp
  qed
  have unfolded: "dec_fix d = (if prec < ndigits q1
           then Dec (sgn c * (q1 div 10)) (e + int k + 1)
           else Dec (sgn c * q1) (e + int k))"
    unfolding dec_fix_def Let_def q1_def half_def r_def q_def k_def a_def c_def e_def
    using False by (simp only: if_False)
  have val: "dec_val (dec_fix d) = of_int (sgn c * (q1 * 10 ^ k)) * power_int 10 e"
  proof (cases "prec < ndigits q1")
    case True
    have "10 \<le> q1"
    proof (rule ccontr)
      assume "\<not> 10 \<le> q1"
      then have "ndigits q1 = 1" by (intro ndigits_small) simp
      with True show False by (simp add: prec_def)
    qed
    then have "10 ^ (ndigits q1 - 1) \<le> q1" by (rule ndigits_lower)
    moreover have "(10::int) ^ 28 \<le> 10 ^ (ndigits q1 - 1)"
      using True by (intro power_increasing) (simp_all add: prec_def)
    ultimately have "10 ^ 28 \<le> q1" by (rule order_trans [rotated])
    moreover have "q1 \<le> q + 1" by (simp add: q1_def)
    ultimately have q1: "q1 = 10 ^ 28" using q28 by simp
    then have ten: "(q1 div 10) * 10 = q1" by simp
    have "sgn c * (q1 div 10) * 10 ^ (Suc k) = sgn c * ((q1 div 10) * 10 * 10 ^ k)"
      by (simp add: algebra_simps)
    then have eq1: "sgn c * (q1 div 10) * 10 ^ (Suc k) = sgn c * (q1 * 10 ^ k)"
      by (simp only: ten)
    have eq2: "dec_fix d = Dec (sgn c * (q1 div 10)) (e + int (Suc k))"
      using True unfolded by simp
    have "dec_val (dec_fix d) = of_int (sgn c * (q1 div 10) * 10 ^ Suc k) * power_int 10 e"
      unfolding eq2 by (rule dec_val_shift)
    then show ?thesis unfolding eq1 .
  next
    case F: False
    then have eq2: "dec_fix d = Dec (sgn c * q1) (e + int k)" using unfolded by simp
    have "dec_val (dec_fix d) = of_int (sgn c * q1 * 10 ^ k) * power_int 10 e"
      unfolding eq2 by (rule dec_val_shift)
    then show ?thesis by (simp only: mult.assoc)
  qed
  have vd: "dec_val d = of_int (sgn c * a) * power_int 10 e"
    by (simp add: d dec_val_Dec a_def mult_sgn_abs)
  define f :: rat where "f = power_int 10 e"
  have fpos: "0 < f" by (simp add: f_def)
  have cnz: "c \<noteq> 0" using \<open>10 \<le> a\<close> by (auto simp: a_def)
  have sg: "\<bar>of_int (sgn c) :: rat\<bar> = 1" using cnz by (simp add: sgn_if)
  have fabs: "\<bar>f\<bar> = f" using fpos by simp
  have "dec_val (dec_fix d) - dec_val d
        = of_int (sgn c) * (of_int (q1 * 10 ^ k - a) * f)"
    by (simp add: val vd f_def algebra_simps)
  then have "\<bar>dec_val (dec_fix d) - dec_val d\<bar>
        = \<bar>of_int (sgn c) :: rat\<bar> * (\<bar>of_int (q1 * 10 ^ k - a)\<bar> * \<bar>f\<bar>)"
    by (simp only: abs_mult)
  then have "\<bar>dec_val (dec_fix d) - dec_val d\<bar> = of_int \<bar>q1 * 10 ^ k - a\<bar> * f"
    by (simp only: sg fabs mult_1 of_int_abs)
  also have "\<dots> \<le> of_int half * f"
  proof -
    from near have "(of_int \<bar>q1 * 10 ^ k - a\<bar> :: rat) \<le> of_int half"
      by (simp only: of_int_le_iff)
    then show ?thesis using fpos by (intro mult_right_mono) simp_all
  qed
  also have "of_int half * f \<le> rounding_unit * (of_int a * f)"
  proof -
    have "half * 10 ^ 28 = 5 * 10 ^ (k + 27)"
      using k1 by (cases k) (simp_all add: half_def power_add)
    also have "\<dots> \<le> 5 * a" using lower by simp
    finally have "(of_int (half * 10 ^ 28) :: rat) \<le> of_int (5 * a)"
      by (simp only: of_int_le_iff)
    then have "(of_int half :: rat) \<le> rounding_unit * of_int a"
      by (simp add: rounding_unit_def field_simps)
    then have "of_int half * f \<le> (rounding_unit * of_int a) * f"
      using fpos by (simp add: mult_right_mono)
    then show ?thesis by (simp add: mult.assoc)
  qed
  also have "of_int a * f = \<bar>dec_val d\<bar>"
  proof -
    have "dec_val d = of_int (sgn c) * (of_int a * f)" by (simp add: vd f_def)
    then have "\<bar>dec_val d\<bar> = \<bar>of_int (sgn c) :: rat\<bar> * (\<bar>of_int a\<bar> * \<bar>f\<bar>)"
      by (simp only: abs_mult)
    moreover have "\<bar>of_int a :: rat\<bar> = of_int a" by (simp add: a_def)
    ultimately show ?thesis by (simp only: sg fabs mult_1)
  qed
  finally show ?thesis .
qed

lemma decimal_add_exact:
  "dec_val (Dec (coefficient a * 10 ^ nat (exponent a - min (exponent a) (exponent b))
                 + coefficient b * 10 ^ nat (exponent b - min (exponent a) (exponent b)))
                (min (exponent a) (exponent b)))
   = dec_val a + dec_val b"
proof -
  define e where "e = min (exponent a) (exponent b)"
  define f :: rat where "f = power_int 10 e"
  have inv: "power_int (10::rat) (- e) * f = 1"
    using power_int_add [of "10::rat" "- e" e] by (simp add: f_def)
  have xa: "(of_int (coefficient a * 10 ^ nat (exponent a - e)) :: rat) = dec_val a * power_int 10 (- e)"
    by (rule aligned_val) (simp add: e_def)
  have xb: "(of_int (coefficient b * 10 ^ nat (exponent b - e)) :: rat) = dec_val b * power_int 10 (- e)"
    by (rule aligned_val) (simp add: e_def)
  have "dec_val (Dec (coefficient a * 10 ^ nat (exponent a - e)
                 + coefficient b * 10 ^ nat (exponent b - e)) e)
        = (dec_val a * power_int 10 (- e) + dec_val b * power_int 10 (- e)) * f"
    unfolding dec_val_Dec f_def of_int_add xa xb ..
  also have "\<dots> = (dec_val a + dec_val b) * (power_int 10 (- e) * f)"
    by (simp add: algebra_simps)
  also have "\<dots> = dec_val a + dec_val b" by (simp only: inv mult_1_right)
  finally show ?thesis unfolding e_def .
qed

lemma decimal_add_error:
  "\<bar>dec_val (decimal_add a b) - (dec_val a + dec_val b)\<bar>
   \<le> rounding_unit * \<bar>dec_val a + dec_val b\<bar>"
  unfolding decimal_add_def Let_def
  using dec_fix_error [of "Dec (coefficient a * 10 ^ nat (exponent a - min (exponent a) (exponent b))
                 + coefficient b * 10 ^ nat (exponent b - min (exponent a) (exponent b)))
                (min (exponent a) (exponent b))"]
  by (simp only: decimal_add_exact)

lemma dec_val_neg: "dec_val (decimal_neg b) = - dec_val b"
  by (simp add: decimal_neg_def dec_val_def)

lemma decimal_sub_error:
  "\<bar>dec_val (decimal_sub a b) - (dec_val a - dec_val b)\<bar>
   \<le> rounding_unit * \<bar>dec_val a - dec_val b\<bar>"
  using decimal_add_error [of a "decimal_neg b"]
  by (simp add: decimal_sub_def dec_val_neg)

lemma rounding_bound_nonneg: "0 \<le> rounding_bound n"
proof -
  have "1 \<le> (1 + rounding_unit) ^ n"
    using rounding_unit_nonneg by (intro one_le_power) simp
  then show ?thesis by (simp add: rounding_bound_def)
qed

lemma rounding_bound_Suc:
  "rounding_bound (Suc n) = (1 + rounding_unit) * rounding_bound n + rounding_unit"
  by (simp add: rounding_bound_def algebra_simps)

lemma dec_sum_snoc: "dec_sum (xs @ [x]) = decimal_add (dec_sum xs) x"
  by (simp add: dec_sum_def)

lemma dec_sum_error:
  "\<bar>dec_val (dec_sum xs) - sum_list (map dec_val xs)\<bar>
   \<le> rounding_bound (length xs) * sum_list (map (\<lambda>x. \<bar>dec_val x\<bar>) xs)"
proof (induction xs rule: rev_induct)
  case Nil
  show ?case by (simp add: dec_sum_def dec_val_zero rounding_bound_def)
next
  case (snoc x xs)
  define S where "S = dec_val (dec_sum xs)"
  define T where "T = sum_list (map dec_val xs)"
  define A where "A = sum_list (map (\<lambda>x. \<bar>dec_val x\<bar>) xs)"
  define v where "v = dec_val x"
  define u where "u = rounding_unit"
  define B where "B = rounding_bound (length xs)"
  define S' where "S' = dec_val (decimal_add (dec_sum xs) x)"
  have u0: "0 \<le> u" by (simp add: u_def rounding_unit_nonneg)
  have B0: "0 \<le> B" by (simp add: B_def rounding_bound_nonneg)
  have A0: "0 \<le> A" unfolding A_def by (rule sum_list_nonneg) auto
  have TA: "\<bar>T\<bar> \<le> A"
    unfolding T_def A_def using sum_list_abs [of "map dec_val xs"] by (simp add: comp_def)
  have ih: "\<bar>S - T\<bar> \<le> B * A" using snoc by (simp add: S_def T_def A_def B_def)
  have step: "\<bar>S' - (S + v)\<bar> \<le> u * \<bar>S + v\<bar>"
    unfolding S'_def S_def v_def u_def by (rule decimal_add_error)
  have "\<bar>S + v\<bar> \<le> \<bar>S - T\<bar> + \<bar>T\<bar> + \<bar>v\<bar>" by linarith
  also have "\<dots> \<le> B * A + A + \<bar>v\<bar>" using ih TA by linarith
  finally have sv: "\<bar>S + v\<bar> \<le> B * A + A + \<bar>v\<bar>" .
  have "u * \<bar>S + v\<bar> \<le> u * (B * A + A + \<bar>v\<bar>)"
    using sv u0 by (rule mult_left_mono)
  with step have step': "\<bar>S' - (S + v)\<bar> \<le> u * (B * A + A + \<bar>v\<bar>)" by linarith
  have "\<bar>S' - (T + v)\<bar> \<le> \<bar>S' - (S + v)\<bar> + \<bar>S - T\<bar>" by linarith
  also have "\<dots> \<le> u * (B * A + A + \<bar>v\<bar>) + B * A" using step' ih by linarith
  also have "\<dots> = ((1 + u) * B + u) * A + u * \<bar>v\<bar>" by (simp add: algebra_simps)
  also have "\<dots> \<le> ((1 + u) * B + u) * A + ((1 + u) * B + u) * \<bar>v\<bar>"
  proof -
    have "0 \<le> (1 + u) * B" using u0 B0 by simp
    then have "u \<le> (1 + u) * B + u" by simp
    then have "u * \<bar>v\<bar> \<le> ((1 + u) * B + u) * \<bar>v\<bar>" by (intro mult_right_mono) simp_all
    then show ?thesis by simp
  qed
  also have "\<dots> = ((1 + u) * B + u) * (A + \<bar>v\<bar>)" by (simp add: algebra_simps)
  finally have "\<bar>S' - (T + v)\<bar> \<le> ((1 + u) * B + u) * (A + \<bar>v\<bar>)" .
  then show ?case
    unfolding dec_sum_snoc
    by (simp add: S'_def T_def A_def v_def u_def B_def rounding_bound_Suc)
qed

subsection \<open>The error of a product, of a quotient and of a percentage\<close>

lemma ndigits_lower_pos: "1 \<le> a \<Longrightarrow> 10 ^ (ndigits a - 1) \<le> a"
proof (cases "10 \<le> a")
  case True
  then show ?thesis by (rule ndigits_lower)
next
  case False
  assume "1 \<le> a"
  with False show ?thesis by (simp add: ndigits_small)
qed

lemma strip_zeros_val:
  "strip_zeros c e i = (c', e')
   \<Longrightarrow> (of_int c' :: rat) * power_int 10 e' = of_int c * power_int 10 e"
proof (induction c e i rule: strip_zeros.induct)
  case (1 coeff ex ideal)
  show ?case
  proof (cases "ex < ideal \<and> coeff mod 10 = 0")
    case True
    then have "strip_zeros coeff ex ideal = strip_zeros (coeff div 10) (ex + 1) ideal"
      by (subst strip_zeros.simps) simp
    with 1(2) have "strip_zeros (coeff div 10) (ex + 1) ideal = (c', e')" by simp
    from 1(1) [OF True this]
    have ih: "of_int c' * power_int 10 e' = (of_int (coeff div 10) :: rat) * power_int 10 (ex + 1)" .
    have p: "power_int (10::rat) (ex + 1) = 10 * power_int 10 ex"
      by (simp add: power_int_add)
    from True have "coeff = (coeff div 10) * 10" by presburger
    then have "(of_int coeff :: rat) = of_int (coeff div 10) * 10"
      by (metis of_int_mult of_int_numeral)
    then show ?thesis using ih p by simp
  next
    case False
    then have "strip_zeros coeff ex ideal = (coeff, ex)" by (subst strip_zeros.simps) auto
    with 1(2) show ?thesis by simp
  qed
qed

lemma rounding_bound_one: "rounding_bound 1 = rounding_unit"
  by (simp add: rounding_bound_def)

lemma rounding_step:
  assumes xy: "\<bar>y - x\<bar> \<le> rounding_bound n * \<bar>x\<bar>"
      and yz: "\<bar>z - y\<bar> \<le> rounding_unit * \<bar>y\<bar>"
  shows "\<bar>z - x\<bar> \<le> rounding_bound (Suc n) * \<bar>x\<bar>"
proof -
  define u where "u = rounding_unit"
  define B where "B = rounding_bound n"
  have u0: "0 \<le> u" by (simp add: u_def rounding_unit_nonneg)
  have "\<bar>y\<bar> \<le> \<bar>y - x\<bar> + \<bar>x\<bar>" by linarith
  also have "\<dots> \<le> B * \<bar>x\<bar> + \<bar>x\<bar>" using xy by (simp add: B_def)
  finally have y: "\<bar>y\<bar> \<le> B * \<bar>x\<bar> + \<bar>x\<bar>" .
  have "u * \<bar>y\<bar> \<le> u * (B * \<bar>x\<bar> + \<bar>x\<bar>)" using y u0 by (rule mult_left_mono)
  with yz have zy: "\<bar>z - y\<bar> \<le> u * (B * \<bar>x\<bar> + \<bar>x\<bar>)" by (simp add: u_def)
  have "\<bar>z - x\<bar> \<le> \<bar>z - y\<bar> + \<bar>y - x\<bar>" by linarith
  also have "\<dots> \<le> u * (B * \<bar>x\<bar> + \<bar>x\<bar>) + B * \<bar>x\<bar>" using zy xy by (simp add: B_def)
  also have "\<dots> = ((1 + u) * B + u) * \<bar>x\<bar>" by (simp add: algebra_simps)
  finally show ?thesis by (simp add: rounding_bound_Suc u_def B_def)
qed

lemma decimal_mul_exact:
  "dec_val (Dec (coefficient a * coefficient b) (exponent a + exponent b)) = dec_val a * dec_val b"
  by (simp add: dec_val_def power_int_add)

lemma decimal_mul_error:
  "\<bar>dec_val (decimal_mul a b) - dec_val a * dec_val b\<bar> \<le> rounding_unit * \<bar>dec_val a * dec_val b\<bar>"
  using dec_fix_error [of "Dec (coefficient a * coefficient b) (exponent a + exponent b)"]
  unfolding decimal_mul_def decimal_mul_exact .

lemma dec_quotient_error:
  assumes nz: "coefficient b \<noteq> 0"
  shows "\<bar>dec_val (dec_quotient a b) - dec_val a / dec_val b\<bar>
         \<le> rounding_unit * \<bar>dec_val a / dec_val b\<bar>"
proof (cases "coefficient a = 0")
  case True
  then show ?thesis by (simp add: dec_quotient_def dec_val_def)
next
  case False
  define x where "x = \<bar>coefficient a\<bar>"
  define y where "y = \<bar>coefficient b\<bar>"
  define s where "s = sgn (coefficient a) * sgn (coefficient b)"
  define shift where "shift = int (ndigits y) - int (ndigits x) + int prec + 1"
  define ex where "ex = exponent a - exponent b - shift"
  define n where "n = (if 0 \<le> shift then x * 10 ^ nat shift else x)"
  define m where "m = (if 0 \<le> shift then y else y * 10 ^ nat (- shift))"
  define coeff where "coeff = n div m"
  define rem where "rem = n mod m"
  define c1 where "c1 = (if coeff mod 5 = 0 then coeff + 1 else coeff)"
  define t :: rat where "t = of_int x / of_int y"
  define N :: rat where "N = t * power_int 10 shift"
  define E :: rat where "E = power_int 10 ex"
  have unfolded: "dec_quotient a b =
        (if rem \<noteq> 0 then Dec (s * c1) ex
         else (case strip_zeros coeff ex (exponent a - exponent b) of
                 (c, e) \<Rightarrow> Dec (s * c) e))"
    unfolding dec_quotient_def Let_def c1_def rem_def coeff_def m_def n_def ex_def shift_def
      s_def y_def x_def
    using False by (simp only: if_False)
  have x0: "0 < x" using False by (simp add: x_def)
  have y0: "0 < y" using nz by (simp add: y_def)
  have m0: "0 < m" using y0 by (simp add: m_def)
  have E0: "0 < E" by (simp add: E_def)
  have s1: "\<bar>of_int s :: rat\<bar> = 1"
    using False nz by (simp add: s_def abs_mult sgn_if)
  have ratio: "of_int n / of_int m = N"
  proof (cases "0 \<le> shift")
    case True
    then have "power_int (10::rat) shift = 10 ^ nat shift" by (simp add: power_int_def)
    then show ?thesis using True by (simp add: N_def t_def n_def m_def)
  next
    case False
    define P :: rat where "P = 10 ^ nat (- shift)"
    from False have pw: "power_int (10::rat) shift = inverse P"
      by (simp add: power_int_def power_one_over inverse_eq_divide P_def)
    have "of_int n / of_int m = of_int x / (of_int y * P)"
      using False by (simp add: n_def m_def P_def)
    also have "\<dots> = of_int x / of_int y * inverse P"
      by (simp add: divide_inverse ac_simps)
    finally show ?thesis by (simp only: N_def t_def pw)
  qed
  have big: "10 ^ prec \<le> N"
  proof -
    define L :: rat where "L = power_int 10 (int (ndigits x) - 1)"
    define U :: rat where "U = power_int 10 (int (ndigits y))"
    have "1 \<le> ndigits x" by (rule ndigits_ge_one)
    then have "int (ndigits x - 1) = int (ndigits x) - 1" by simp
    then have "L = 10 ^ (ndigits x - 1)" unfolding L_def by (metis power_int_of_nat)
    also have "\<dots> = of_int (10 ^ (ndigits x - 1))" by simp
    also have "\<dots> \<le> of_int x"
      unfolding of_int_le_iff using x0 by (intro ndigits_lower_pos) simp
    finally have Lx: "L \<le> of_int x" .
    have "x < 10 ^ ndigits x" "y < 10 ^ ndigits y" by (rule ndigits_upper)+
    then have "(of_int y :: rat) \<le> of_int (10 ^ ndigits y)"
      unfolding of_int_le_iff by simp
    then have yU: "of_int y \<le> U" by (simp add: U_def)
    have L0: "0 \<le> L" by (simp add: L_def)
    have y0': "(0::rat) < of_int y" using y0 by simp
    have x0': "(0::rat) \<le> of_int x" using x0 by simp
    have "L / U \<le> of_int x / of_int y"
      using x0' Lx y0' yU by (rule frac_le)
    then have "L / U \<le> t" by (simp add: t_def)
    then have "L / U * power_int 10 shift \<le> N"
      unfolding N_def by (intro mult_right_mono) simp_all
    moreover have "L / U * power_int 10 shift = power_int (10::rat) (int prec)"
    proof -
      have "L / U = power_int (10::rat) (int (ndigits x) - 1 - int (ndigits y))"
        unfolding L_def U_def by (simp add: power_int_diff)
      then have "L / U * power_int 10 shift
          = power_int (10::rat) (int (ndigits x) - 1 - int (ndigits y) + shift)"
        by (simp add: power_int_add)
      also have "int (ndigits x) - 1 - int (ndigits y) + shift = int prec"
        by (simp add: shift_def)
      finally show ?thesis .
    qed
    ultimately show ?thesis by simp
  qed
  have truth: "dec_val a / dec_val b = of_int s * N * E"
  proof -
    have ca: "coefficient a = sgn (coefficient a) * x" by (simp add: x_def mult_sgn_abs)
    have cb: "coefficient b = sgn (coefficient b) * y" by (simp add: y_def mult_sgn_abs)
    have sb: "(of_int (sgn (coefficient b)) :: rat) * of_int (sgn (coefficient b)) = 1"
      using nz by (simp add: sgn_if)
    have "(of_int (coefficient a) :: rat) / of_int (coefficient b)
        = (of_int (sgn (coefficient a)) * of_int x) / (of_int (sgn (coefficient b)) * of_int y)"
      using ca cb by (metis of_int_mult)
    also have "\<dots> = of_int (sgn (coefficient a)) * of_int (sgn (coefficient b)) * t"
      using sb nz y0 by (simp add: t_def field_simps sgn_if split: if_splits)
    finally have q: "(of_int (coefficient a) :: rat) / of_int (coefficient b) = of_int s * t"
      by (simp add: s_def)
    have "exponent a - exponent b = shift + ex" by (simp add: ex_def)
    then have "power_int (10::rat) (exponent a - exponent b) = power_int 10 shift * E"
      by (simp add: E_def power_int_add)
    moreover have "power_int (10::rat) (exponent a) / power_int 10 (exponent b)
        = power_int 10 (exponent a - exponent b)"
      by (simp add: power_int_diff)
    ultimately have p: "power_int (10::rat) (exponent a) / power_int 10 (exponent b)
        = power_int 10 shift * E" by simp
    have "dec_val a / dec_val b
        = (of_int (coefficient a) / of_int (coefficient b))
          * (power_int (10::rat) (exponent a) / power_int 10 (exponent b))"
      by (simp add: dec_val_def)
    also have "\<dots> = of_int s * t * (power_int 10 shift * E)" by (simp only: q p)
    finally show ?thesis by (simp add: N_def)
  qed
  have N0: "0 < N"
  proof -
    have "(0::rat) < 10 ^ prec" by simp
    with big show ?thesis by linarith
  qed
  have abs_truth: "\<bar>dec_val a / dec_val b\<bar> = N * E"
    unfolding truth using s1 N0 E0 by (simp add: abs_mult)
  have split: "N = of_int coeff + of_int rem / of_int m"
  proof -
    have "n = coeff * m + rem" by (simp add: coeff_def rem_def)
    then have "(of_int n :: rat) = of_int coeff * of_int m + of_int rem"
      by (metis of_int_add of_int_mult)
    then show ?thesis using m0 ratio by (simp add: field_simps)
  qed
  have rem_bounds: "0 \<le> rem" "rem < m" using m0 by (simp_all add: rem_def)
  have frac: "0 \<le> (of_int rem :: rat) / of_int m" "(of_int rem :: rat) / of_int m < 1"
    using rem_bounds m0 by simp_all
  have unit: "E \<le> rounding_unit * (N * E)"
  proof -
    have "1 \<le> rounding_unit * 10 ^ prec" by (simp add: rounding_unit_def prec_def)
    also have "\<dots> \<le> rounding_unit * N"
      using big rounding_unit_nonneg by (rule mult_left_mono)
    finally have "1 * E \<le> rounding_unit * N * E"
      using E0 by (intro mult_right_mono) simp_all
    then show ?thesis by (simp add: mult.assoc)
  qed
  show ?thesis
  proof (cases "rem = 0")
    case True
    obtain c e where st: "strip_zeros coeff ex (exponent a - exponent b) = (c, e)"
      by (cases "strip_zeros coeff ex (exponent a - exponent b)")
    have "dec_val (dec_quotient a b) = of_int s * (of_int c * power_int 10 e)"
      unfolding unfolded using True by (simp add: st dec_val_def)
    also have "\<dots> = of_int s * (of_int coeff * E)"
      unfolding strip_zeros_val [OF st] E_def ..
    also have "\<dots> = of_int s * N * E" using split True by simp
    finally have "dec_val (dec_quotient a b) = dec_val a / dec_val b" by (simp only: truth)
    then show ?thesis using rounding_unit_nonneg by simp
  next
    case False
    define f :: rat where "f = of_int rem / of_int m"
    have f: "0 \<le> f" "f < 1" using frac by (simp_all add: f_def)
    have Nf: "N = of_int coeff + f" using split by (simp add: f_def)
    have c1: "\<bar>of_int c1 - N\<bar> \<le> 1"
    proof (cases "coeff mod 5 = 0")
      case True
      then have "of_int c1 - N = 1 - f" by (simp add: c1_def Nf)
      then show ?thesis using f by linarith
    next
      case False
      then have "of_int c1 - N = - f" by (simp add: c1_def Nf)
      then show ?thesis using f by linarith
    qed
    have "dec_val (dec_quotient a b) = of_int s * of_int c1 * E"
      unfolding unfolded using False by (simp add: dec_val_def E_def)
    then have "dec_val (dec_quotient a b) - dec_val a / dec_val b
        = of_int s * ((of_int c1 - N) * E)"
      by (simp add: truth algebra_simps)
    then have "\<bar>dec_val (dec_quotient a b) - dec_val a / dec_val b\<bar>
        = \<bar>of_int c1 - N\<bar> * E"
      using s1 E0 by (simp add: abs_mult)
    also have "\<dots> \<le> 1 * E" using c1 E0 by (intro mult_right_mono) simp_all
    also have "\<dots> \<le> rounding_unit * (N * E)" using unit by simp
    finally show ?thesis by (simp only: abs_truth)
  qed
qed

lemma decimal_truediv_error:
  assumes "decimal_truediv a b = Inr q"
  shows "\<bar>dec_val q - dec_val a / dec_val b\<bar> \<le> rounding_bound 2 * \<bar>dec_val a / dec_val b\<bar>"
proof -
  from assms have nz: "coefficient b \<noteq> 0" and q: "q = dec_fix (dec_quotient a b)"
    by (auto simp: decimal_truediv_def split: if_splits)
  have exact: "\<bar>dec_val (dec_quotient a b) - dec_val a / dec_val b\<bar>
      \<le> rounding_bound 1 * \<bar>dec_val a / dec_val b\<bar>"
    using dec_quotient_error [OF nz] by (simp only: rounding_bound_one)
  have fixed: "\<bar>dec_val q - dec_val (dec_quotient a b)\<bar>
      \<le> rounding_unit * \<bar>dec_val (dec_quotient a b)\<bar>"
    unfolding q by (rule dec_fix_error)
  have two: "Suc 1 = 2" by simp
  from rounding_step [OF exact fixed] show ?thesis by (simp only: two)
qed

lemma percentage_error:
  assumes "decimal_truediv a b = Inr q"
  shows "\<bar>dec_val (decimal_mul q (Dec 100 0)) - dec_val a / dec_val b * 100\<bar>
         \<le> rounding_bound 3 * \<bar>dec_val a / dec_val b * 100\<bar>"
proof -
  define T where "T = dec_val a / dec_val b"
  have h: "dec_val (Dec 100 0) = 100" by (simp add: dec_val_def)
  from decimal_truediv_error [OF assms]
  have "\<bar>dec_val q - T\<bar> \<le> rounding_bound 2 * \<bar>T\<bar>" by (simp only: T_def)
  then have "\<bar>dec_val q - T\<bar> * 100 \<le> rounding_bound 2 * \<bar>T\<bar> * 100" by simp
  moreover have "\<bar>dec_val q * 100 - T * 100\<bar> = \<bar>dec_val q - T\<bar> * 100"
  proof -
    have "dec_val q * 100 - T * 100 = (dec_val q - T) * 100" by (simp add: algebra_simps)
    then show ?thesis by (simp only: abs_mult abs_numeral)
  qed
  moreover have "\<bar>T * 100\<bar> = \<bar>T\<bar> * 100" by (simp add: abs_mult)
  ultimately have quotient: "\<bar>dec_val q * 100 - T * 100\<bar> \<le> rounding_bound 2 * \<bar>T * 100\<bar>"
    by (simp only: mult.assoc)
  have product: "\<bar>dec_val (decimal_mul q (Dec 100 0)) - dec_val q * 100\<bar>
      \<le> rounding_unit * \<bar>dec_val q * 100\<bar>"
    using decimal_mul_error [of q "Dec 100 0"] by (simp only: h)
  have three: "Suc 2 = 3" by simp
  from rounding_step [OF quotient product] show ?thesis by (simp only: three T_def)
qed

section \<open>The price service: the paths of a resolution\<close>

lemma get_current_price_hit:
  "cache_lookup self (now_lookup w) symb = Some p
   \<Longrightarrow> get_current_price self db w symb = (Some p, self, db, [])"
  by (simp add: get_current_price_def)

lemma get_current_price_found:
  "cache_lookup self (now_lookup w) symb = None \<Longrightarrow> fetch_price w symb = (Inr (Some p), calls)
   \<Longrightarrow> get_current_price self db w symb =
       (Some p, self\<lparr>price_cache := (price_cache self)(symb \<mapsto> (p, now_cached w))\<rparr>,
        store_price_history db w symb p, Acquire # calls @ [StoreHistory symb p, Release])"
  by (simp add: get_current_price_def aenter_def)

lemma get_current_price_no_price:
  "cache_lookup self (now_lookup w) symb = None \<Longrightarrow> fetch_price w symb = (Inr None, calls)
   \<Longrightarrow> get_current_price self db w symb = (None, self, db, Acquire # calls @ [Release])"
  by (simp add: get_current_price_def aenter_def)

lemma get_current_price_raised:
  "cache_lookup self (now_lookup w) symb = None \<Longrightarrow> fetch_price w symb = (Inl e, calls)
   \<Longrightarrow> get_current_price self db w symb =
       (get_last_known_price db w symb, self, db, Acquire # calls @ [QueryHistory symb, Release])"
  by (simp add: get_current_price_def aenter_def)

lemma fetch_price_calls: "\<exists>rest. snd (fetch_price w symb) = TickerCall symb # rest"
  by (simp add: fetch_price_def split: sum.split option.split)

lemma get_current_price_miss_calls:
  assumes "cache_lookup self (now_lookup w) symb = None"
  shows "\<exists>r self' db' rest. get_current_price self db w symb
           = (r, self', db', Acquire # TickerCall symb # rest)"
proof -
  obtain res calls where f: "fetch_price w symb = (res, calls)" by (cases "fetch_price w symb")
  obtain rest where c: "calls = TickerCall symb # rest"
    using fetch_price_calls [of w symb] f by auto
  show ?thesis
  proof (cases res)
    case (Inl e)
    then show ?thesis using get_current_price_raised [OF assms] f c by simp
  next
    case (Inr po)
    then show ?thesis
      using get_current_price_found [OF assms] get_current_price_no_price [OF assms] f c
      by (cases po) simp_all
  qed
qed

lemma cache_lookup_Some:
  "(cache_lookup self now symb = Some p) =
   (\<exists>t. price_cache self symb = Some (p, t)
        \<and> total_seconds (now - t) < of_int (cache_duration self))"
  by (auto simp: cache_lookup_def split: option.splits)

lemma cache_lookup_stays_None:
  assumes "cache_lookup self now symb = None" "now \<le> now'"
  shows "cache_lookup self now' symb = None"
proof (cases "price_cache self symb")
  case None
  then show ?thesis by (simp add: cache_lookup_def)
next
  case (Some entry)
  obtain p t where e: "entry = (p, t)" by (cases entry)
  from assms(1) Some e have "\<not> total_seconds (now - t) < of_int (cache_duration self)"
    by (simp add: cache_lookup_def split: if_splits)
  moreover have "total_seconds (now - t) \<le> total_seconds (now' - t)"
    using assms(2) by (simp add: total_seconds_def divide_right_mono)
  ultimately have "\<not> total_seconds (now' - t) < of_int (cache_duration self)" by simp
  then show ?thesis using Some e by (simp add: cache_lookup_def)
qed

lemma probe_step:
  "probe_fields (f # fs) dict =
     (if present dict f
      then (case dict f of None \<Rightarrow> Inr None
            | Some v \<Rightarrow> (case to_decimal v of Inl e \<Rightarrow> Inl e | Inr d \<Rightarrow> Inr (Some d)))
      else probe_fields fs dict)"
  by (simp add: present_def split: option.splits)

lemma probe_fields_preferred:
  "probe_fields price_fields dict =
     (case preferred_field dict of
        None \<Rightarrow> Inr None
      | Some v \<Rightarrow> (case to_decimal v of Inl e \<Rightarrow> Inl e | Inr d \<Rightarrow> Inr (Some d)))"
proof -
  have absent: "\<And>f. \<not> present dict f \<Longrightarrow> present dict f = False" by simp
  show ?thesis
    unfolding price_fields_def preferred_field_def probe_step probe_fields.simps(1)
    by (auto simp: present_def split: option.splits)
qed

lemma fetch_price_found:
  assumes tick: "yf_Ticker w symb = Inr ticker"
      and dict: "info ticker = Inr dict"
      and found: "preferred_field dict = Some (PyNumber p)
                  \<or> (preferred_field dict = None
                      \<and> (\<exists>closes. history ticker = Inr closes \<and> closes \<noteq> []
                                   \<and> last closes = PyNumber p))"
  shows "\<exists>calls. fetch_price w symb = (Inr (Some p), calls)"
  using found
proof
  assume "preferred_field dict = Some (PyNumber p)"
  then have "probe_fields price_fields dict = Inr (Some p)"
    by (simp add: probe_fields_preferred to_decimal_def)
  then show ?thesis using tick dict by (simp add: fetch_price_def)
next
  assume a: "preferred_field dict = None
             \<and> (\<exists>closes. history ticker = Inr closes \<and> closes \<noteq> [] \<and> last closes = PyNumber p)"
  then have "probe_fields price_fields dict = Inr None"
    by (simp add: probe_fields_preferred)
  moreover from a obtain closes where "history ticker = Inr closes" "closes \<noteq> []"
    "last closes = PyNumber p" by blast
  ultimately show ?thesis using tick dict by (simp add: fetch_price_def to_decimal_def)
qed

subsection \<open>The batch\<close>

lemma price_dict_loop_snoc:
  "price_dict_loop (zs @ [(symb, result)]) d k
   = (if k = symb then Some (as_price result) else price_dict_loop zs d k)"
proof (induction zs arbitrary: d)
  case Nil
  show ?case by (simp add: as_price_def)
next
  case (Cons z zs)
  obtain s r where z: "z = (s, r)" by (cases z)
  show ?case unfolding z by (simp only: append_Cons price_dict_loop.simps Cons.IH)
qed

lemma gather_length: "length (gather run symbols) = length symbols"
  by (simp add: gather_def)

lemma gather_snoc: "gather run (symbols @ [symb]) = gather run symbols @ [run (length symbols) symb]"
  by (simp add: gather_def enumerate_append_eq)

lemma get_multiple_prices_Nil: "get_multiple_prices run [] k = None"
  by (simp add: get_multiple_prices_def gather_def)

lemma get_multiple_prices_snoc:
  "get_multiple_prices run (symbols @ [symb]) k
   = (if k = symb then Some (as_price (run (length symbols) symb))
      else get_multiple_prices run symbols k)"
proof -
  have "zip (symbols @ [symb]) (gather run (symbols @ [symb]))
        = zip symbols (gather run symbols) @ [(symb, run (length symbols) symb)]"
    by (simp add: gather_snoc gather_length)
  then show ?thesis
    unfolding get_multiple_prices_def by (simp only: price_dict_loop_snoc)
qed

lemma get_multiple_prices_dom: "dom (get_multiple_prices run symbols) = set symbols"
proof (induction symbols rule: rev_induct)
  case Nil
  show ?case by (simp add: dom_def get_multiple_prices_Nil)
next
  case (snoc x xs)
  have "dom (get_multiple_prices run (xs @ [x])) = insert x (dom (get_multiple_prices run xs))"
    by (auto simp: dom_def get_multiple_prices_snoc)
  with snoc show ?case by simp
qed

lemma get_multiple_prices_last:
  assumes "i < length symbols"
      and "\<forall>j. i < j \<and> j < length symbols \<longrightarrow> symbols ! j \<noteq> symbols ! i"
  shows "get_multiple_prices run symbols (symbols ! i) = Some (as_price (run i (symbols ! i)))"
  using assms
proof (induction symbols rule: rev_induct)
  case Nil
  then show ?case by simp
next
  case (snoc x xs)
  show ?case
  proof (cases "i = length xs")
    case True
    then show ?thesis by (simp add: get_multiple_prices_snoc)
  next
    case False
    with snoc.prems(1) have i: "i < length xs" by simp
    have "(xs @ [x]) ! length xs \<noteq> (xs @ [x]) ! i"
      using snoc.prems(2) i by (metis length_append_singleton lessI)
    then have ne: "x \<noteq> xs ! i" using i by (simp add: nth_append)
    have "\<forall>j. i < j \<and> j < length xs \<longrightarrow> xs ! j \<noteq> xs ! i"
    proof (intro allI impI)
      fix j assume j: "i < j \<and> j < length xs"
      then have "(xs @ [x]) ! j \<noteq> (xs @ [x]) ! i" using snoc.prems(2) by simp
      then show "xs ! j \<noteq> xs ! i" using i j by (simp add: nth_append)
    qed
    from snoc.IH [OF i this] ne i show ?thesis
      by (simp add: get_multiple_prices_snoc nth_append)
  qed
qed

lemma get_multiple_prices_isolated:
  assumes "\<forall>i. i < length symbols \<and> symbols ! i = symb \<longrightarrow> run' i symb = run i symb"
  shows "get_multiple_prices run' symbols symb = get_multiple_prices run symbols symb"
  using assms
proof (induction symbols rule: rev_induct)
  case Nil
  then show ?case by (simp add: get_multiple_prices_Nil)
next
  case (snoc x xs)
  have "\<forall>i. i < length xs \<and> xs ! i = symb \<longrightarrow> run' i symb = run i symb"
  proof (intro allI impI)
    fix i assume i: "i < length xs \<and> xs ! i = symb"
    then have "i < length (xs @ [x]) \<and> (xs @ [x]) ! i = symb" by (simp add: nth_append)
    with snoc.prems show "run' i symb = run i symb" by blast
  qed
  from snoc.IH [OF this] have ih: "get_multiple_prices run' xs symb = get_multiple_prices run xs symb" .
  show ?case
  proof (cases "x = symb")
    case True
    then have "run' (length xs) symb = run (length xs) symb" using snoc.prems by simp
    with True show ?thesis by (simp add: get_multiple_prices_snoc)
  next
    case False
    with ih show ?thesis by (simp add: get_multiple_prices_snoc)
  qed
qed

lemma get_current_price_other_keys:
  "k \<noteq> symb \<Longrightarrow> price_cache (fst (snd (get_current_price self db w symb))) k = price_cache self k"
  by (simp add: get_current_price_def aenter_def split: option.split prod.split sum.split)

section \<open>The price service: claims\<close>

text \<open>
  Claim C1: when the quote source fails for a symbol, the resolution does not raise and
  answers from the fallback store, for every way of failing to obtain a price. The code
  does so when the provider raises (\<open>get_current_price_raised\<close>), but not when the
  provider answers without any usable price: with an \<^verbatim>\<open>info\<close> dictionary that has no
  price field and an empty history frame, the resolution returns \<^verbatim>\<open>None\<close> without
  querying the history, although the history holds a quote for the symbol.
\<close>

theorem C1_no_price_skips_fallback:
  "get_last_known_price aapl_history (env_at provider_silent 0) ''AAPL'' = Some (Dec 150 0)
   \<and> get_current_price PriceService_init aapl_history (env_at provider_silent 0) ''AAPL''
       = (None, PriceService_init, aapl_history,
          [Acquire, TickerCall ''AAPL'', InfoRead ''AAPL'', HistoryCall ''AAPL'', Release])"
  by (simp add: get_current_price_def cache_lookup_def PriceService_init_def aenter_def
      fetch_price_def env_at_def provider_silent_def silent_ticker_def price_fields_def
      get_last_known_price_def aapl_history_def)

text \<open>
  Claim C2: a cache lookup is a hit exactly when the symbol has an entry whose age is
  below 300 seconds; on a hit the cached price is returned at once, the service and the
  database are unchanged and no call is made (neither to the throttler nor to the
  provider); on a stale entry the resolution goes on to the throttler and the provider,
  and the entry is still there afterwards, as it was or overwritten by the price fetched.
\<close>

theorem C2_cache_lookup:
  assumes dur: "cache_duration self = 300"
  shows "((cache_lookup self (now_lookup w) symb \<noteq> None) =
            (\<exists>p t. price_cache self symb = Some (p, t)
                 \<and> total_seconds (now_lookup w - t) < 300))
       \<and> (\<forall>p t. price_cache self symb = Some (p, t)
              \<longrightarrow> total_seconds (now_lookup w - t) < 300
              \<longrightarrow> get_current_price self db w symb = (Some p, self, db, []))
       \<and> (\<forall>p t. price_cache self symb = Some (p, t)
              \<longrightarrow> 300 \<le> total_seconds (now_lookup w - t)
              \<longrightarrow> (\<exists>r self' db' rest.
                     get_current_price self db w symb
                       = (r, self', db', Acquire # TickerCall symb # rest)
                     \<and> (price_cache self' symb = Some (p, t)
                        \<or> (\<exists>p'. r = Some p'
                               \<and> price_cache self' symb = Some (p', now_cached w)))))"
proof (intro conjI allI impI)
  show "(cache_lookup self (now_lookup w) symb \<noteq> None) =
          (\<exists>p t. price_cache self symb = Some (p, t) \<and> total_seconds (now_lookup w - t) < 300)"
    using dur by (auto simp: cache_lookup_def split: option.splits)
next
  fix p t
  assume "price_cache self symb = Some (p, t)" "total_seconds (now_lookup w - t) < 300"
  then have "cache_lookup self (now_lookup w) symb = Some p"
    using dur by (simp add: cache_lookup_def)
  then show "get_current_price self db w symb = (Some p, self, db, [])"
    by (rule get_current_price_hit)
next
  fix p t
  assume entry: "price_cache self symb = Some (p, t)"
    and stale: "300 \<le> total_seconds (now_lookup w - t)"
  then have miss: "cache_lookup self (now_lookup w) symb = None"
    using dur by (simp add: cache_lookup_def)
  obtain res calls where f: "fetch_price w symb = (res, calls)" by (cases "fetch_price w symb")
  obtain rest where c: "calls = TickerCall symb # rest"
    using fetch_price_calls [of w symb] f by auto
  show "\<exists>r self' db' rest.
          get_current_price self db w symb = (r, self', db', Acquire # TickerCall symb # rest)
          \<and> (price_cache self' symb = Some (p, t)
             \<or> (\<exists>p'. r = Some p' \<and> price_cache self' symb = Some (p', now_cached w)))"
  proof (cases res)
    case (Inl e)
    then show ?thesis using get_current_price_raised [OF miss] f c entry by simp
  next
    case (Inr po)
    then show ?thesis
      using get_current_price_found [OF miss] get_current_price_no_price [OF miss] f c entry
      by (cases po) simp_all
  qed
qed

text \<open>
  The theorem at a service that cached 100.00 for TEST at instant 0: a hit one microsecond
  before the entry is 300 seconds old, a miss at 300 seconds.
\<close>

theorem C2_cache_lookup_witness:
  "cache_duration cached_service = 300
   \<and> total_seconds (299999999 - 0) < 300
   \<and> get_current_price cached_service empty_db (env_at provider_down 299999999) ''TEST''
       = (Some (Dec 10000 (- 2)), cached_service, empty_db, [])
   \<and> (300::rat) \<le> total_seconds (300000000 - 0)
   \<and> (\<exists>r self' db' rest.
         get_current_price cached_service empty_db (env_at provider_down 300000000) ''TEST''
           = (r, self', db', Acquire # TickerCall ''TEST'' # rest)
         \<and> price_cache self' ''TEST'' = Some (Dec 10000 (- 2), 0))"
proof -
  have dur: "cache_duration cached_service = 300"
    by (simp add: cached_service_def PriceService_init_def)
  have entry: "price_cache cached_service ''TEST'' = Some (Dec 10000 (- 2), 0)"
    by (simp add: cached_service_def)
  have fresh: "total_seconds (now_lookup (env_at provider_down 299999999) - 0) < 300"
    by (simp add: total_seconds_def env_at_def)
  have stale: "300 \<le> total_seconds (now_lookup (env_at provider_down 300000000) - 0)"
    by (simp add: total_seconds_def env_at_def)
  have hit: "get_current_price cached_service empty_db (env_at provider_down 299999999) ''TEST''
       = (Some (Dec 10000 (- 2)), cached_service, empty_db, [])"
    using C2_cache_lookup [OF dur, of "env_at provider_down 299999999" "''TEST''" empty_db]
      entry fresh by blast
  have "\<exists>r self' db' rest.
         get_current_price cached_service empty_db (env_at provider_down 300000000) ''TEST''
           = (r, self', db', Acquire # TickerCall ''TEST'' # rest)
         \<and> (price_cache self' ''TEST'' = Some (Dec 10000 (- 2), 0)
            \<or> (\<exists>p'. r = Some p' \<and> price_cache self' ''TEST''
                   = Some (p', now_cached (env_at provider_down 300000000))))"
    using C2_cache_lookup [OF dur, of "env_at provider_down 300000000" "''TEST''" empty_db]
      entry stale by blast
  moreover have "get_current_price cached_service empty_db (env_at provider_down 300000000) ''TEST''
      = (None, cached_service, empty_db,
         [Acquire, TickerCall ''TEST'', QueryHistory ''TEST'', Release])"
    by (simp add: get_current_price_def cache_lookup_def cached_service_def
        PriceService_init_def aenter_def fetch_price_def env_at_def provider_down_def
        get_last_known_price_def empty_db_def total_seconds_def)
  ultimately have "\<exists>r self' db' rest.
         get_current_price cached_service empty_db (env_at provider_down 300000000) ''TEST''
           = (r, self', db', Acquire # TickerCall ''TEST'' # rest)
         \<and> price_cache self' ''TEST'' = Some (Dec 10000 (- 2), 0)"
    using entry by simp
  with dur hit show ?thesis by (simp add: total_seconds_def)
qed

text \<open>
  Claim C3: the mapping that \<^verbatim>\<open>get_multiple_prices\<close> returns has exactly the input
  symbols as keys; a symbol is mapped to the result of its resolution, \<^verbatim>\<open>None\<close> when
  that resolution raised (for a symbol listed more than once, its last resolution is the
  one kept); and the entry of a symbol depends on the resolutions of that symbol only, so
  a failure elsewhere in the batch neither changes it nor ends the batch.
\<close>

theorem C3_get_multiple_prices:
  "dom (get_multiple_prices run symbols) = set symbols
   \<and> (\<forall>i. i < length symbols
          \<and> (\<forall>j. i < j \<and> j < length symbols \<longrightarrow> symbols ! j \<noteq> symbols ! i)
        \<longrightarrow> get_multiple_prices run symbols (symbols ! i)
            = Some (case run i (symbols ! i) of Inl e \<Rightarrow> None | Inr p \<Rightarrow> p))
   \<and> (\<forall>run' symb.
         (\<forall>i. i < length symbols \<and> symbols ! i = symb \<longrightarrow> run' i symb = run i symb)
         \<longrightarrow> get_multiple_prices run' symbols symb = get_multiple_prices run symbols symb)"
  using get_multiple_prices_dom get_multiple_prices_last get_multiple_prices_isolated
  by (simp add: as_price_def)

text \<open>
  The theorem at the batch AAPL, INVALID, GOOGL in which the resolution of INVALID raises.
\<close>

theorem C3_get_multiple_prices_witness:
  "dom (get_multiple_prices flaky_run [''AAPL'', ''INVALID'', ''GOOGL''])
     = {''AAPL'', ''INVALID'', ''GOOGL''}
   \<and> get_multiple_prices flaky_run [''AAPL'', ''INVALID'', ''GOOGL''] ''AAPL''
       = Some (Some (Dec 1000 (- 1)))
   \<and> get_multiple_prices flaky_run [''AAPL'', ''INVALID'', ''GOOGL''] ''INVALID'' = Some None
   \<and> get_multiple_prices flaky_run [''AAPL'', ''INVALID'', ''GOOGL''] ''GOOGL''
       = Some (Some (Dec 1000 (- 1)))
   \<and> get_multiple_prices (\<lambda>i symb. Inr (Some (Dec 1000 (- 1)))) [''AAPL'', ''INVALID'', ''GOOGL''] ''AAPL''
       = get_multiple_prices flaky_run [''AAPL'', ''INVALID'', ''GOOGL''] ''AAPL''"
proof -
  let ?symbols = "[''AAPL'', ''INVALID'', ''GOOGL'']"
  let ?steady = "\<lambda>(i::nat) (symb::symbol). (Inr (Some (Dec 1000 (- 1))) :: error + decimal option)"
  note c3 = C3_get_multiple_prices [of flaky_run ?symbols]
  note keys = c3 [THEN conjunct1]
  note last = c3 [THEN conjunct2, THEN conjunct1, rule_format, OF conjI]
  note isolated = c3 [THEN conjunct2, THEN conjunct2, rule_format]
  have len: "length ?symbols = 3" by simp
  have idx: "j = 0 \<or> j = 1 \<or> j = 2" if "j < length ?symbols" for j
    using that unfolding len by arith
  have d: "dom (get_multiple_prices flaky_run ?symbols) = {''AAPL'', ''INVALID'', ''GOOGL''}"
    using keys by simp
  have u0: "\<forall>j. 0 < j \<and> j < length ?symbols \<longrightarrow> ?symbols ! j \<noteq> ?symbols ! 0"
  proof (intro allI impI)
    fix j assume "0 < j \<and> j < length ?symbols"
    with idx [of j] have "j = 1 \<or> j = 2" by simp
    then show "?symbols ! j \<noteq> ?symbols ! 0" by (elim disjE) simp_all
  qed
  have u1: "\<forall>j. 1 < j \<and> j < length ?symbols \<longrightarrow> ?symbols ! j \<noteq> ?symbols ! 1"
  proof (intro allI impI)
    fix j assume "1 < j \<and> j < length ?symbols"
    with idx [of j] have "j = 2" by simp
    then show "?symbols ! j \<noteq> ?symbols ! 1" by simp
  qed
  have u2: "\<forall>j. 2 < j \<and> j < length ?symbols \<longrightarrow> ?symbols ! j \<noteq> ?symbols ! 2"
  proof (intro allI impI)
    fix j assume "2 < j \<and> j < length ?symbols"
    with idx [of j] show "?symbols ! j \<noteq> ?symbols ! 2" by simp
  qed
  have a: "get_multiple_prices flaky_run ?symbols ''AAPL'' = Some (Some (Dec 1000 (- 1)))"
    using last [of 0, OF _ u0] by (simp add: flaky_run_def)
  have b: "get_multiple_prices flaky_run ?symbols ''INVALID'' = Some None"
    using last [of 1, OF _ u1] by (simp add: flaky_run_def)
  have c: "get_multiple_prices flaky_run ?symbols ''GOOGL'' = Some (Some (Dec 1000 (- 1)))"
    using last [of 2, OF _ u2] by (simp add: flaky_run_def)
  have same: "?steady i ''AAPL'' = flaky_run i ''AAPL''"
    if "i < length ?symbols \<and> ?symbols ! i = ''AAPL''" for i
    by (simp add: flaky_run_def)
  have e: "get_multiple_prices ?steady ?symbols ''AAPL''
          = get_multiple_prices flaky_run ?symbols ''AAPL''"
    by (rule isolated) (rule same)
  from d a b c e show ?thesis by simp
qed

text \<open>
  Claim C4, as amended: when the live fetch obtains a price (the first present field in
  the preference order, or the last close of a history frame that is not empty when no
  field is present, read as a decimal), the resolution returns that decimal as it is,
  with no check of its sign; it stores it in the cache under the symbol with the time of
  the store, and calls the history store, which appends one row when the database session
  works and leaves the history as it was when the session fails.
\<close>

theorem C4_live_fetch:
  assumes miss: "cache_lookup self (now_lookup w) symb = None"
      and tick: "yf_Ticker w symb = Inr ticker"
      and dict: "info ticker = Inr dict"
      and found: "preferred_field dict = Some (PyNumber p)
                  \<or> (preferred_field dict = None
                      \<and> (\<exists>closes. history ticker = Inr closes \<and> closes \<noteq> []
                                   \<and> last closes = PyNumber p))"
  shows "\<exists>calls. get_current_price self db w symb =
           (Some p,
            self\<lparr>price_cache := (price_cache self)(symb \<mapsto> (p, now_cached w))\<rparr>,
            (if db_ok w
             then db\<lparr>price_history := price_history db @
                    [\<lparr>PriceHistory.id' = Some (int (length (price_history db)) + 1),
                      PriceHistory.symbol = symb, price = p,
                      timestamp = now_stored w, source = ''yfinance''\<rparr>]\<rparr>
             else db),
            calls)
         \<and> StoreHistory symb p \<in> set calls"
proof -
  obtain calls where "fetch_price w symb = (Inr (Some p), calls)"
    using fetch_price_found [OF tick dict found] by blast
  from get_current_price_found [OF miss this, of db]
  show ?thesis by (simp add: store_price_history_def)
qed

text \<open>The theorem at a provider that quotes 150.50 for AAPL.\<close>

theorem C4_live_fetch_witness:
  "cache_lookup PriceService_init (now_lookup (env_at (provider_quotes (Dec 15050 (- 2))) 7)) ''AAPL'' = None
   \<and> preferred_field [''currentPrice'' \<mapsto> PyNumber (Dec 15050 (- 2))] = Some (PyNumber (Dec 15050 (- 2)))
   \<and> (\<exists>calls. get_current_price PriceService_init empty_db
                 (env_at (provider_quotes (Dec 15050 (- 2))) 7) ''AAPL'' =
         (Some (Dec 15050 (- 2)),
          PriceService_init\<lparr>price_cache := [''AAPL'' \<mapsto> (Dec 15050 (- 2), 7)]\<rparr>,
          empty_db\<lparr>price_history :=
            [\<lparr>PriceHistory.id' = Some 1, PriceHistory.symbol = ''AAPL'',
              price = Dec 15050 (- 2), timestamp = 7, source = ''yfinance''\<rparr>]\<rparr>,
          calls)
        \<and> StoreHistory ''AAPL'' (Dec 15050 (- 2)) \<in> set calls)"
proof -
  let ?w = "env_at (provider_quotes (Dec 15050 (- 2))) 7"
  let ?dict = "[''currentPrice'' \<mapsto> PyNumber (Dec 15050 (- 2))]"
  let ?ticker = "\<lparr>info = Inr ?dict, history = Inr []\<rparr>"
  have miss: "cache_lookup PriceService_init (now_lookup ?w) ''AAPL'' = None"
    by (simp add: cache_lookup_def PriceService_init_def)
  have tick: "yf_Ticker ?w ''AAPL'' = Inr ?ticker"
    by (simp add: env_at_def provider_quotes_def)
  have dict: "info ?ticker = Inr ?dict" by simp
  have pref: "preferred_field ?dict = Some (PyNumber (Dec 15050 (- 2)))"
    by (simp add: preferred_field_def present_def)
  from C4_live_fetch [OF miss tick dict disjI1 [OF pref], of empty_db]
  show ?thesis using miss pref
    by (simp add: env_at_def empty_db_def PriceService_init_def)
qed

text \<open>
  The claim as stated fails: a provider that quotes 0 makes the resolution return 0, which
  is not a positive price; and with a database session that fails, the price 150 is
  returned although no row was appended to the history.
\<close>

theorem C4_counterexample:
  "fst (get_current_price PriceService_init empty_db (env_at (provider_quotes (Dec 0 0)) 0) ''AAPL'')
     = Some (Dec 0 0)
   \<and> \<not> decimal_gt (Dec 0 0) (Dec 0 0)
   \<and> fst (get_current_price PriceService_init empty_db
            ((env_at (provider_quotes (Dec 150 0)) 0)\<lparr>db_ok := False\<rparr>) ''AAPL'')
     = Some (Dec 150 0)
   \<and> price_history (fst (snd (snd (get_current_price PriceService_init empty_db
            ((env_at (provider_quotes (Dec 150 0)) 0)\<lparr>db_ok := False\<rparr>) ''AAPL'')))) = []"
  by (simp add: get_current_price_def cache_lookup_def PriceService_init_def aenter_def
      fetch_price_def env_at_def provider_quotes_def price_fields_def to_decimal_def
      store_price_history_def empty_db_def decimal_gt_def decimal_cmp_def)

text \<open>
  Claim C9: the throttler holds each caller back until the quota of 10 calls per 60
  seconds allows its call. The code does not: entering the throttler returns at once,
  and eleven resolutions of eleven symbols at one instant make eleven provider calls.
\<close>

theorem C9_throttler_does_not_limit:
  "rate_limit (throttler PriceService_init) = 10
   \<and> period (throttler PriceService_init) = 60
   \<and> aenter (throttler PriceService_init) 0 = (throttler PriceService_init, 0)
   \<and> length (filter is_ticker_call
        (snd (snd (resolve_each PriceService_init empty_db
           (map (\<lambda>symb. (env_at (provider_quotes (Dec 1 0)) 0, symb)) eleven_symbols))))) = 11"
  by (simp add: eleven_symbols_def get_current_price_def cache_lookup_def PriceService_init_def
      aenter_def fetch_price_def env_at_def provider_quotes_def price_fields_def to_decimal_def
      store_price_history_def empty_db_def)

text \<open>
  Claim C10: when a resolution misses the cache and the fetch gives no price (it raises,
  or the provider has none), the result is the fallback's answer or \<^verbatim>\<open>None\<close>, and the
  service (its cache included) and the database (its history included) are returned as
  they were. A later resolution of the symbol in that state misses the cache again and
  calls the provider.
\<close>

theorem C10_failure_path_frame:
  assumes miss: "cache_lookup self (now_lookup w) symb = None"
      and failed: "fst (fetch_price w symb) = Inr None \<or> (\<exists>e. fst (fetch_price w symb) = Inl e)"
      and later: "now_lookup w \<le> now_lookup w'"
  shows "\<exists>r calls.
           get_current_price self db w symb = (r, self, db, calls)
           \<and> (r = None \<or> r = get_last_known_price db w symb)
           \<and> cache_lookup self (now_lookup w') symb = None
           \<and> (\<exists>r' self' db' rest.
                 get_current_price self db w' symb
                   = (r', self', db', Acquire # TickerCall symb # rest))"
proof -
  have again: "cache_lookup self (now_lookup w') symb = None"
    using miss later by (rule cache_lookup_stays_None)
  note calls = get_current_price_miss_calls [OF again, of db]
  obtain res calls0 where f: "fetch_price w symb = (res, calls0)" by (cases "fetch_price w symb")
  from failed f have "res = Inr None \<or> (\<exists>e. res = Inl e)" by simp
  then show ?thesis
  proof
    assume "res = Inr None"
    with f get_current_price_no_price [OF miss, of calls0 db] again calls show ?thesis by simp
  next
    assume "\<exists>e. res = Inl e"
    then obtain e where "res = Inl e" ..
    with f get_current_price_raised [OF miss, of e calls0 db] again calls show ?thesis by simp
  qed
qed

text \<open>
  The theorem at a provider that is down, with one quote of AAPL in the history: the
  fallback price 150 is returned and not cached, and the next resolution calls the
  provider again.
\<close>

theorem C10_failure_path_frame_witness:
  "cache_lookup PriceService_init (now_lookup (env_at provider_down 0)) ''AAPL'' = None
   \<and> fst (fetch_price (env_at provider_down 0) ''AAPL'') = Inl ProviderError
   \<and> now_lookup (env_at provider_down 0) \<le> now_lookup (env_at provider_down 1000000)
   \<and> fst (get_current_price PriceService_init aapl_history (env_at provider_down 0) ''AAPL'')
       = Some (Dec 150 0)
   \<and> (\<exists>r calls.
         get_current_price PriceService_init aapl_history (env_at provider_down 0) ''AAPL''
           = (r, PriceService_init, aapl_history, calls)
         \<and> (\<exists>r' self' db' rest.
               get_current_price PriceService_init aapl_history (env_at provider_down 1000000) ''AAPL''
                 = (r', self', db', Acquire # TickerCall ''AAPL'' # rest)))"
proof -
  let ?w = "env_at provider_down 0" and ?w' = "env_at provider_down 1000000"
  have miss: "cache_lookup PriceService_init (now_lookup ?w) ''AAPL'' = None"
    by (simp add: cache_lookup_def PriceService_init_def)
  have raised: "fst (fetch_price ?w ''AAPL'') = Inl ProviderError"
    by (simp add: fetch_price_def env_at_def provider_down_def)
  then have failed: "fst (fetch_price ?w ''AAPL'') = Inr None
                     \<or> (\<exists>e. fst (fetch_price ?w ''AAPL'') = Inl e)" by simp
  have later: "now_lookup ?w \<le> now_lookup ?w'" by (simp add: env_at_def)
  have res: "fst (get_current_price PriceService_init aapl_history ?w ''AAPL'') = Some (Dec 150 0)"
    by (simp add: get_current_price_def cache_lookup_def PriceService_init_def aenter_def
        fetch_price_def env_at_def provider_down_def get_last_known_price_def aapl_history_def)
  from C10_failure_path_frame [OF miss failed later, of aapl_history]
  show ?thesis using miss raised later res by blast
qed


section \<open>The portfolio service: valued holdings and the summary\<close>

lemma dec_val_nonneg: "(0 \<le> dec_val x) = (0 \<le> coefficient x)"
  using dec_val_sign(2) [of x] by (simp add: not_less [symmetric])

lemma decimal_mul_nonneg:
  assumes "0 \<le> dec_val a" "0 \<le> dec_val b"
  shows "0 \<le> dec_val (decimal_mul a b)"
proof -
  have "0 \<le> coefficient a * coefficient b"
    using assms by (simp add: dec_val_nonneg)
  then have "0 \<le> sgn (coefficient (Dec (coefficient a * coefficient b) (exponent a + exponent b)))"
    by (simp add: sgn_if)
  then have "0 \<le> sgn (coefficient (decimal_mul a b))"
    unfolding decimal_mul_def by (simp only: dec_fix_sgn)
  then show ?thesis by (simp add: dec_val_nonneg sgn_if split: if_splits)
qed

lemma decimal_add_nonneg:
  assumes "0 \<le> dec_val a" "0 \<le> dec_val b"
  shows "0 \<le> dec_val (decimal_add a b)"
proof -
  define e where "e = min (exponent a) (exponent b)"
  define c where "c = coefficient a * 10 ^ nat (exponent a - e) + coefficient b * 10 ^ nat (exponent b - e)"
  have "0 \<le> c" using assms by (simp add: dec_val_nonneg c_def)
  then have "0 \<le> sgn (coefficient (Dec c e))" by (simp add: sgn_if)
  then have "0 \<le> sgn (coefficient (dec_fix (Dec c e)))" by (simp only: dec_fix_sgn)
  moreover have "decimal_add a b = dec_fix (Dec c e)"
    by (simp add: decimal_add_def Let_def c_def e_def)
  ultimately show ?thesis by (simp add: dec_val_nonneg sgn_if split: if_splits)
qed

lemma decimal_gt_zero_nonneg:
  "0 \<le> dec_val x \<Longrightarrow> decimal_gt x (Dec 0 0) = (dec_val x \<noteq> 0)"
  by (auto simp: decimal_gt_zero dec_val_nonneg dec_val_sign)

lemma holding_metrics_specified:
  assumes "0 \<le> dec_val (decimal_mul (Holding.quantity h) (Holding.purchase_price h))"
  shows "\<exists>m. holding_metrics h hid cur now = Inr m
             \<and> HoldingWithMetrics.symbol m = Holding.symbol h
             \<and> HoldingWithMetrics.id' m = hid
             \<and> metrics_as_specified h cur m"
proof (cases cur)
  case None
  then show ?thesis by (simp add: holding_metrics_def metrics_as_specified_def Let_def)
next
  case (Some cp)
  define tc where "tc = decimal_mul (Holding.quantity h) (Holding.purchase_price h)"
  have gt: "decimal_gt tc (Dec 0 0) = (dec_val tc \<noteq> 0)"
    using assms unfolding tc_def by (rule decimal_gt_zero_nonneg)
  show ?thesis
  proof (cases "dec_val tc = 0")
    case True
    with gt Some show ?thesis
      by (simp add: holding_metrics_def metrics_as_specified_def Let_def tc_def)
  next
    case False
    then have "coefficient tc \<noteq> 0" by (simp add: dec_val_sign)
    then have "decimal_truediv (decimal_sub (decimal_mul (Holding.quantity h) cp) tc) tc
               = Inr (dec_fix (dec_quotient (decimal_sub (decimal_mul (Holding.quantity h) cp) tc) tc))"
      by (rule decimal_truediv_defined)
    with gt Some False show ?thesis
      by (simp add: holding_metrics_def metrics_as_specified_def Let_def tc_def)
  qed
qed

lemma metrics_loop_specified:
  assumes "\<forall>h \<in> set hs. 0 \<le> dec_val (decimal_mul (Holding.quantity h) (Holding.purchase_price h))"
  shows "\<exists>ms. metrics_loop hs prices now acc = Inr (acc @ ms)
          \<and> list_all2 (\<lambda>h m. HoldingWithMetrics.symbol m = Holding.symbol h
                               \<and> metrics_as_specified h (dict_get prices (Holding.symbol h)) m)
               (filter (\<lambda>h. Holding.id' h \<noteq> None) hs) ms"
  using assms
proof (induction hs arbitrary: acc)
  case Nil
  then show ?case by simp
next
  case (Cons h hs)
  then have rest: "\<forall>h \<in> set hs. 0 \<le> dec_val (decimal_mul (Holding.quantity h) (Holding.purchase_price h))"
    and here: "0 \<le> dec_val (decimal_mul (Holding.quantity h) (Holding.purchase_price h))"
    by simp_all
  show ?case
  proof (cases "Holding.id' h")
    case None
    with Cons.IH [OF rest, of acc] show ?thesis by simp
  next
    case (Some hid)
    obtain m where m: "holding_metrics h hid (dict_get prices (Holding.symbol h)) now = Inr m"
      "HoldingWithMetrics.symbol m = Holding.symbol h"
      "metrics_as_specified h (dict_get prices (Holding.symbol h)) m"
      using holding_metrics_specified [OF here] by blast
    obtain ms where ms: "metrics_loop hs prices now (acc @ [m]) = Inr ((acc @ [m]) @ ms)"
      "list_all2 (\<lambda>h m. HoldingWithMetrics.symbol m = Holding.symbol h
                               \<and> metrics_as_specified h (dict_get prices (Holding.symbol h)) m)
               (filter (\<lambda>h. Holding.id' h \<noteq> None) hs) ms"
      using Cons.IH [OF rest, of "acc @ [m]"] by blast
    show ?thesis
    proof (intro exI [of _ "m # ms"] conjI)
      show "metrics_loop (h # hs) prices now acc = Inr (acc @ m # ms)"
        using Some m(1) ms(1) by simp
      show "list_all2 (\<lambda>h m. HoldingWithMetrics.symbol m = Holding.symbol h
                               \<and> metrics_as_specified h (dict_get prices (Holding.symbol h)) m)
               (filter (\<lambda>h. Holding.id' h \<noteq> None) (h # hs)) (m # ms)"
        using Some m(2,3) ms(2) by simp
    qed
  qed
qed

lemma get_holdings_with_metrics_specified:
  assumes "\<forall>h \<in> set (get_portfolio_holdings db pid).
             0 \<le> dec_val (Holding.quantity h) \<and> 0 \<le> dec_val (Holding.purchase_price h)"
  shows "\<exists>ms. get_holdings_with_metrics run db pid now = Inr ms
          \<and> list_all2
               (\<lambda>h m. HoldingWithMetrics.symbol m = Holding.symbol h
                  \<and> metrics_as_specified h
                       (dict_get (get_multiple_prices run
                                    (map Holding.symbol (get_portfolio_holdings db pid)))
                          (Holding.symbol h)) m)
               (filter (\<lambda>h. Holding.id' h \<noteq> None) (get_portfolio_holdings db pid)) ms"
proof (cases "get_portfolio_holdings db pid = []")
  case True
  then show ?thesis by (simp add: get_holdings_with_metrics_def)
next
  case False
  have "\<forall>h \<in> set (get_portfolio_holdings db pid).
          0 \<le> dec_val (decimal_mul (Holding.quantity h) (Holding.purchase_price h))"
    using assms by (simp add: decimal_mul_nonneg)
  from metrics_loop_specified [OF this, of _ now "[]"] False
  show ?thesis by (simp add: get_holdings_with_metrics_def Let_def)
qed

lemma specified_cost:
  "metrics_as_specified h cur m
   \<Longrightarrow> HoldingWithMetrics.total_cost m
       = Some (decimal_mul (Holding.quantity h) (Holding.purchase_price h))"
  by (simp add: metrics_as_specified_def Let_def)

lemma list_all2_right:
  "list_all2 P xs ys \<Longrightarrow> y \<in> set ys \<Longrightarrow> \<exists>x \<in> set xs. P x y"
  by (induction rule: list_all2_induct) auto

lemma totals_loop_sums:
  "totals_loop ms (a, b)
   = (foldl decimal_add a (List.map_filter HoldingWithMetrics.total_cost ms),
      foldl decimal_add b (List.map_filter current_value ms))"
  by (induction ms arbitrary: a b) (simp_all split: option.split)

lemma foldl_add_nonneg:
  "0 \<le> dec_val a \<Longrightarrow> \<forall>x \<in> set xs. 0 \<le> dec_val x \<Longrightarrow> 0 \<le> dec_val (foldl decimal_add a xs)"
  by (induction xs arbitrary: a) (simp_all add: decimal_add_nonneg)

lemma dec_sum_nonneg: "\<forall>x \<in> set xs. 0 \<le> dec_val x \<Longrightarrow> 0 \<le> dec_val (dec_sum xs)"
  unfolding dec_sum_def by (rule foldl_add_nonneg) (simp_all add: dec_val_zero)

lemma zero_minus_zero: "decimal_sub (Dec 0 0) (Dec 0 0) = Dec 0 0"
  by code_simp

lemma get_portfolio_summary_empty:
  assumes "get_portfolio db pid = Some portfolio"
      and "get_holdings_with_metrics run db pid now = Inr []"
  shows "get_portfolio_summary run db pid now =
           Inr (Some \<lparr>PortfolioSummary.portfolio_id = pid, portfolio_name = name portfolio,
                      total_holdings = 0,
                      PortfolioSummary.total_cost = Dec 0 0,
                      total_current_value = Dec 0 0,
                      total_absolute_return = Dec 0 0,
                      total_percentage_return = Dec 0 0,
                      best_performer = None, worst_performer = None,
                      PortfolioSummary.last_updated = now\<rparr>)"
  using assms by (simp add: get_portfolio_summary_def)

lemma get_portfolio_summary_totals:
  assumes "get_portfolio db pid = Some portfolio"
      and "get_holdings_with_metrics run db pid now = Inr ms"
      and "ms \<noteq> []"
      and "0 \<le> dec_val (dec_sum (List.map_filter HoldingWithMetrics.total_cost ms))"
  shows "\<exists>tpr. get_portfolio_summary run db pid now =
           Inr (Some \<lparr>PortfolioSummary.portfolio_id = pid, portfolio_name = name portfolio,
                      total_holdings = length ms,
                      PortfolioSummary.total_cost =
                        dec_sum (List.map_filter HoldingWithMetrics.total_cost ms),
                      total_current_value = dec_sum (List.map_filter current_value ms),
                      total_absolute_return =
                        decimal_sub (dec_sum (List.map_filter current_value ms))
                          (dec_sum (List.map_filter HoldingWithMetrics.total_cost ms)),
                      total_percentage_return = tpr,
                      best_performer = fst (fst (performers_loop ms ((None, None), (None, None)))),
                      worst_performer = fst (snd (performers_loop ms ((None, None), (None, None)))),
                      PortfolioSummary.last_updated = now\<rparr>)
         \<and> (if dec_val (dec_sum (List.map_filter HoldingWithMetrics.total_cost ms)) = 0
            then tpr = Dec 0 0
            else (\<exists>quot.
                   decimal_truediv
                     (decimal_sub (dec_sum (List.map_filter current_value ms))
                        (dec_sum (List.map_filter HoldingWithMetrics.total_cost ms)))
                     (dec_sum (List.map_filter HoldingWithMetrics.total_cost ms)) = Inr quot
                   \<and> tpr = decimal_mul quot (Dec 100 0)))"
proof -
  define tc where "tc = dec_sum (List.map_filter HoldingWithMetrics.total_cost ms)"
  define tcv where "tcv = dec_sum (List.map_filter current_value ms)"
  have loop: "totals_loop ms (Dec 0 0, Dec 0 0) = (tc, tcv)"
    by (simp add: totals_loop_sums tc_def tcv_def dec_sum_def)
  have gt: "decimal_gt tc (Dec 0 0) = (dec_val tc \<noteq> 0)"
    using assms(4) unfolding tc_def by (rule decimal_gt_zero_nonneg)
  show ?thesis
  proof (cases "dec_val tc = 0")
    case True
    with gt assms(1-3) loop show ?thesis
      unfolding tc_def [symmetric] tcv_def [symmetric]
      by (simp add: get_portfolio_summary_def Let_def)
  next
    case False
    then have "coefficient tc \<noteq> 0" by (simp add: dec_val_sign)
    then have "decimal_truediv (decimal_sub tcv tc) tc
               = Inr (dec_fix (dec_quotient (decimal_sub tcv tc) tc))"
      by (rule decimal_truediv_defined)
    with False gt assms(1-3) loop show ?thesis
      unfolding tc_def [symmetric] tcv_def [symmetric]
      by (simp add: get_portfolio_summary_def Let_def)
  qed
qed

lemma performers_loop_append:
  "performers_loop (xs @ ys) acc = performers_loop ys (performers_loop xs acc)"
proof (induction xs arbitrary: acc)
  case Nil
  show ?case by simp
next
  case (Cons x xs)
  obtain bp br wp wr where acc: "acc = ((bp, br), (wp, wr))" by (cases acc) auto
  show ?case unfolding acc by (simp add: Cons.IH split: option.split)
qed

lemma first_max_single: "first_max [x] x"
  unfolding first_max_def by (intro exI [of _ "[]"]) simp

lemma first_min_single: "first_min [x] x"
  unfolding first_min_def by (intro exI [of _ "[]"]) simp

lemma first_max_keep:
  assumes "first_max rs b" "return_of x \<le> return_of b"
  shows "first_max (rs @ [x]) b"
proof -
  from assms(1) obtain pre post where "rs = pre @ b # post"
    "\<forall>y \<in> set pre. return_of y < return_of b" "\<forall>y \<in> set post. return_of y \<le> return_of b"
    unfolding first_max_def by blast
  then have "rs @ [x] = pre @ b # (post @ [x])
      \<and> (\<forall>y \<in> set pre. return_of y < return_of b)
      \<and> (\<forall>y \<in> set (post @ [x]). return_of y \<le> return_of b)"
    using assms(2) by simp
  then show ?thesis unfolding first_max_def by blast
qed

lemma first_max_replace:
  assumes "first_max rs b" "return_of b < return_of x"
  shows "first_max (rs @ [x]) x"
proof -
  from assms(1) obtain pre post where rs: "rs = pre @ b # post"
    and pre: "\<forall>y \<in> set pre. return_of y < return_of b"
    and post: "\<forall>y \<in> set post. return_of y \<le> return_of b"
    unfolding first_max_def by blast
  have "\<forall>y \<in> set rs. return_of y < return_of x"
  proof
    fix y assume "y \<in> set rs"
    then have "y \<in> set pre \<or> y = b \<or> y \<in> set post" by (auto simp: rs)
    then have "return_of y \<le> return_of b" using pre post by (auto intro: less_imp_le)
    with assms(2) show "return_of y < return_of x" by simp
  qed
  then have "rs @ [x] = rs @ x # [] \<and> (\<forall>y \<in> set rs. return_of y < return_of x)
      \<and> (\<forall>y \<in> set []. return_of y \<le> return_of x)" by simp
  then show ?thesis unfolding first_max_def by blast
qed

lemma first_min_keep:
  assumes "first_min rs w" "return_of w \<le> return_of x"
  shows "first_min (rs @ [x]) w"
proof -
  from assms(1) obtain pre post where "rs = pre @ w # post"
    "\<forall>y \<in> set pre. return_of w < return_of y" "\<forall>y \<in> set post. return_of w \<le> return_of y"
    unfolding first_min_def by blast
  then have "rs @ [x] = pre @ w # (post @ [x])
      \<and> (\<forall>y \<in> set pre. return_of w < return_of y)
      \<and> (\<forall>y \<in> set (post @ [x]). return_of w \<le> return_of y)"
    using assms(2) by simp
  then show ?thesis unfolding first_min_def by blast
qed

lemma first_min_replace:
  assumes "first_min rs w" "return_of x < return_of w"
  shows "first_min (rs @ [x]) x"
proof -
  from assms(1) obtain pre post where rs: "rs = pre @ w # post"
    and pre: "\<forall>y \<in> set pre. return_of w < return_of y"
    and post: "\<forall>y \<in> set post. return_of w \<le> return_of y"
    unfolding first_min_def by blast
  have "\<forall>y \<in> set rs. return_of x < return_of y"
  proof
    fix y assume "y \<in> set rs"
    then have "y \<in> set pre \<or> y = w \<or> y \<in> set post" by (auto simp: rs)
    then have "return_of w \<le> return_of y" using pre post by (auto intro: less_imp_le)
    with assms(2) show "return_of x < return_of y" by simp
  qed
  then have "rs @ [x] = rs @ x # [] \<and> (\<forall>y \<in> set rs. return_of x < return_of y)
      \<and> (\<forall>y \<in> set []. return_of x \<le> return_of y)" by simp
  then show ?thesis unfolding first_min_def by blast
qed

lemma first_max_member: "first_max rs b \<Longrightarrow> b \<in> set rs"
  unfolding first_max_def by auto

lemma first_min_member: "first_min rs w \<Longrightarrow> w \<in> set rs"
  unfolding first_min_def by auto

lemma performers_loop_scanned:
  "scanned (with_return ms) (performers_loop ms ((None, None), (None, None)))"
proof (induction ms rule: rev_induct)
  case Nil
  show ?case by (simp add: scanned_def with_return_def)
next
  case (snoc x xs)
  define acc where "acc = performers_loop xs ((None, None), (None, None))"
  have step: "performers_loop (xs @ [x]) ((None, None), (None, None)) = performers_loop [x] acc"
    by (simp add: performers_loop_append acc_def)
  have ih: "scanned (with_return xs) acc" using snoc by (simp add: acc_def)
  show ?case
  proof (cases "percentage_return x")
    case None
    have "performers_loop [x] acc = acc" using None by (cases acc) auto
    moreover have "with_return (xs @ [x]) = with_return xs" using None by (simp add: with_return_def)
    ultimately show ?thesis using ih step by simp
  next
    case (Some pr)
    have wr: "with_return (xs @ [x]) = with_return xs @ [x]" using Some by (simp add: with_return_def)
    have rx: "return_of x = dec_val pr" using Some by (simp add: return_of_def)
    show ?thesis
    proof (cases "with_return xs = []")
      case True
      with ih have "acc = ((None, None), (None, None))" by (simp add: scanned_def)
      then have "performers_loop [x] acc
        = ((Some (HoldingWithMetrics.symbol x), percentage_return x),
           (Some (HoldingWithMetrics.symbol x), percentage_return x))"
        using Some by simp
      moreover have "first_max [x] x" "first_min [x] x"
        by (rule first_max_single, rule first_min_single)
      ultimately show ?thesis unfolding step wr True scanned_def by auto
    next
      case False
      with ih obtain b w where b: "first_max (with_return xs) b" and w: "first_min (with_return xs) w"
        and acc: "acc = ((Some (HoldingWithMetrics.symbol b), percentage_return b),
                         (Some (HoldingWithMetrics.symbol w), percentage_return w))"
        by (auto simp: scanned_def)
      from first_max_member [OF b] obtain rb where rb: "percentage_return b = Some rb"
        by (auto simp: with_return_def)
      from first_min_member [OF w] obtain rw where rw: "percentage_return w = Some rw"
        by (auto simp: with_return_def)
      have vb: "return_of b = dec_val rb" using rb by (simp add: return_of_def)
      have vw: "return_of w = dec_val rw" using rw by (simp add: return_of_def)
      define b' where "b' = (if decimal_gt pr rb then x else b)"
      define w' where "w' = (if decimal_lt pr rw then x else w)"
      have res: "performers_loop [x] acc
                 = ((Some (HoldingWithMetrics.symbol b'), percentage_return b'),
                    (Some (HoldingWithMetrics.symbol w'), percentage_return w'))"
        using Some rb rw by (simp add: acc b'_def w'_def)
      have fb: "first_max (with_return xs @ [x]) b'"
      proof (cases "decimal_gt pr rb")
        case True
        then have "return_of b < return_of x" by (simp add: decimal_gt_val rx vb)
        from first_max_replace [OF b this] True show ?thesis by (simp add: b'_def)
      next
        case F: False
        then have "return_of x \<le> return_of b" by (simp add: decimal_gt_val rx vb)
        from first_max_keep [OF b this] F show ?thesis by (simp add: b'_def)
      qed
      have fw: "first_min (with_return xs @ [x]) w'"
      proof (cases "decimal_lt pr rw")
        case True
        then have "return_of x < return_of w" by (simp add: decimal_lt_val rx vw)
        from first_min_replace [OF w this] True show ?thesis by (simp add: w'_def)
      next
        case F: False
        then have "return_of w \<le> return_of x" by (simp add: decimal_lt_val rx vw)
        from first_min_keep [OF w this] F show ?thesis by (simp add: w'_def)
      qed
      show ?thesis unfolding step wr res scanned_def using fb fw by auto
    qed
  qed
qed

lemma summary_performers:
  assumes "get_holdings_with_metrics run db pid now = Inr ms"
      and "get_portfolio_summary run db pid now = Inr (Some s)"
  shows "best_performer s = fst (fst (performers_loop ms ((None, None), (None, None))))
       \<and> worst_performer s = fst (snd (performers_loop ms ((None, None), (None, None))))"
proof (cases "get_portfolio db pid")
  case None
  with assms(2) show ?thesis by (simp add: get_portfolio_summary_def)
next
  case (Some portfolio)
  show ?thesis
  proof (cases "ms = []")
    case True
    with assms Some show ?thesis by (auto simp: get_portfolio_summary_def)
  next
    case False
    obtain tc tcv where t: "totals_loop ms (Dec 0 0, Dec 0 0) = (tc, tcv)"
      by (cases "totals_loop ms (Dec 0 0, Dec 0 0)")
    show ?thesis
    proof (cases "decimal_gt tc (Dec 0 0)")
      case True
      with assms Some False t show ?thesis
        by (auto simp: get_portfolio_summary_def Let_def split: sum.splits)
    next
      case F: False
      with assms Some False t show ?thesis
        by (auto simp: get_portfolio_summary_def Let_def)
    qed
  qed
qed

lemma portfolio_summary_as_specified:
  assumes found: "get_portfolio db pid = Some portfolio"
      and nonneg: "\<forall>h \<in> set (get_portfolio_holdings db pid).
                     0 \<le> dec_val (Holding.quantity h) \<and> 0 \<le> dec_val (Holding.purchase_price h)"
  shows "\<exists>ms s.
           get_holdings_with_metrics run db pid now = Inr ms
         \<and> get_portfolio_summary run db pid now = Inr (Some s)
         \<and> length ms = length (filter (\<lambda>h. Holding.id' h \<noteq> None) (get_portfolio_holdings db pid))
         \<and> (\<forall>m \<in> set ms. HoldingWithMetrics.total_cost m \<noteq> None)
         \<and> total_holdings s = length ms
         \<and> PortfolioSummary.total_cost s
             = dec_sum (List.map_filter HoldingWithMetrics.total_cost ms)
         \<and> total_current_value s = dec_sum (List.map_filter current_value ms)
         \<and> total_absolute_return s
             = decimal_sub (total_current_value s) (PortfolioSummary.total_cost s)
         \<and> (if dec_val (PortfolioSummary.total_cost s) = 0
            then total_percentage_return s = Dec 0 0
            else (\<exists>quot. decimal_truediv (total_absolute_return s) (PortfolioSummary.total_cost s)
                           = Inr quot
                        \<and> total_percentage_return s = decimal_mul quot (Dec 100 0)))
         \<and> (ms = [] \<longrightarrow>
               total_holdings s = 0
             \<and> PortfolioSummary.total_cost s = Dec 0 0
             \<and> total_current_value s = Dec 0 0
             \<and> total_absolute_return s = Dec 0 0
             \<and> total_percentage_return s = Dec 0 0
             \<and> best_performer s = None \<and> worst_performer s = None)"
proof -
  let ?hs = "filter (\<lambda>h. Holding.id' h \<noteq> None) (get_portfolio_holdings db pid)"
  obtain ms where ms: "get_holdings_with_metrics run db pid now = Inr ms"
    and all: "list_all2
               (\<lambda>h m. HoldingWithMetrics.symbol m = Holding.symbol h
                  \<and> metrics_as_specified h
                       (dict_get (get_multiple_prices run
                                    (map Holding.symbol (get_portfolio_holdings db pid)))
                          (Holding.symbol h)) m) ?hs ms"
    using get_holdings_with_metrics_specified [OF nonneg] by blast
  have len: "length ms = length ?hs" using all by (simp add: list_all2_lengthD)
  have cost: "\<exists>tc. HoldingWithMetrics.total_cost m = Some tc \<and> 0 \<le> dec_val tc"
    if "m \<in> set ms" for m
  proof -
    from list_all2_right [OF all that] obtain h where h: "h \<in> set ?hs"
      and spec: "metrics_as_specified h
                       (dict_get (get_multiple_prices run
                                    (map Holding.symbol (get_portfolio_holdings db pid)))
                          (Holding.symbol h)) m"
      by blast
    from h nonneg have "0 \<le> dec_val (Holding.quantity h) \<and> 0 \<le> dec_val (Holding.purchase_price h)"
      by simp
    then have "0 \<le> dec_val (decimal_mul (Holding.quantity h) (Holding.purchase_price h))"
      by (simp add: decimal_mul_nonneg)
    with specified_cost [OF spec] show ?thesis by simp
  qed
  then have some: "\<forall>m \<in> set ms. HoldingWithMetrics.total_cost m \<noteq> None" by auto
  have "\<forall>x \<in> set (List.map_filter HoldingWithMetrics.total_cost ms). 0 \<le> dec_val x"
  proof
    fix x assume "x \<in> set (List.map_filter HoldingWithMetrics.total_cost ms)"
    then obtain m where "m \<in> set ms" "HoldingWithMetrics.total_cost m = Some x"
      by (auto simp: List.map_filter_def)
    with cost [of m] show "0 \<le> dec_val x" by simp
  qed
  then have sum: "0 \<le> dec_val (dec_sum (List.map_filter HoldingWithMetrics.total_cost ms))"
    by (rule dec_sum_nonneg)
  show ?thesis
  proof (cases "ms = []")
    case True
    from get_portfolio_summary_empty [OF found ms [unfolded True]] ms len some True
    show ?thesis
      by (simp add: dec_sum_def zero_minus_zero dec_val_zero)
  next
    case False
    from get_portfolio_summary_totals [OF found ms False sum]
    obtain tpr where s: "get_portfolio_summary run db pid now =
           Inr (Some \<lparr>PortfolioSummary.portfolio_id = pid, portfolio_name = name portfolio,
                      total_holdings = length ms,
                      PortfolioSummary.total_cost =
                        dec_sum (List.map_filter HoldingWithMetrics.total_cost ms),
                      total_current_value = dec_sum (List.map_filter current_value ms),
                      total_absolute_return =
                        decimal_sub (dec_sum (List.map_filter current_value ms))
                          (dec_sum (List.map_filter HoldingWithMetrics.total_cost ms)),
                      total_percentage_return = tpr,
                      best_performer = fst (fst (performers_loop ms ((None, None), (None, None)))),
                      worst_performer = fst (snd (performers_loop ms ((None, None), (None, None)))),
                      PortfolioSummary.last_updated = now\<rparr>)"
      and tpr: "if dec_val (dec_sum (List.map_filter HoldingWithMetrics.total_cost ms)) = 0
            then tpr = Dec 0 0
            else (\<exists>quot.
                   decimal_truediv
                     (decimal_sub (dec_sum (List.map_filter current_value ms))
                        (dec_sum (List.map_filter HoldingWithMetrics.total_cost ms)))
                     (dec_sum (List.map_filter HoldingWithMetrics.total_cost ms)) = Inr quot
                   \<and> tpr = decimal_mul quot (Dec 100 0))"
      by blast
    show ?thesis
      using ms s tpr len some False by (simp split: if_splits)
  qed
qed

subsection \<open>Symbols\<close>

lemma upper_char_idem: "upper_char (upper_char c) = upper_char c"
  by (simp add: upper_char_def)

lemma upper_idem: "upper (upper s) = upper s"
  by (simp add: upper_def upper_char_idem)

lemma add_holding_stored:
  assumes "add_holding db holding_data now = Inr (holding, db')"
  shows "Holding.symbol holding = upper (HoldingCreate.symbol holding_data)
         \<and> holdings db' = holdings db @ [holding]"
  using assms by (auto simp: add_holding_def Let_def split: option.splits)

lemma add_holding_foreign_key:
  "get_portfolio db (HoldingCreate.portfolio_id holding_data) = None
   \<Longrightarrow> add_holding db holding_data now = Inl IntegrityError"
  by (simp add: add_holding_def Let_def)

lemma update_holding_symbol:
  assumes "update_holding db holding_id holding_data now = (Some holding, db')"
  shows "Holding.symbol holding =
           (case HoldingUpdate.symbol holding_data of
              None \<Rightarrow> (case get_holding db holding_id of None \<Rightarrow> [] | Some old \<Rightarrow> Holding.symbol old)
            | Some s \<Rightarrow> upper s)
         \<and> holdings db' = map (\<lambda>h. if Holding.id' h = Some holding_id then holding else h) (holdings db)"
  using assms
  by (auto simp: update_holding_def Let_def split: option.splits)

lemma get_holding_member:
  "get_holding db holding_id = Some old \<Longrightarrow> old \<in> set (holdings db)"
  unfolding get_holding_def by (auto simp: find_Some_iff)

lemma add_holding_canonical:
  assumes "canonical db" "add_holding db holding_data now = Inr (holding, db')"
  shows "canonical db'"
  using assms(1) add_holding_stored [OF assms(2)]
  by (simp add: canonical_def upper_idem)

lemma update_holding_canonical:
  assumes "canonical db"
  shows "canonical (snd (update_holding db holding_id holding_data now))"
proof (cases "get_holding db holding_id")
  case None
  with assms show ?thesis by (simp add: update_holding_def)
next
  case (Some old)
  obtain holding db' where u: "update_holding db holding_id holding_data now = (Some holding, db')"
    using Some by (simp add: update_holding_def Let_def)
  from assms get_holding_member [OF Some] have old: "upper (Holding.symbol old) = Holding.symbol old"
    by (simp add: canonical_def list_all_iff)
  from update_holding_symbol [OF u] Some old
  have sy: "upper (Holding.symbol holding) = Holding.symbol holding"
    by (auto simp: upper_idem split: option.splits)
  note stored = update_holding_symbol [OF u, THEN conjunct2]
  have "\<forall>h \<in> set (holdings db'). upper (Holding.symbol h) = Holding.symbol h"
  proof
    fix h assume "h \<in> set (holdings db')"
    then have "h = holding \<or> h \<in> set (holdings db)" unfolding stored by auto
    then show "upper (Holding.symbol h) = Holding.symbol h"
      using sy assms by (auto simp: canonical_def list_all_iff)
  qed
  then show ?thesis by (simp add: u canonical_def list_all_iff)
qed

lemma latest_member: "latest rows = Some r \<Longrightarrow> r \<in> set rows"
  by (induction rows arbitrary: r) (auto split: option.splits if_splits)

lemma latest_None: "(latest rows = None) = (rows = [])"
  by (cases rows) (auto split: option.splits)

lemma get_last_known_price_rows:
  "filter (\<lambda>r. PriceHistory.symbol r = symb) (price_history db2)
     = filter (\<lambda>r. PriceHistory.symbol r = symb) (price_history db)
   \<Longrightarrow> get_last_known_price db2 w symb = get_last_known_price db w symb"
  by (simp add: get_last_known_price_def)

lemma get_last_known_price_no_row:
  assumes "\<forall>r \<in> set (price_history db). PriceHistory.symbol r \<noteq> symb"
  shows "get_last_known_price db w symb = None"
proof -
  from assms have "filter (\<lambda>r. PriceHistory.symbol r = symb) (price_history db) = []"
    by (simp add: filter_empty_conv)
  then show ?thesis by (simp add: get_last_known_price_def)
qed

lemma get_last_known_price_row:
  assumes "get_last_known_price db w symb = Some p"
  shows "\<exists>r \<in> set (price_history db). PriceHistory.symbol r = symb \<and> price r = p"
proof -
  from assms obtain r
    where "latest (filter (\<lambda>r. PriceHistory.symbol r = symb) (price_history db)) = Some r"
      and "price r = p"
    by (auto simp: get_last_known_price_def split: if_splits option.splits)
  with latest_member [of "filter (\<lambda>r. PriceHistory.symbol r = symb) (price_history db)" r]
  show ?thesis by auto
qed

lemma cache_lookup_entry:
  "price_cache self' symb = price_cache self symb \<Longrightarrow> cache_duration self' = cache_duration self
   \<Longrightarrow> cache_lookup self' now symb = cache_lookup self now symb"
  unfolding cache_lookup_def by (simp only:)

lemma cache_lookup_no_entry:
  "price_cache self symb = None \<Longrightarrow> cache_lookup self now symb = None"
  by (simp add: cache_lookup_def)

lemma get_current_price_stored_key:
  assumes "cache_lookup self (now_lookup w) symb = None"
      and "fetch_price w symb = (Inr (Some p), calls)"
  shows "price_cache (fst (snd (get_current_price self db w symb))) symb = Some (p, now_cached w)
       \<and> (db_ok w \<longrightarrow>
            PriceHistory.symbol (last (price_history (fst (snd (snd (get_current_price self db w symb))))))
              = symb)"
  using get_current_price_found [OF assms, of db] by (simp add: store_price_history_def)

subsection \<open>The examples, evaluated\<close>

lemma example_mul_cost: "decimal_mul (Dec 10 0) (Dec 150 0) = Dec 1500 0" by code_simp

lemma example_mul_worth: "decimal_mul (Dec 10 0) (Dec 160 0) = Dec 1600 0" by code_simp

lemma example_sub: "decimal_sub (Dec 1600 0) (Dec 1500 0) = Dec 100 0" by code_simp

lemma example_div:
  "decimal_truediv (Dec 100 0) (Dec 1500 0) = Inr (Dec 6666666666666666666666666667 (- 29))"
  by code_simp

lemma example_percent:
  "decimal_mul (Dec 6666666666666666666666666667 (- 29)) (Dec 100 0)
   = Dec 6666666666666666666666666667 (- 27)"
  by code_simp

lemma example_positive: "decimal_gt (Dec 1500 0) (Dec 0 0)" by code_simp

lemma example_prices:
  "get_multiple_prices quotes_160 [''AAPL''] ''AAPL'' = Some (Some (Dec 160 0))"
  by (simp add: get_multiple_prices_def gather_def quotes_160_def)

lemma example_holdings:
  "get_portfolio_holdings aapl_db 1 = [sample_holding 1 ''AAPL'' (Dec 10 0) (Dec 150 0)]"
  by (simp add: get_portfolio_holdings_def aapl_db_def sample_holding_def)

lemma example_metrics:
  "\<exists>m. get_holdings_with_metrics quotes_160 aapl_db 1 now = Inr [m]
       \<and> HoldingWithMetrics.total_cost m = Some (Dec 1500 0)
       \<and> current_value m = Some (Dec 1600 0)
       \<and> absolute_return m = Some (Dec 100 0)
       \<and> percentage_return m = Some (Dec 6666666666666666666666666667 (- 27))"
  by (simp add: get_holdings_with_metrics_def example_holdings
      sample_holding_def example_prices dict_get_def holding_metrics_def Let_def
      example_mul_cost example_mul_worth example_sub example_div example_percent example_positive)

lemma example_close: "\<bar>dec_val (Dec 6666666666666666666666666667 (- 27)) - 20 / 3\<bar> < 1 / 10 ^ 26"
  by (simp add: dec_val_def power_int_minus field_simps)

lemma unpriced_metrics:
  "get_holdings_with_metrics no_quotes aapl_db 1 5 = Inr [
     \<lparr>HoldingWithMetrics.id' = 1,
      HoldingWithMetrics.portfolio_id = 1,
      HoldingWithMetrics.symbol = ''AAPL'',
      HoldingWithMetrics.asset_type = STOCK,
      HoldingWithMetrics.quantity = Dec 10 0,
      HoldingWithMetrics.purchase_price = Dec 150 0,
      HoldingWithMetrics.purchase_date = 0,
      HoldingWithMetrics.notes' = [],
      HoldingWithMetrics.created_at = 0,
      HoldingWithMetrics.updated_at = 0,
      current_price = None,
      current_value = None,
      HoldingWithMetrics.total_cost = Some (Dec 1500 0),
      absolute_return = None,
      percentage_return = None,
      HoldingWithMetrics.last_updated = Some 5\<rparr>]"
  by (simp add: get_holdings_with_metrics_def example_holdings sample_holding_def
      get_multiple_prices_def gather_def no_quotes_def dict_get_def holding_metrics_def Let_def
      example_mul_cost)

lemma unpriced_arith:
  "decimal_add (Dec 0 0) (Dec 1500 0) = Dec 1500 0"
  "decimal_sub (Dec 0 0) (Dec 1500 0) = Dec (- 1500) 0"
  "decimal_truediv (Dec (- 1500) 0) (Dec 1500 0) = Inr (Dec (- 1) 0)"
  "decimal_mul (Dec (- 1) 0) (Dec 100 0) = Dec (- 100) 0"
  by code_simp+

lemma tie_arith:
  "decimal_mul (Dec 10 0) (Dec 100 0) = Dec 1000 0"
  "decimal_mul (Dec 20 0) (Dec 50 0) = Dec 1000 0"
  "decimal_mul (Dec 10 0) (Dec 110 0) = Dec 1100 0"
  "decimal_mul (Dec 20 0) (Dec 55 0) = Dec 1100 0"
  "decimal_mul (Dec 10 0) (Dec 90 0) = Dec 900 0"
  "decimal_sub (Dec 1100 0) (Dec 1000 0) = Dec 100 0"
  "decimal_sub (Dec 900 0) (Dec 1000 0) = Dec (- 100) 0"
  "decimal_gt (Dec 1000 0) (Dec 0 0)"
  "decimal_truediv (Dec 100 0) (Dec 1000 0) = Inr (Dec 1 (- 1))"
  "decimal_truediv (Dec (- 100) 0) (Dec 1000 0) = Inr (Dec (- 1) (- 1))"
  "decimal_mul (Dec 1 (- 1)) (Dec 100 0) = Dec 100 (- 1)"
  "decimal_mul (Dec (- 1) (- 1)) (Dec 100 0) = Dec (- 100) (- 1)"
  by code_simp+

lemma tie_sums:
  "decimal_add (Dec 0 0) (Dec 1000 0) = Dec 1000 0"
  "decimal_add (Dec 1000 0) (Dec 1000 0) = Dec 2000 0"
  "decimal_add (Dec 2000 0) (Dec 1000 0) = Dec 3000 0"
  "decimal_add (Dec 0 0) (Dec 1100 0) = Dec 1100 0"
  "decimal_add (Dec 1100 0) (Dec 1100 0) = Dec 2200 0"
  "decimal_add (Dec 2200 0) (Dec 900 0) = Dec 3100 0"
  "decimal_sub (Dec 3100 0) (Dec 3000 0) = Dec 100 0"
  "decimal_gt (Dec 3000 0) (Dec 0 0)"
  "decimal_truediv (Dec 100 0) (Dec 3000 0) = Inr (Dec 3333333333333333333333333333 (- 29))"
  "decimal_mul (Dec 3333333333333333333333333333 (- 29)) (Dec 100 0)
     = Dec 3333333333333333333333333333 (- 27)"
  by code_simp+

lemma tie_order:
  "\<not> decimal_gt (Dec 100 (- 1)) (Dec 100 (- 1))"
  "\<not> decimal_lt (Dec 100 (- 1)) (Dec 100 (- 1))"
  "\<not> decimal_gt (Dec (- 100) (- 1)) (Dec 100 (- 1))"
  "decimal_lt (Dec (- 100) (- 1)) (Dec 100 (- 1))"
  by code_simp+

lemma tie_holdings:
  "get_portfolio_holdings tie_db 1 =
     [sample_holding 1 ''AAA'' (Dec 10 0) (Dec 100 0),
      sample_holding 2 ''BBB'' (Dec 20 0) (Dec 50 0),
      sample_holding 3 ''CCC'' (Dec 10 0) (Dec 100 0)]"
  by (simp add: get_portfolio_holdings_def tie_db_def sample_holding_def)

lemma tie_prices:
  "dict_get (get_multiple_prices tie_quotes [''AAA'', ''BBB'', ''CCC'']) ''AAA'' = Some (Dec 110 0)"
  "dict_get (get_multiple_prices tie_quotes [''AAA'', ''BBB'', ''CCC'']) ''BBB'' = Some (Dec 55 0)"
  "dict_get (get_multiple_prices tie_quotes [''AAA'', ''BBB'', ''CCC'']) ''CCC'' = Some (Dec 90 0)"
  by (simp_all add: get_multiple_prices_def gather_def tie_quotes_def dict_get_def)

lemma tie_valued: "get_holdings_with_metrics tie_quotes tie_db 1 5 = Inr tie_metrics"
  by (simp add: get_holdings_with_metrics_def tie_holdings Let_def)
     (simp add: sample_holding_def tie_prices holding_metrics_def Let_def tie_arith tie_metrics_def)

lemma tie_performers:
  "performers_loop tie_metrics ((None, None), (None, None))
   = ((Some ''AAA'', Some (Dec 100 (- 1))), (Some ''CCC'', Some (Dec (- 100) (- 1))))"
  by (simp add: tie_metrics_def tie_order)

lemma tie_summary:
  "get_portfolio_summary tie_quotes tie_db 1 5 =
     Inr (Some \<lparr>PortfolioSummary.portfolio_id = 1, portfolio_name = ''Test Portfolio'',
                total_holdings = 3,
                PortfolioSummary.total_cost = Dec 3000 0,
                total_current_value = Dec 3100 0,
                total_absolute_return = Dec 100 0,
                total_percentage_return = Dec 3333333333333333333333333333 (- 27),
                best_performer = Some ''AAA'', worst_performer = Some ''CCC'',
                PortfolioSummary.last_updated = 5\<rparr>)"
proof -
  have p: "get_portfolio tie_db 1 = Some sample_portfolio"
    by (simp add: get_portfolio_def tie_db_def sample_portfolio_def)
  have t: "totals_loop tie_metrics (Dec 0 0, Dec 0 0) = (Dec 3000 0, Dec 3100 0)"
    by (simp add: tie_metrics_def tie_sums)
  have n: "tie_metrics \<noteq> []" "length tie_metrics = 3" by (simp_all add: tie_metrics_def)
  show ?thesis
    by (simp add: get_portfolio_summary_def p tie_valued n t Let_def tie_sums tie_performers
        sample_portfolio_def)
qed

lemma mixed_sums:
  "decimal_add (Dec 1100 0) (Dec 900 0) = Dec 2000 0"
  "decimal_sub (Dec 2000 0) (Dec 3000 0) = Dec (- 1000) 0"
  "decimal_truediv (Dec (- 1000) 0) (Dec 3000 0)
     = Inr (Dec (- 3333333333333333333333333333) (- 28))"
  "decimal_mul (Dec (- 3333333333333333333333333333) (- 28)) (Dec 100 0)
     = Dec (- 3333333333333333333333333333) (- 26)"
  by code_simp+

lemma mixed_prices:
  "dict_get (get_multiple_prices mixed_quotes [''AAA'', ''BBB'', ''CCC'']) ''AAA'' = Some (Dec 110 0)"
  "dict_get (get_multiple_prices mixed_quotes [''AAA'', ''BBB'', ''CCC'']) ''BBB'' = None"
  "dict_get (get_multiple_prices mixed_quotes [''AAA'', ''BBB'', ''CCC'']) ''CCC'' = Some (Dec 90 0)"
  by (simp_all add: get_multiple_prices_def gather_def mixed_quotes_def dict_get_def)

lemma mixed_valued: "get_holdings_with_metrics mixed_quotes tie_db 1 5 = Inr mixed_metrics"
  by (simp add: get_holdings_with_metrics_def tie_holdings Let_def)
     (simp add: sample_holding_def mixed_prices holding_metrics_def Let_def tie_arith
        mixed_metrics_def)

lemma tie_found: "get_portfolio tie_db 1 = Some sample_portfolio"
  by (simp add: get_portfolio_def tie_db_def sample_portfolio_def)

lemma tie_nonneg:
  "\<forall>h \<in> set (get_portfolio_holdings tie_db 1).
     0 \<le> dec_val (Holding.quantity h) \<and> 0 \<le> dec_val (Holding.purchase_price h)"
  by (simp add: tie_holdings sample_holding_def dec_val_def)

lemma tie_lists:
  "List.map_filter HoldingWithMetrics.total_cost tie_metrics = [Dec 1000 0, Dec 1000 0, Dec 1000 0]"
  "List.map_filter current_value tie_metrics = [Dec 1100 0, Dec 1100 0, Dec 900 0]"
  "List.map_filter HoldingWithMetrics.total_cost mixed_metrics = [Dec 1000 0, Dec 1000 0, Dec 1000 0]"
  "List.map_filter current_value mixed_metrics = [Dec 1100 0, Dec 900 0]"
  "length tie_metrics = 3" "length mixed_metrics = 3"
  by (simp_all add: tie_metrics_def mixed_metrics_def List.map_filter_def)

lemma tie_totals:
  "dec_sum [Dec 1000 0, Dec 1000 0, Dec 1000 0] = Dec 3000 0"
  "dec_sum [Dec 1100 0, Dec 1100 0, Dec 900 0] = Dec 3100 0"
  "dec_sum [Dec 1100 0, Dec 900 0] = Dec 2000 0"
  by (simp_all add: dec_sum_def tie_sums mixed_sums)

lemma tie_nonzero: "dec_val (Dec 3000 0) \<noteq> 0"
  by (simp add: dec_val_def)

lemma tie_close: "\<bar>dec_val (Dec 3333333333333333333333333333 (- 27)) - 10 / 3\<bar> < 1 / 10 ^ 26"
  by (simp add: dec_val_def power_int_minus field_simps)

lemma mixed_close:
  "\<bar>dec_val (Dec (- 3333333333333333333333333333) (- 26)) - (- 100 / 3)\<bar> < 1 / 10 ^ 25"
  by (simp add: dec_val_def power_int_minus field_simps)

section \<open>The portfolio service: claims\<close>

text \<open>
  Claim C5: for every holding of the portfolio that has non-negative quantity and purchase
  price (the data model has them positive), the valued holdings are computed without an
  error, one for each holding with a key and in their order, each with the symbol of its
  holding and with the metrics the specification gives: the total cost is the quantity
  times the purchase price in every case; with a resolved price, the current value is the
  quantity times that price, the absolute return is their difference and the percentage
  return is the absolute return divided by the total cost, times 100, or null when the
  total cost is zero; without one, the three are null. For quantity 10, purchase price
  150 and current price 160 the results are 1500, 1600, 100 and
  6.666666666666666666666666667, which is 20/3 rounded to the 28 digits of the decimal
  context.
\<close>

theorem C5_holding_metrics:
  "((\<forall>h \<in> set (get_portfolio_holdings db pid).
        0 \<le> dec_val (Holding.quantity h) \<and> 0 \<le> dec_val (Holding.purchase_price h))
    \<longrightarrow> (\<exists>ms. get_holdings_with_metrics run db pid now = Inr ms
          \<and> list_all2
               (\<lambda>h m. HoldingWithMetrics.symbol m = Holding.symbol h
                  \<and> metrics_as_specified h
                       (dict_get (get_multiple_prices run
                                    (map Holding.symbol (get_portfolio_holdings db pid)))
                          (Holding.symbol h)) m)
               (filter (\<lambda>h. Holding.id' h \<noteq> None) (get_portfolio_holdings db pid)) ms))
   \<and> (\<exists>m. get_holdings_with_metrics quotes_160 aapl_db 1 now = Inr [m]
         \<and> HoldingWithMetrics.total_cost m = Some (Dec 1500 0)
         \<and> current_value m = Some (Dec 1600 0)
         \<and> absolute_return m = Some (Dec 100 0)
         \<and> percentage_return m = Some (Dec 6666666666666666666666666667 (- 27))
         \<and> \<bar>dec_val (Dec 6666666666666666666666666667 (- 27)) - 20 / 3\<bar> < 1 / 10 ^ 26)"
  using get_holdings_with_metrics_specified [of db pid run now] example_metrics [of now]
    example_close
  by blast

text \<open>
  The theorem at the portfolio that holds 10 AAPL bought at 150, when no price is
  resolved: the total cost is 1500 and the other metrics are null.
\<close>

theorem C5_holding_metrics_witness:
  "0 \<le> dec_val (Dec 10 0) \<and> 0 \<le> dec_val (Dec 150 0)
   \<and> (\<exists>m. get_holdings_with_metrics no_quotes aapl_db 1 5 = Inr [m]
         \<and> HoldingWithMetrics.total_cost m = Some (Dec 1500 0)
         \<and> current_price m = None
         \<and> current_value m = None
         \<and> absolute_return m = None
         \<and> percentage_return m = None)"
proof -
  let ?h = "sample_holding 1 ''AAPL'' (Dec 10 0) (Dec 150 0)"
  have pos: "0 \<le> dec_val (Dec 10 0) \<and> 0 \<le> dec_val (Dec 150 0)"
    by (simp add: dec_val_def)
  then have hyp: "\<forall>h \<in> set (get_portfolio_holdings aapl_db 1).
        0 \<le> dec_val (Holding.quantity h) \<and> 0 \<le> dec_val (Holding.purchase_price h)"
    by (simp add: example_holdings sample_holding_def)
  have none: "dict_get (get_multiple_prices no_quotes [''AAPL'']) ''AAPL'' = None"
    by (simp add: get_multiple_prices_def gather_def no_quotes_def dict_get_def)
  from C5_holding_metrics [of aapl_db 1 no_quotes 5, THEN conjunct1, THEN mp, OF hyp]
  obtain ms where ms: "get_holdings_with_metrics no_quotes aapl_db 1 5 = Inr ms"
    and all: "list_all2
               (\<lambda>h m. HoldingWithMetrics.symbol m = Holding.symbol h
                  \<and> metrics_as_specified h
                       (dict_get (get_multiple_prices no_quotes
                                    (map Holding.symbol (get_portfolio_holdings aapl_db 1)))
                          (Holding.symbol h)) m)
               (filter (\<lambda>h. Holding.id' h \<noteq> None) (get_portfolio_holdings aapl_db 1)) ms"
    by blast
  have shape: "filter (\<lambda>h. Holding.id' h \<noteq> None) [?h] = [?h]"
    by (simp add: sample_holding_def)
  from all obtain m where m: "ms = [m]"
    and spec: "metrics_as_specified ?h
       (dict_get (get_multiple_prices no_quotes (map Holding.symbol [?h])) (Holding.symbol ?h)) m"
    by (auto simp only: example_holdings shape list_all2_Cons1 list_all2_Nil)
  have sy: "Holding.symbol ?h = ''AAPL''" by (simp add: sample_holding_def)
  from spec have "metrics_as_specified ?h None m"
    by (simp add: sy none)
  then have "HoldingWithMetrics.total_cost m = Some (Dec 1500 0) \<and> current_price m = None
      \<and> current_value m = None \<and> absolute_return m = None \<and> percentage_return m = None"
    by (simp add: metrics_as_specified_def Let_def sample_holding_def example_mul_cost)
  with pos ms m show ?thesis by simp
qed

text \<open>
  Claim C6: for an existing portfolio whose holdings have non-negative quantity and
  purchase price, the summary is computed without an error; its total cost is the sum of
  the total costs of the valued holdings (each has one) and its total current value the
  sum of the current values that are not null (a null one adds nothing). The sums are
  accumulated from left to right in decimal arithmetic, each addition rounded to 28
  significant digits: a total differs from the exact sum of the numbers by at most
  \<open>rounding_bound n\<close> times the sum of their absolute values, \<open>n\<close> being the number of
  terms. The total absolute return is the difference of the two totals, rounded once; the
  total percentage return is that return divided by the total cost, times 100, or 0 when
  the total cost is zero. The division and the multiplication by 100 are rounded too: the
  percentage differs from the exact quotient times 100 by at most \<open>rounding_bound 3\<close>
  times its absolute value. With no valued holding the totals are all zero and the best and
  worst performer are null.
\<close>

theorem C6_portfolio_summary:
  assumes found: "get_portfolio db pid = Some portfolio"
      and nonneg: "\<forall>h \<in> set (get_portfolio_holdings db pid).
                     0 \<le> dec_val (Holding.quantity h) \<and> 0 \<le> dec_val (Holding.purchase_price h)"
  shows "\<exists>ms s.
           get_holdings_with_metrics run db pid now = Inr ms
         \<and> get_portfolio_summary run db pid now = Inr (Some s)
         \<and> length ms = length (filter (\<lambda>h. Holding.id' h \<noteq> None) (get_portfolio_holdings db pid))
         \<and> (\<forall>m \<in> set ms. HoldingWithMetrics.total_cost m \<noteq> None)
         \<and> total_holdings s = length ms
         \<and> PortfolioSummary.total_cost s
             = dec_sum (List.map_filter HoldingWithMetrics.total_cost ms)
         \<and> \<bar>dec_val (PortfolioSummary.total_cost s)
              - sum_list (map dec_val (List.map_filter HoldingWithMetrics.total_cost ms))\<bar>
             \<le> rounding_bound (length (List.map_filter HoldingWithMetrics.total_cost ms))
                * sum_list (map (\<lambda>x. \<bar>dec_val x\<bar>)
                              (List.map_filter HoldingWithMetrics.total_cost ms))
         \<and> total_current_value s = dec_sum (List.map_filter current_value ms)
         \<and> \<bar>dec_val (total_current_value s)
              - sum_list (map dec_val (List.map_filter current_value ms))\<bar>
             \<le> rounding_bound (length (List.map_filter current_value ms))
                * sum_list (map (\<lambda>x. \<bar>dec_val x\<bar>) (List.map_filter current_value ms))
         \<and> total_absolute_return s
             = decimal_sub (total_current_value s) (PortfolioSummary.total_cost s)
         \<and> \<bar>dec_val (total_absolute_return s)
              - (dec_val (total_current_value s) - dec_val (PortfolioSummary.total_cost s))\<bar>
             \<le> rounding_unit
                * \<bar>dec_val (total_current_value s) - dec_val (PortfolioSummary.total_cost s)\<bar>
         \<and> (if dec_val (PortfolioSummary.total_cost s) = 0
            then total_percentage_return s = Dec 0 0
            else (\<exists>quot. decimal_truediv (total_absolute_return s) (PortfolioSummary.total_cost s)
                           = Inr quot
                        \<and> total_percentage_return s = decimal_mul quot (Dec 100 0)))
         \<and> (dec_val (PortfolioSummary.total_cost s) \<noteq> 0 \<longrightarrow>
               \<bar>dec_val (total_percentage_return s)
                 - dec_val (total_absolute_return s) / dec_val (PortfolioSummary.total_cost s) * 100\<bar>
               \<le> rounding_bound 3
                  * \<bar>dec_val (total_absolute_return s)
                      / dec_val (PortfolioSummary.total_cost s) * 100\<bar>)
         \<and> (ms = [] \<longrightarrow>
               total_holdings s = 0
             \<and> PortfolioSummary.total_cost s = Dec 0 0
             \<and> total_current_value s = Dec 0 0
             \<and> total_absolute_return s = Dec 0 0
             \<and> total_percentage_return s = Dec 0 0
             \<and> best_performer s = None \<and> worst_performer s = None)"
proof -
  from portfolio_summary_as_specified [OF found nonneg, of run now]
  obtain ms s where ms: "get_holdings_with_metrics run db pid now = Inr ms"
    and s: "get_portfolio_summary run db pid now = Inr (Some s)"
    and len: "length ms = length (filter (\<lambda>h. Holding.id' h \<noteq> None) (get_portfolio_holdings db pid))"
    and some: "\<forall>m \<in> set ms. HoldingWithMetrics.total_cost m \<noteq> None"
    and n: "total_holdings s = length ms"
    and tc: "PortfolioSummary.total_cost s
             = dec_sum (List.map_filter HoldingWithMetrics.total_cost ms)"
    and tcv: "total_current_value s = dec_sum (List.map_filter current_value ms)"
    and tar: "total_absolute_return s
             = decimal_sub (total_current_value s) (PortfolioSummary.total_cost s)"
    and tpr: "if dec_val (PortfolioSummary.total_cost s) = 0
            then total_percentage_return s = Dec 0 0
            else (\<exists>quot. decimal_truediv (total_absolute_return s) (PortfolioSummary.total_cost s)
                           = Inr quot
                        \<and> total_percentage_return s = decimal_mul quot (Dec 100 0))"
    and empty: "ms = [] \<longrightarrow>
               total_holdings s = 0
             \<and> PortfolioSummary.total_cost s = Dec 0 0
             \<and> total_current_value s = Dec 0 0
             \<and> total_absolute_return s = Dec 0 0
             \<and> total_percentage_return s = Dec 0 0
             \<and> best_performer s = None \<and> worst_performer s = None"
    by (elim exE conjE)
  have etc: "\<bar>dec_val (PortfolioSummary.total_cost s)
              - sum_list (map dec_val (List.map_filter HoldingWithMetrics.total_cost ms))\<bar>
             \<le> rounding_bound (length (List.map_filter HoldingWithMetrics.total_cost ms))
                * sum_list (map (\<lambda>x. \<bar>dec_val x\<bar>)
                              (List.map_filter HoldingWithMetrics.total_cost ms))"
    unfolding tc by (rule dec_sum_error)
  have etcv: "\<bar>dec_val (total_current_value s)
              - sum_list (map dec_val (List.map_filter current_value ms))\<bar>
             \<le> rounding_bound (length (List.map_filter current_value ms))
                * sum_list (map (\<lambda>x. \<bar>dec_val x\<bar>) (List.map_filter current_value ms))"
    unfolding tcv by (rule dec_sum_error)
  have etar: "\<bar>dec_val (total_absolute_return s)
              - (dec_val (total_current_value s) - dec_val (PortfolioSummary.total_cost s))\<bar>
             \<le> rounding_unit
                * \<bar>dec_val (total_current_value s) - dec_val (PortfolioSummary.total_cost s)\<bar>"
    unfolding tar by (rule decimal_sub_error)
  have etpr: "dec_val (PortfolioSummary.total_cost s) \<noteq> 0 \<longrightarrow>
               \<bar>dec_val (total_percentage_return s)
                 - dec_val (total_absolute_return s) / dec_val (PortfolioSummary.total_cost s) * 100\<bar>
               \<le> rounding_bound 3
                  * \<bar>dec_val (total_absolute_return s)
                      / dec_val (PortfolioSummary.total_cost s) * 100\<bar>"
  proof
    assume "dec_val (PortfolioSummary.total_cost s) \<noteq> 0"
    with tpr obtain quot
      where q: "decimal_truediv (total_absolute_return s) (PortfolioSummary.total_cost s) = Inr quot"
        and p: "total_percentage_return s = decimal_mul quot (Dec 100 0)"
      by auto
    show "\<bar>dec_val (total_percentage_return s)
                 - dec_val (total_absolute_return s) / dec_val (PortfolioSummary.total_cost s) * 100\<bar>
               \<le> rounding_bound 3
                  * \<bar>dec_val (total_absolute_return s)
                      / dec_val (PortfolioSummary.total_cost s) * 100\<bar>"
      unfolding p using q by (rule percentage_error)
  qed
  from ms s len some n tc etc tcv etcv tar etar tpr etpr empty show ?thesis
    by (intro exI conjI)
qed

text \<open>
  The theorem at a portfolio of three holdings that cost 1000 each: with the prices that
  make them worth 1100, 1100 and 900 the totals are 3000 and 3100, the return 100 and
  3.333... percent; with no price for the second holding its null current value adds
  nothing, the totals are 3000 and 2000, the return -1000 and -33.33... percent. And at a
  portfolio with no holding.
\<close>

theorem C6_portfolio_summary_witness:
  "get_portfolio tie_db 1 = Some sample_portfolio
   \<and> get_holdings_with_metrics tie_quotes tie_db 1 5 = Inr tie_metrics
   \<and> List.map_filter HoldingWithMetrics.total_cost tie_metrics
       = [Dec 1000 0, Dec 1000 0, Dec 1000 0]
   \<and> List.map_filter current_value tie_metrics = [Dec 1100 0, Dec 1100 0, Dec 900 0]
   \<and> (\<exists>s. get_portfolio_summary tie_quotes tie_db 1 5 = Inr (Some s)
         \<and> total_holdings s = 3
         \<and> PortfolioSummary.total_cost s = Dec 3000 0
         \<and> total_current_value s = Dec 3100 0
         \<and> total_absolute_return s = Dec 100 0
         \<and> total_percentage_return s = Dec 3333333333333333333333333333 (- 27)
         \<and> \<bar>dec_val (total_percentage_return s) - 10 / 3\<bar> < 1 / 10 ^ 26)
   \<and> get_holdings_with_metrics mixed_quotes tie_db 1 5 = Inr mixed_metrics
   \<and> List.map_filter current_value mixed_metrics = [Dec 1100 0, Dec 900 0]
   \<and> (\<exists>s. get_portfolio_summary mixed_quotes tie_db 1 5 = Inr (Some s)
         \<and> total_holdings s = 3
         \<and> PortfolioSummary.total_cost s = Dec 3000 0
         \<and> total_current_value s = Dec 2000 0
         \<and> total_absolute_return s = Dec (- 1000) 0
         \<and> total_percentage_return s = Dec (- 3333333333333333333333333333) (- 26)
         \<and> \<bar>dec_val (total_percentage_return s) - (- 100 / 3)\<bar> < 1 / 10 ^ 25)
   \<and> get_portfolio bare_db 1 = Some sample_portfolio
   \<and> (\<exists>s. get_portfolio_summary no_quotes bare_db 1 5 = Inr (Some s)
         \<and> total_holdings s = 0
         \<and> PortfolioSummary.total_cost s = Dec 0 0
         \<and> total_current_value s = Dec 0 0
         \<and> total_absolute_return s = Dec 0 0
         \<and> total_percentage_return s = Dec 0 0
         \<and> best_performer s = None \<and> worst_performer s = None)"
proof -
  have priced: "\<exists>s. get_portfolio_summary tie_quotes tie_db 1 5 = Inr (Some s)
         \<and> total_holdings s = 3
         \<and> PortfolioSummary.total_cost s = Dec 3000 0
         \<and> total_current_value s = Dec 3100 0
         \<and> total_absolute_return s = Dec 100 0
         \<and> total_percentage_return s = Dec 3333333333333333333333333333 (- 27)
         \<and> \<bar>dec_val (total_percentage_return s) - 10 / 3\<bar> < 1 / 10 ^ 26"
  proof -
    from C6_portfolio_summary [OF tie_found tie_nonneg, of tie_quotes 5]
    obtain ms s where ms: "get_holdings_with_metrics tie_quotes tie_db 1 5 = Inr ms"
      and s: "get_portfolio_summary tie_quotes tie_db 1 5 = Inr (Some s)"
      and n: "total_holdings s = length ms"
      and tc: "PortfolioSummary.total_cost s
               = dec_sum (List.map_filter HoldingWithMetrics.total_cost ms)"
      and tcv: "total_current_value s = dec_sum (List.map_filter current_value ms)"
      and tar: "total_absolute_return s
               = decimal_sub (total_current_value s) (PortfolioSummary.total_cost s)"
      and tpr: "if dec_val (PortfolioSummary.total_cost s) = 0
            then total_percentage_return s = Dec 0 0
            else (\<exists>quot. decimal_truediv (total_absolute_return s) (PortfolioSummary.total_cost s)
                           = Inr quot
                        \<and> total_percentage_return s = decimal_mul quot (Dec 100 0))"
      by blast
    from ms have eq: "ms = tie_metrics" by (simp add: tie_valued)
    have n': "total_holdings s = 3" using n by (simp add: eq tie_lists)
    have tc': "PortfolioSummary.total_cost s = Dec 3000 0"
      using tc by (simp add: eq tie_lists tie_totals)
    have tcv': "total_current_value s = Dec 3100 0"
      using tcv by (simp add: eq tie_lists tie_totals)
    have tar': "total_absolute_return s = Dec 100 0"
      using tar by (simp add: tc' tcv' tie_sums)
    have tpr': "total_percentage_return s = Dec 3333333333333333333333333333 (- 27)"
      using tpr by (simp add: tc' tar' tie_nonzero tie_sums)
    have near: "\<bar>dec_val (total_percentage_return s) - 10 / 3\<bar> < 1 / 10 ^ 26"
      unfolding tpr' by (rule tie_close)
    from s n' tc' tcv' tar' tpr' near show ?thesis by blast
  qed
  have mixed: "\<exists>s. get_portfolio_summary mixed_quotes tie_db 1 5 = Inr (Some s)
         \<and> total_holdings s = 3
         \<and> PortfolioSummary.total_cost s = Dec 3000 0
         \<and> total_current_value s = Dec 2000 0
         \<and> total_absolute_return s = Dec (- 1000) 0
         \<and> total_percentage_return s = Dec (- 3333333333333333333333333333) (- 26)
         \<and> \<bar>dec_val (total_percentage_return s) - (- 100 / 3)\<bar> < 1 / 10 ^ 25"
  proof -
    from C6_portfolio_summary [OF tie_found tie_nonneg, of mixed_quotes 5]
    obtain ms s where ms: "get_holdings_with_metrics mixed_quotes tie_db 1 5 = Inr ms"
      and s: "get_portfolio_summary mixed_quotes tie_db 1 5 = Inr (Some s)"
      and n: "total_holdings s = length ms"
      and tc: "PortfolioSummary.total_cost s
               = dec_sum (List.map_filter HoldingWithMetrics.total_cost ms)"
      and tcv: "total_current_value s = dec_sum (List.map_filter current_value ms)"
      and tar: "total_absolute_return s
               = decimal_sub (total_current_value s) (PortfolioSummary.total_cost s)"
      and tpr: "if dec_val (PortfolioSummary.total_cost s) = 0
            then total_percentage_return s = Dec 0 0
            else (\<exists>quot. decimal_truediv (total_absolute_return s) (PortfolioSummary.total_cost s)
                           = Inr quot
                        \<and> total_percentage_return s = decimal_mul quot (Dec 100 0))"
      by blast
    from ms have eq: "ms = mixed_metrics" by (simp add: mixed_valued)
    have n': "total_holdings s = 3" using n by (simp add: eq tie_lists)
    have tc': "PortfolioSummary.total_cost s = Dec 3000 0"
      using tc by (simp add: eq tie_lists tie_totals)
    have tcv': "total_current_value s = Dec 2000 0"
      using tcv by (simp add: eq tie_lists tie_totals)
    have tar': "total_absolute_return s = Dec (- 1000) 0"
      using tar by (simp add: tc' tcv' mixed_sums)
    have tpr': "total_percentage_return s = Dec (- 3333333333333333333333333333) (- 26)"
      using tpr by (simp add: tc' tar' tie_nonzero mixed_sums)
    have near: "\<bar>dec_val (total_percentage_return s) - (- 100 / 3)\<bar> < 1 / 10 ^ 25"
      unfolding tpr' by (rule mixed_close)
    from s n' tc' tcv' tar' tpr' near show ?thesis by blast
  qed
  have found': "get_portfolio bare_db 1 = Some sample_portfolio"
    by (simp add: get_portfolio_def bare_db_def sample_portfolio_def)
  have none: "get_portfolio_holdings bare_db 1 = []"
    by (simp add: get_portfolio_holdings_def bare_db_def)
  then have nonneg': "\<forall>h \<in> set (get_portfolio_holdings bare_db 1).
        0 \<le> dec_val (Holding.quantity h) \<and> 0 \<le> dec_val (Holding.purchase_price h)"
    by simp
  have bare: "\<exists>s. get_portfolio_summary no_quotes bare_db 1 5 = Inr (Some s)
         \<and> total_holdings s = 0
         \<and> PortfolioSummary.total_cost s = Dec 0 0
         \<and> total_current_value s = Dec 0 0
         \<and> total_absolute_return s = Dec 0 0
         \<and> total_percentage_return s = Dec 0 0
         \<and> best_performer s = None \<and> worst_performer s = None"
  proof -
    from C6_portfolio_summary [OF found' nonneg', of no_quotes 5]
    obtain ms s where ms: "get_holdings_with_metrics no_quotes bare_db 1 5 = Inr ms"
      and len: "length ms
        = length (filter (\<lambda>h. Holding.id' h \<noteq> None) (get_portfolio_holdings bare_db 1))"
      and s: "get_portfolio_summary no_quotes bare_db 1 5 = Inr (Some s)"
      and empty: "ms = [] \<longrightarrow>
               total_holdings s = 0
             \<and> PortfolioSummary.total_cost s = Dec 0 0
             \<and> total_current_value s = Dec 0 0
             \<and> total_absolute_return s = Dec 0 0
             \<and> total_percentage_return s = Dec 0 0
             \<and> best_performer s = None \<and> worst_performer s = None"
      by blast
    from len none have "ms = []" by simp
    with empty s show ?thesis by blast
  qed
  from tie_found tie_valued tie_lists(1) tie_lists(2) priced mixed_valued tie_lists(4) mixed
    found' bare
  show ?thesis by (intro conjI)
qed

text \<open>
  Claim C7: among the valued holdings with a percentage return, in the order of the
  list, the best performer is the first that reaches the greatest return and the worst
  performer the first that reaches the least; when no holding has a percentage return,
  both are null.
\<close>

theorem C7_best_worst_performer:
  assumes valued: "get_holdings_with_metrics run db pid now = Inr ms"
      and summary: "get_portfolio_summary run db pid now = Inr (Some s)"
  shows "(with_return ms = [] \<longrightarrow> best_performer s = None \<and> worst_performer s = None)
       \<and> (with_return ms \<noteq> [] \<longrightarrow>
            (\<exists>b w. first_max (with_return ms) b
                 \<and> best_performer s = Some (HoldingWithMetrics.symbol b)
                 \<and> first_min (with_return ms) w
                 \<and> worst_performer s = Some (HoldingWithMetrics.symbol w)))"
proof -
  note perf = summary_performers [OF valued summary]
  note scan = performers_loop_scanned [of ms]
  show ?thesis
  proof (cases "with_return ms = []")
    case True
    with scan have "performers_loop ms ((None, None), (None, None)) = ((None, None), (None, None))"
      by (simp add: scanned_def)
    with perf True show ?thesis by simp
  next
    case False
    with scan obtain b w where "first_max (with_return ms) b" "first_min (with_return ms) w"
      "performers_loop ms ((None, None), (None, None))
         = ((Some (HoldingWithMetrics.symbol b), percentage_return b),
            (Some (HoldingWithMetrics.symbol w), percentage_return w))"
      by (auto simp: scanned_def)
    with perf False show ?thesis by auto
  qed
qed

text \<open>
  The theorem at a portfolio whose holdings AAA and BBB both return 10 percent and whose
  holding CCC returns -10 percent: the best performer is AAA, the first of the tie.
\<close>

theorem C7_best_worst_performer_witness:
  "get_holdings_with_metrics tie_quotes tie_db 1 5 = Inr tie_metrics
   \<and> with_return tie_metrics = tie_metrics
   \<and> map return_of tie_metrics = [10, 10, - 10]
   \<and> (\<exists>s. get_portfolio_summary tie_quotes tie_db 1 5 = Inr (Some s)
         \<and> best_performer s = Some ''AAA''
         \<and> worst_performer s = Some ''CCC''
         \<and> (\<exists>b w. first_max tie_metrics b
                 \<and> best_performer s = Some (HoldingWithMetrics.symbol b)
                 \<and> first_min tie_metrics w
                 \<and> worst_performer s = Some (HoldingWithMetrics.symbol w)))"
proof -
  have all: "with_return tie_metrics = tie_metrics"
    by (simp add: with_return_def tie_metrics_def)
  have rets: "map return_of tie_metrics = [10, 10, - 10]"
    by (simp add: tie_metrics_def return_of_def dec_val_def)
  have ne: "with_return tie_metrics \<noteq> []"
    unfolding all by (simp add: tie_metrics_def)
  from C7_best_worst_performer [OF tie_valued tie_summary, THEN conjunct2, THEN mp, OF ne]
  show ?thesis using tie_valued tie_summary all rets by simp
qed

text \<open>
  Claim C8, as amended: adding a holding, when it succeeds, and updating the symbol of a
  holding store the symbol in upper case (upper case is a fixed point of the conversion,
  so a store whose symbols are all upper case stays so). The price service does not
  convert. The cache lookup of a resolution depends on the entry under the symbol exactly
  as given and on nothing else in the cache, and no entry under that string is a miss; a
  fetched price is written under that string and every other key is left alone. The
  fallback query depends on the history rows whose symbol equals the given string and on
  no other row: with no such row it finds nothing, and a price it finds is that of such a
  row. The keys of the price map are the symbols exactly as given.
\<close>

theorem C8_symbol_case:
  "(\<forall>holding db'.
       add_holding db holding_data now = Inr (holding, db')
       \<longrightarrow> Holding.symbol holding = upper (HoldingCreate.symbol holding_data)
           \<and> holdings db' = holdings db @ [holding])
   \<and> (\<forall>holding db' s'.
         update_holding db holding_id upd now = (Some holding, db')
         \<and> HoldingUpdate.symbol upd = Some s'
         \<longrightarrow> Holding.symbol holding = upper s')
   \<and> upper (upper s) = upper s
   \<and> (canonical db \<longrightarrow>
         (\<forall>holding db'. add_holding db holding_data now = Inr (holding, db') \<longrightarrow> canonical db')
       \<and> canonical (snd (update_holding db holding_id upd now)))
   \<and> (\<forall>self'. price_cache self' symb = price_cache self symb
                \<and> cache_duration self' = cache_duration self
         \<longrightarrow> cache_lookup self' now' symb = cache_lookup self now' symb)
   \<and> (price_cache self symb = None \<longrightarrow> cache_lookup self now' symb = None)
   \<and> (\<forall>p calls. cache_lookup self (now_lookup w) symb = None
                  \<and> fetch_price w symb = (Inr (Some p), calls)
         \<longrightarrow> price_cache (fst (snd (get_current_price self db w symb))) symb
             = Some (p, now_cached w))
   \<and> (\<forall>k. k \<noteq> symb
         \<longrightarrow> price_cache (fst (snd (get_current_price self db w symb))) k = price_cache self k)
   \<and> (\<forall>db2. filter (\<lambda>r. PriceHistory.symbol r = symb) (price_history db2)
                = filter (\<lambda>r. PriceHistory.symbol r = symb) (price_history db)
         \<longrightarrow> get_last_known_price db2 w symb = get_last_known_price db w symb)
   \<and> ((\<forall>r \<in> set (price_history db). PriceHistory.symbol r \<noteq> symb)
         \<longrightarrow> get_last_known_price db w symb = None)
   \<and> (\<forall>p. get_last_known_price db w symb = Some p
         \<longrightarrow> (\<exists>r \<in> set (price_history db). PriceHistory.symbol r = symb \<and> price r = p))
   \<and> dom (get_multiple_prices run symbols) = set symbols"
proof (intro conjI allI impI)
  fix holding db'
  assume a: "add_holding db holding_data now = Inr (holding, db')"
  from add_holding_stored [OF a]
  show "Holding.symbol holding = upper (HoldingCreate.symbol holding_data)"
    and "holdings db' = holdings db @ [holding]" by simp_all
next
  fix holding db' s'
  assume "update_holding db holding_id upd now = (Some holding, db') \<and> HoldingUpdate.symbol upd = Some s'"
  then show "Holding.symbol holding = upper s'"
    using update_holding_symbol [of db holding_id upd now holding db'] by simp
next
  show "upper (upper s) = upper s" by (rule upper_idem)
next
  fix holding db'
  assume "canonical db" "add_holding db holding_data now = Inr (holding, db')"
  then show "canonical db'" by (rule add_holding_canonical)
next
  assume "canonical db"
  then show "canonical (snd (update_holding db holding_id upd now))" by (rule update_holding_canonical)
next
  fix self' :: PriceService
  assume "price_cache self' symb = price_cache self symb \<and> cache_duration self' = cache_duration self"
  then have "price_cache self' symb = price_cache self symb"
    and "cache_duration self' = cache_duration self" by simp_all
  then show "cache_lookup self' now' symb = cache_lookup self now' symb"
    by (rule cache_lookup_entry)
next
  assume "price_cache self symb = None"
  then show "cache_lookup self now' symb = None" by (rule cache_lookup_no_entry)
next
  fix p calls
  assume "cache_lookup self (now_lookup w) symb = None \<and> fetch_price w symb = (Inr (Some p), calls)"
  then show "price_cache (fst (snd (get_current_price self db w symb))) symb = Some (p, now_cached w)"
    using get_current_price_stored_key [of self w symb p calls db] by simp
next
  fix k assume "k \<noteq> symb"
  then show "price_cache (fst (snd (get_current_price self db w symb))) k = price_cache self k"
    by (rule get_current_price_other_keys)
next
  fix db2 :: database
  assume "filter (\<lambda>r. PriceHistory.symbol r = symb) (price_history db2)
                = filter (\<lambda>r. PriceHistory.symbol r = symb) (price_history db)"
  then show "get_last_known_price db2 w symb = get_last_known_price db w symb"
    by (rule get_last_known_price_rows)
next
  assume "\<forall>r \<in> set (price_history db). PriceHistory.symbol r \<noteq> symb"
  then show "get_last_known_price db w symb = None" by (rule get_last_known_price_no_row)
next
  fix p assume "get_last_known_price db w symb = Some p"
  then show "\<exists>r \<in> set (price_history db). PriceHistory.symbol r = symb \<and> price r = p"
    by (rule get_last_known_price_row)
next
  show "dom (get_multiple_prices run symbols) = set symbols" by (rule get_multiple_prices_dom)
qed

text \<open>
  The theorem at a holding created as aapl in an existing portfolio and renamed to
  btc-usd, at a resolution of test in a service that has TEST cached, and at the fallback
  query for aapl in a history that has a row for AAPL.
\<close>

theorem C8_symbol_case_witness:
  "get_portfolio bare_db 1 \<noteq> None
   \<and> canonical bare_db
   \<and> (\<exists>holding db'.
         add_holding bare_db lower_create 0 = Inr (holding, db')
         \<and> Holding.symbol holding = ''AAPL''
         \<and> canonical db'
         \<and> (\<exists>renamed db''.
               update_holding db' 1 rename_update 7 = (Some renamed, db'')
               \<and> Holding.symbol renamed = ''BTC-USD''))
   \<and> price_cache cached_service ''test'' = None
   \<and> cache_lookup cached_service 0 ''test'' = None
   \<and> ''TEST'' \<noteq> ''test''
   \<and> price_cache (fst (snd (get_current_price cached_service empty_db
                               (env_at (provider_quotes (Dec 1 0)) 0) ''test''))) ''TEST''
       = Some (Dec 10000 (- 2), 0)
   \<and> price_cache (fst (snd (get_current_price cached_service empty_db
                               (env_at (provider_quotes (Dec 1 0)) 0) ''test''))) ''test''
       = Some (Dec 1 0, 0)
   \<and> get_last_known_price aapl_history (env_at provider_down 0) ''aapl'' = None"
proof -
  let ?w = "env_at (provider_quotes (Dec 1 0)) 0"
  note c8 = C8_symbol_case [where db = bare_db and holding_data = lower_create and now = 0
      and symb = "''test''" and self = cached_service and now' = 0]
  note added = c8 [THEN conjunct1, rule_format]
  note kept = c8 [THEN conjunct2, THEN conjunct2, THEN conjunct2, THEN conjunct1, THEN mp,
      THEN conjunct1, rule_format]
  note missing = c8 [THEN conjunct2, THEN conjunct2, THEN conjunct2, THEN conjunct2,
      THEN conjunct2, THEN conjunct1, THEN mp]
  note c8p = C8_symbol_case [where db = empty_db and symb = "''test''" and self = cached_service
      and w = ?w]
  note stored = c8p [THEN conjunct2, THEN conjunct2, THEN conjunct2, THEN conjunct2,
      THEN conjunct2, THEN conjunct2, THEN conjunct1, rule_format, OF conjI]
  note others = c8p [THEN conjunct2, THEN conjunct2, THEN conjunct2, THEN conjunct2,
      THEN conjunct2, THEN conjunct2, THEN conjunct2, THEN conjunct1, rule_format]
  note c8h = C8_symbol_case [where db = aapl_history and symb = "''aapl''"
      and w = "env_at provider_down 0"]
  note no_row = c8h [THEN conjunct2, THEN conjunct2, THEN conjunct2, THEN conjunct2,
      THEN conjunct2, THEN conjunct2, THEN conjunct2, THEN conjunct2, THEN conjunct2,
      THEN conjunct1, THEN mp]
  have up1: "upper ''aapl'' = ''AAPL''" by (simp add: upper_def upper_char_def)
  have up2: "upper ''btc-usd'' = ''BTC-USD''" by (simp add: upper_def upper_char_def)
  have port: "get_portfolio bare_db 1 \<noteq> None"
    by (simp add: get_portfolio_def bare_db_def sample_portfolio_def)
  have can: "canonical bare_db" by (simp add: canonical_def bare_db_def)
  have "\<exists>holding db'. add_holding bare_db lower_create 0 = Inr (holding, db')
          \<and> get_holding db' 1 \<noteq> None"
    by (simp add: add_holding_def get_portfolio_def bare_db_def sample_portfolio_def
        lower_create_def get_holding_def next_id_def Let_def)
  then obtain holding db' where a: "add_holding bare_db lower_create 0 = Inr (holding, db')"
    and found: "get_holding db' 1 \<noteq> None" by blast
  have sy: "Holding.symbol holding = ''AAPL''"
    using added [OF a, THEN conjunct1] by (simp add: lower_create_def up1)
  have can': "canonical db'" using can a by (rule kept)
  from found obtain renamed db'' where u: "update_holding db' 1 rename_update 7 = (Some renamed, db'')"
    by (auto simp: update_holding_def Let_def)
  have r: "HoldingUpdate.symbol rename_update = Some ''btc-usd''"
    by (simp add: rename_update_def)
  note renaming = C8_symbol_case [where db = db' and holding_id = 1 and upd = rename_update
      and now = 7, THEN conjunct2, THEN conjunct1, rule_format, OF conjI]
  have sy': "Holding.symbol renamed = ''BTC-USD''"
    using renaming [OF u r] by (simp only: up2)
  have none: "price_cache cached_service ''test'' = None" by (simp add: cached_service_def)
  have miss: "cache_lookup cached_service 0 ''test'' = None" using none by (rule missing)
  have ne: "''TEST'' \<noteq> ''test''" by simp
  have d: "price_cache (fst (snd (get_current_price cached_service empty_db ?w ''test''))) ''TEST''
       = Some (Dec 10000 (- 2), 0)"
    using others [OF ne] by (simp add: cached_service_def)
  have miss': "cache_lookup cached_service (now_lookup ?w) ''test'' = None"
    using none by (simp add: cache_lookup_def)
  have fetched: "fetch_price ?w ''test''
      = (Inr (Some (Dec 1 0)), [TickerCall ''test'', InfoRead ''test''])"
    by (simp add: fetch_price_def env_at_def provider_quotes_def price_fields_def to_decimal_def)
  have e: "price_cache (fst (snd (get_current_price cached_service empty_db ?w ''test''))) ''test''
       = Some (Dec 1 0, 0)"
    using stored [OF miss' fetched] by (simp add: env_at_def)
  have rows: "\<forall>r \<in> set (price_history aapl_history). PriceHistory.symbol r \<noteq> ''aapl''"
    by (simp add: aapl_history_def)
  have f: "get_last_known_price aapl_history (env_at provider_down 0) ''aapl'' = None"
    using rows by (rule no_row)
  from a sy can' u sy' have g: "\<exists>holding db'.
         add_holding bare_db lower_create 0 = Inr (holding, db')
         \<and> Holding.symbol holding = ''AAPL''
         \<and> canonical db'
         \<and> (\<exists>renamed db''.
               update_holding db' 1 rename_update 7 = (Some renamed, db'')
               \<and> Holding.symbol renamed = ''BTC-USD'')" by blast
  from port can g none miss ne d e f show ?thesis by (intro conjI)
qed

text \<open>
  The claim as stated fails. With 100.00 cached for TEST and a provider that is down, the
  resolution of test gives no price, while that of its upper case form gives 100.00. With
  an empty cache, a history row of 150 for AAPL and a provider that is down, the
  resolution of aapl gives no price, while that of its upper case form gives the 150 of
  the fallback query.
\<close>

theorem C8_counterexample:
  "upper ''test'' = ''TEST''
   \<and> fst (get_current_price cached_service empty_db (env_at provider_down 0) ''test'') = None
   \<and> fst (get_current_price cached_service empty_db (env_at provider_down 0) (upper ''test''))
       = Some (Dec 10000 (- 2))
   \<and> upper ''aapl'' = ''AAPL''
   \<and> fst (get_current_price PriceService_init aapl_history (env_at provider_down 0) ''aapl'') = None
   \<and> fst (get_current_price PriceService_init aapl_history (env_at provider_down 0) (upper ''aapl''))
       = Some (Dec 150 0)"
  by (simp add: upper_def upper_char_def get_current_price_def cache_lookup_def
      cached_service_def PriceService_init_def aenter_def fetch_price_def env_at_def
      provider_down_def get_last_known_price_def empty_db_def aapl_history_def total_seconds_def)

end
